theory Spec2Isabelle
  imports Main "HOL-Library.Word" "HOL-Library.Monad_Syntax"
begin

section \<open>Data model of \<open>active_application.cpp\<close>\<close>

text \<open>
  The file drives four external collaborators: the internal flash driver (\<open>FlashIAP\<close>), the
  update client (\<open>ARM_UCP_*\<close> and the header codec), the SHA-256 context of mbedtls and
  the unaligned block device holding the mirror. None of them is implemented in the file,
  so each is a field of the record \<open>platform\<close>: a function on an abstract device state
  \<open>'s\<close> that returns what the call returns and the device state after the call.
  A function of the file that does not return (a busy-wait that is never released, a failed
  \<open>MBED_BOOTLOADER_ASSERT\<close>, a loop that runs forever) has the value \<open>None\<close>.
\<close>

type_synonym u8 = "8 word"
type_synonym u32 = "32 word"
type_synonym u64 = "64 word"

text \<open>\<open>arm_uc_firmware_details_t\<close>: the fields the file reads. \<open>size\<close> is 64 bits wide
  (the file prints it with \<open>PRIu64\<close>).\<close>

record arm_uc_firmware_details_t =
  version :: u64
  size_d :: u64
  hash :: "u8 list"

datatype arm_uc_error = ERR_NONE | ERR_OTHER nat

datatype event =
    CLEAR_EVENT
  | ARM_UC_PAAL_EVENT_GET_ACTIVE_FIRMWARE_DETAILS_DONE
  | ARM_UC_PAAL_EVENT_READ_DONE
  | EVENT_OTHER nat

datatype result = RESULT_SUCCESS | RESULT_EMPTY | RESULT_ERROR

definition SIZEOF_SHA256 :: nat where
  "SIZEOF_SHA256 = 32"

definition BD_ERROR_OK :: int where
  "BD_ERROR_OK = 0"

text \<open>The build-time constants the file takes from headers that are not part of it, and the
  object representation of \<open>arm_uc_firmware_details_t\<close> (the file reads and programs the
  struct as \<open>sizeof(arm_uc_firmware_details_t)\<close> raw bytes).\<close>

record config =
  BUFFER_SIZE :: u32
  MBED_CONF_APP_APPLICATION_START_ADDRESS :: u32
  MBED_CONF_APP_MAX_APPLICATION_SIZE :: u32
  FIRMWARE_METADATA_HEADER_ADDRESS :: u32
  FIRMWARE_METADATA_HEADER_SIZE :: u32
  ARM_UC_INTERNAL_HEADER_SIZE_V2 :: u32
  sizeof_details :: u32
  details_bytes :: "arm_uc_firmware_details_t \<Rightarrow> u8 list"
  details_of_bytes :: "u8 list \<Rightarrow> arm_uc_firmware_details_t"

text \<open>
  The capabilities. A status is the \<open>int\<close> the driver returns (0 is success). A read
  returns the bytes it stored at the start of the destination. The asynchronous calls of the
  update client return the error of the call and the value the completion callback leaves in
  \<open>event_callback\<close> (\<open>CLEAR_EVENT\<close>: the callback never runs).
  \<open>get_page_size\<close> and \<open>get_sector_size\<close> are \<open>const\<close> methods of the driver.
  \<open>BdSha256::calculate\<close> is given the staging buffer as its work area: it returns the
  digest it stored in \<open>shaInBd\<close> and the buffer as it left it.
\<close>

record ('s, 'c) platform =
  flash_read :: "u32 \<Rightarrow> u32 \<Rightarrow> 's \<Rightarrow> (int \<times> u8 list) \<times> 's"
  flash_program :: "u8 list \<Rightarrow> u32 \<Rightarrow> u32 \<Rightarrow> 's \<Rightarrow> int \<times> 's"
  flash_erase :: "u32 \<Rightarrow> u32 \<Rightarrow> 's \<Rightarrow> int \<times> 's"
  flash_get_page_size :: u32
  flash_get_sector_size :: "u32 \<Rightarrow> u32"
  ARM_UCP_GetActiveFirmwareDetails ::
    "arm_uc_firmware_details_t \<Rightarrow> 's \<Rightarrow> (arm_uc_error \<times> event \<times> arm_uc_firmware_details_t) \<times> 's"
  ARM_UCP_Read :: "u32 \<Rightarrow> u32 \<Rightarrow> u32 \<Rightarrow> 's \<Rightarrow> (arm_uc_error \<times> event \<times> u32 \<times> u8 list) \<times> 's"
  arm_uc_create_internal_header_v2 :: "arm_uc_firmware_details_t \<Rightarrow> arm_uc_error \<times> u32 \<times> u8 list"
  mbedtls_sha256_starts :: 'c
  mbedtls_sha256_update :: "'c \<Rightarrow> u8 list \<Rightarrow> 'c"
  mbedtls_sha256_finish :: "'c \<Rightarrow> u8 list"
  ubd_init :: "'s \<Rightarrow> int \<times> 's"
  ubd_read :: "u32 \<Rightarrow> u32 \<Rightarrow> 's \<Rightarrow> (int \<times> u8 list) \<times> 's"
  ubd_program :: "u8 list \<Rightarrow> u32 \<Rightarrow> u32 \<Rightarrow> 's \<Rightarrow> int \<times> 's"
  bdSha256_calculate :: "u8 list \<Rightarrow> u32 \<Rightarrow> u64 \<Rightarrow> 's \<Rightarrow> (u8 list \<times> u8 list) \<times> 's"

text \<open>The calls issued to the collaborators, in the order of issue, and what \<open>printf\<close>
  wrote. The log is the only part of the state the source does not have: it records
  what the code did, and no function reads it.\<close>

datatype call =
    Flash_read u32 u32 int
  | Flash_program "u8 list" u32 u32 int
  | Flash_erase u32 u32 int
  | UCP_GetActiveFirmwareDetails
  | UCP_Read u32 u32 u32
  | Create_internal_header
  | Ubd_init int
  | Ubd_read u32 u32 int
  | Ubd_program "u8 list" u32 u32 int
  | BdSha256_calculate u32 u64 "u8 list"
  | Printf string

record 's machine =
  dev :: 's
  buffer_array :: "u8 list"
  calls :: "call list"

definition new_calls :: "'s machine \<Rightarrow> 's machine \<Rightarrow> call list" where
  "new_calls s s' = drop (length (calls s)) (calls s')"

text \<open>Storing \<open>data\<close> at the start of a buffer; \<open>memcmp(a, b, n) == 0\<close>.\<close>

definition store :: "u8 list \<Rightarrow> u8 list \<Rightarrow> u8 list" where
  "store buf data = data @ drop (length data) buf"

definition memcmp_eq :: "u8 list \<Rightarrow> u8 list \<Rightarrow> nat \<Rightarrow> bool" where
  "memcmp_eq a b n = (take n a = take n b)"

section \<open>Reading the header\<close>

text \<open>\<open>while (event_callback == CLEAR_EVENT) __WFI();\<close> returns once the callback has
  stored an event, and never if it stores none.\<close>

definition wait_event :: "event \<Rightarrow> event option" where
  "wait_event ev = (if ev = CLEAR_EVENT then None else Some ev)"

definition readActiveFirmwareHeader ::
  "('s, 'c) platform \<Rightarrow> arm_uc_firmware_details_t option \<Rightarrow> 's machine
     \<Rightarrow> ((bool \<times> arm_uc_firmware_details_t option) \<times> 's machine) option" where
  "readActiveFirmwareHeader hw details s =
     (case details of
        None \<Rightarrow> Some ((False, None), s)
      | Some d \<Rightarrow>
          (case ARM_UCP_GetActiveFirmwareDetails hw d (dev s) of
             ((status, ev, d'), t) \<Rightarrow>
               let s' = s\<lparr>dev := t, calls := calls s @ [UCP_GetActiveFirmwareDetails]\<rparr> in
               if status = ERR_NONE then
                 do {
                   event_callback \<leftarrow> wait_event ev;
                   Some ((event_callback = ARM_UC_PAAL_EVENT_GET_ACTIVE_FIRMWARE_DETAILS_DONE,
                          Some d'), s')
                 }
               else Some ((False, Some d'), s')))"

section \<open>Verifying the active application\<close>

text \<open>The loop of \<open>checkActiveApplication\<close>. \<open>dsize\<close> is \<open>details->size\<close> (64 bits),
  \<open>remaining\<close> and the address handed to \<open>flash.read\<close> are 32 bits: the address
  \<open>appStart + (details->size - remaining)\<close> is computed in 64 bits and truncated by the
  call. The hash is updated with the buffer whatever the status of the read was.\<close>

partial_function (option) check_loop ::
  "config \<Rightarrow> ('s, 'c) platform \<Rightarrow> u64 \<Rightarrow> u32 \<Rightarrow> int \<Rightarrow> 'c \<Rightarrow> 's machine
     \<Rightarrow> ('c \<times> 's machine) option" where
  [code]: "check_loop cfg hw dsize remaining status ctx s =
     (if remaining > 0 \<and> status = 0 then
        (let readSize = (if remaining > BUFFER_SIZE cfg then BUFFER_SIZE cfg else remaining);
             addr = (ucast ((ucast (MBED_CONF_APP_APPLICATION_START_ADDRESS cfg) :: u64)
                            + (dsize - ucast remaining)) :: u32)
         in case flash_read hw addr readSize (dev s) of
              ((status', data), t) \<Rightarrow>
                let s' = s\<lparr>dev := t,
                           buffer_array := store (buffer_array s) (take (unat readSize) data),
                           calls := calls s @ [Flash_read addr readSize status']\<rparr>;
                    ctx' = mbedtls_sha256_update hw ctx (take (unat readSize) (buffer_array s'))
                in check_loop cfg hw dsize (remaining - readSize) status' ctx' s')
      else Some (ctx, s))"

definition checkActiveApplication ::
  "config \<Rightarrow> ('s, 'c) platform \<Rightarrow> arm_uc_firmware_details_t option \<Rightarrow> 's machine
     \<Rightarrow> ((result \<times> arm_uc_firmware_details_t option) \<times> 's machine) option" where
  "checkActiveApplication cfg hw details s =
     (case details of
        None \<Rightarrow> Some ((RESULT_ERROR, None), s)
      | Some d \<Rightarrow>
          do {
            ((headerValid, details'), s1) \<leftarrow> readActiveFirmwareHeader hw (Some d) s;
            (case details' of
               None \<Rightarrow> Some ((RESULT_ERROR, None), s1)
             | Some d' \<Rightarrow>
                 if headerValid \<and> size_d d' > 0 then
                   do {
                     (ctx, s2) \<leftarrow> check_loop cfg hw (size_d d') (ucast (size_d d')) 0
                                    (mbedtls_sha256_starts hw) s1;
                     let SHA = mbedtls_sha256_finish hw ctx;
                     Some ((if memcmp_eq (hash d') SHA SIZEOF_SHA256
                            then RESULT_SUCCESS else RESULT_ERROR, Some d'), s2)
                   }
                 else if headerValid \<and> size_d d' = 0 then Some ((RESULT_EMPTY, Some d'), s1)
                 else Some ((RESULT_ERROR, Some d'), s1))
          })"

section \<open>Erasing the active region\<close>

text \<open>The first loop of \<open>eraseActiveFirmware\<close>: the end of the sectors that cover
  \<open>size_needed\<close> bytes from the header address. All arithmetic is \<open>uint32_t\<close>.
  \<open>get_sector_size\<close> is a query and is not logged.\<close>

partial_function (option) erase_end :: "('s, 'c) platform \<Rightarrow> u32 \<Rightarrow> u32 \<Rightarrow> u32 option" where
  [code]: "erase_end hw limit erase_address =
     (if erase_address < limit
      then erase_end hw limit (erase_address + flash_get_sector_size hw erase_address)
      else Some erase_address)"

text \<open>The second loop: one \<open>flash.erase\<close> per sector, \<open>break\<close> on the first status
  that is not 0.\<close>

partial_function (option) erase_sectors ::
  "('s, 'c) platform \<Rightarrow> u32 \<Rightarrow> u32 \<Rightarrow> int \<Rightarrow> 's machine \<Rightarrow> (int \<times> 's machine) option" where
  [code]: "erase_sectors hw limit erase_address result s =
     (if erase_address < limit then
        (let sector_size = flash_get_sector_size hw erase_address
         in case flash_erase hw erase_address sector_size (dev s) of
              (result', t) \<Rightarrow>
                let s' = s\<lparr>dev := t,
                           calls := calls s @ [Flash_erase erase_address sector_size result']\<rparr>
                in if result' \<noteq> 0 then Some (result', s')
                   else erase_sectors hw limit (erase_address + sector_size) result' s')
      else Some (result, s))"

definition eraseActiveFirmware ::
  "config \<Rightarrow> ('s, 'c) platform \<Rightarrow> u32 \<Rightarrow> 's machine \<Rightarrow> (bool \<times> 's machine) option" where
  "eraseActiveFirmware cfg hw firmwareSize s =
     (let size_needed = FIRMWARE_METADATA_HEADER_SIZE cfg + firmwareSize;
          limit = FIRMWARE_METADATA_HEADER_ADDRESS cfg + size_needed
      in do {
           erase_address \<leftarrow> erase_end hw limit (FIRMWARE_METADATA_HEADER_ADDRESS cfg);
           if erase_address < MBED_CONF_APP_MAX_APPLICATION_SIZE cfg
                              + MBED_CONF_APP_APPLICATION_START_ADDRESS cfg
           then do {
                  (result, s') \<leftarrow> erase_sectors hw limit (FIRMWARE_METADATA_HEADER_ADDRESS cfg) (- 1) s;
                  Some (result = 0, s')
                }
           else Some (False, s)
         })"

section \<open>Writing the header and the payload\<close>

text \<open>A division by a page size of 0 has no defined result, and a failed
  \<open>MBED_BOOTLOADER_ASSERT\<close> does not return: both are \<open>None\<close>.\<close>

definition writeActiveFirmwareHeader ::
  "config \<Rightarrow> ('s, 'c) platform \<Rightarrow> arm_uc_firmware_details_t option \<Rightarrow> 's machine
     \<Rightarrow> (bool \<times> 's machine) option" where
  "writeActiveFirmwareHeader cfg hw details s =
     (let s0 = s\<lparr>calls := calls s @ [Printf ''writeActiveFirmwareHeader\<newline>'']\<rparr>
      in case details of
           None \<Rightarrow> Some (False, s0)
         | Some d \<Rightarrow>
             let pageSize = flash_get_page_size hw
             in if pageSize = 0 then None
                else
                  let programSize =
                        (ARM_UC_INTERNAL_HEADER_SIZE_V2 cfg + pageSize - 1) div pageSize * pageSize
                  in if \<not> programSize \<le> BUFFER_SIZE cfg then None
                     else if \<not> programSize \<le> FIRMWARE_METADATA_HEADER_SIZE cfg then None
                     else
                       (case arm_uc_create_internal_header_v2 hw d of
                          (status, output_size, bytes) \<Rightarrow>
                            let padded = store (buffer_array s0) (replicate (unat programSize) 0xFF);
                                s1 = s0\<lparr>buffer_array := store padded bytes,
                                         calls := calls s0 @ [Create_internal_header]\<rparr>
                            in if status = ERR_NONE
                                  \<and> output_size = ARM_UC_INTERNAL_HEADER_SIZE_V2 cfg
                               then
                                 (let data = take (unat programSize) (buffer_array s1);
                                      addr = FIRMWARE_METADATA_HEADER_ADDRESS cfg
                                  in case flash_program hw data addr programSize (dev s1) of
                                       (ret, t) \<Rightarrow>
                                         Some (ret = 0,
                                               s1\<lparr>dev := t,
                                                  calls := calls s1
                                                    @ [Flash_program data addr programSize ret]\<rparr>))
                               else Some (False, s1)))"

text \<open>The inner loop of \<open>writeActiveFirmware\<close>: one \<open>flash.program\<close> of one page per
  iteration, from \<open>buffer.ptr[programOffset]\<close> to
  \<open>app_start_addr + offset + programOffset\<close>.\<close>

partial_function (option) program_pages ::
  "('s, 'c) platform \<Rightarrow> u32 \<Rightarrow> u32 \<Rightarrow> u32 \<Rightarrow> u32 \<Rightarrow> u32 \<Rightarrow> int \<Rightarrow> 's machine
     \<Rightarrow> (int \<times> 's machine) option" where
  [code]: "program_pages hw app_start_addr offset pageSize programSize programOffset retval s =
     (if programOffset < programSize \<and> retval = 0 then
        (let addr = app_start_addr + offset + programOffset;
             data = take (unat pageSize) (drop (unat programOffset) (buffer_array s))
         in case flash_program hw data addr pageSize (dev s) of
              (retval', t) \<Rightarrow>
                program_pages hw app_start_addr offset pageSize programSize
                  (programOffset + pageSize) retval'
                  (s\<lparr>dev := t,
                     calls := calls s @ [Flash_program data addr pageSize retval']\<rparr>))
      else Some (retval, s))"

text \<open>The outer loop. \<open>offset\<close> is \<open>uint32_t\<close> and \<open>details->size\<close> is 64 bits, so the
  comparison and the subtraction are done in 64 bits. \<open>ARM_UCP_Read\<close> returns the bytes
  it stored in the buffer and the \<open>buffer.size\<close> it left.\<close>

partial_function (option) write_loop ::
  "config \<Rightarrow> ('s, 'c) platform \<Rightarrow> u32 \<Rightarrow> u64 \<Rightarrow> u32 \<Rightarrow> u32 \<Rightarrow> u32 \<Rightarrow> int \<Rightarrow> 's machine
     \<Rightarrow> (int \<times> 's machine) option" where
  [code]: "write_loop cfg hw index dsize pageSize size_max offset retval s =
     (if ucast offset < dsize \<and> retval = 0 then
        (let buffer_size = (if dsize - ucast offset > ucast size_max
                            then size_max else ucast (dsize - ucast offset))
         in case ARM_UCP_Read hw index offset buffer_size (dev s) of
              ((ucp_status, ev, buffer_size', data), t) \<Rightarrow>
                let s1 = s\<lparr>dev := t,
                           buffer_array := store (buffer_array s) data,
                           calls := calls s @ [UCP_Read index offset buffer_size]\<rparr>
                in do {
                     event_callback \<leftarrow> (if ucp_status = ERR_NONE then wait_event ev else Some ev);
                     if event_callback = ARM_UC_PAAL_EVENT_READ_DONE \<and> buffer_size' > 0 then
                       (let programSize = (buffer_size' + pageSize - 1) div pageSize * pageSize
                        in do {
                             (retval', s2) \<leftarrow>
                               program_pages hw (MBED_CONF_APP_APPLICATION_START_ADDRESS cfg)
                                 offset pageSize programSize 0 retval s1;
                             write_loop cfg hw index dsize pageSize size_max
                               (offset + programSize) retval' s2
                           })
                     else Some (- 1, s1)
                   })
      else Some (retval, s))"

definition writeActiveFirmware ::
  "config \<Rightarrow> ('s, 'c) platform \<Rightarrow> u32 \<Rightarrow> arm_uc_firmware_details_t option \<Rightarrow> 's machine
     \<Rightarrow> (bool \<times> 's machine) option" where
  "writeActiveFirmware cfg hw index details s =
     (case details of
        None \<Rightarrow> Some (False, s)
      | Some d \<Rightarrow>
          let pageSize = flash_get_page_size hw;
              app_start_addr = MBED_CONF_APP_APPLICATION_START_ADDRESS cfg
          in if pageSize = 0 then None
             else if app_start_addr mod pageSize \<noteq> 0 then None
             else
               let readSize = (BUFFER_SIZE cfg div pageSize) * pageSize
               in do {
                    (retval, s') \<leftarrow> write_loop cfg hw index (size_d d) pageSize readSize 0 0 s;
                    Some (retval = 0, s')
                  })"

section \<open>Replacing the active application\<close>

text \<open>\<open>eraseActiveFirmware\<close> takes a \<open>uint32_t\<close>: the call truncates \<open>details->size\<close>.\<close>

definition copyStoredApplication ::
  "config \<Rightarrow> ('s, 'c) platform \<Rightarrow> u32 \<Rightarrow> arm_uc_firmware_details_t \<Rightarrow> 's machine
     \<Rightarrow> (bool \<times> 's machine) option" where
  "copyStoredApplication cfg hw index details s =
     do {
       (result1, s1) \<leftarrow> eraseActiveFirmware cfg hw (ucast (size_d details)) s;
       (result2, s2) \<leftarrow> (if result1 then writeActiveFirmwareHeader cfg hw (Some details) s1
                          else Some (result1, s1));
       (result3, s3) \<leftarrow> (if result2 then writeActiveFirmware cfg hw index (Some details) s2
                          else Some (result2, s2));
       if result3 then
         do {
           ((recheck, details'), s4) \<leftarrow> checkActiveApplication cfg hw (Some details) s3;
           Some (recheck = RESULT_SUCCESS, s4)
         }
       else Some (result3, s3)
     }"

section \<open>Mirroring the active application\<close>

text \<open>The copy loop of \<open>copyActiveApplicationIntoFlash\<close>. The value of \<open>ubd.program\<close>
  is not assigned to anything. \<open>wait_ms\<close> has no effect on the state.\<close>

partial_function (option) copy_loop ::
  "config \<Rightarrow> ('s, 'c) platform \<Rightarrow> u64 \<Rightarrow> u32 \<Rightarrow> int \<Rightarrow> u32 \<Rightarrow> 's machine \<Rightarrow> 's machine option" where
  [code]: "copy_loop cfg hw dsize remaining status offset s =
     (if remaining > 0 \<and> status = 0 then
        (let readSize = (if remaining > BUFFER_SIZE cfg then BUFFER_SIZE cfg else remaining);
             addr = (ucast ((ucast (MBED_CONF_APP_APPLICATION_START_ADDRESS cfg) :: u64)
                            + (dsize - ucast remaining)) :: u32)
         in case flash_read hw addr readSize (dev s) of
              ((status', data), t) \<Rightarrow>
                let s1 = s\<lparr>dev := t,
                           buffer_array := store (buffer_array s) (take (unat readSize) data),
                           calls := calls s @ [Flash_read addr readSize status']\<rparr>;
                    chunk = take (unat readSize) (buffer_array s1)
                in case ubd_program hw chunk offset readSize (dev s1) of
                     (program_status, t') \<Rightarrow>
                       copy_loop cfg hw dsize (remaining - readSize) status' (offset + readSize)
                         (s1\<lparr>dev := t',
                             calls := calls s1
                               @ [Ubd_program chunk offset readSize program_status]\<rparr>))
      else Some s)"

text \<open>\<open>details0\<close> is the indeterminate content of the local \<open>details\<close> before the header
  is read into it.\<close>

definition copyActiveApplicationIntoFlash ::
  "config \<Rightarrow> ('s, 'c) platform \<Rightarrow> arm_uc_firmware_details_t \<Rightarrow> u32 \<Rightarrow> 's machine
     \<Rightarrow> (result \<times> 's machine) option" where
  "copyActiveApplicationIntoFlash cfg hw details0 bdOffset s =
     (let s0 = s\<lparr>calls := calls s
                   @ [Printf ''Copying active firmware into external flash...\<newline>'']\<rparr>
      in case ubd_init hw (dev s0) of
           (bd_status, t0) \<Rightarrow>
             let s1 = s0\<lparr>dev := t0, calls := calls s0 @ [Ubd_init bd_status]\<rparr>
             in if bd_status \<noteq> BD_ERROR_OK then Some (RESULT_ERROR, s1)
                else
                  do {
                    ((headerValid, details_opt), s2) \<leftarrow> readActiveFirmwareHeader hw (Some details0) s1;
                    (case details_opt of
                       None \<Rightarrow> Some (RESULT_ERROR, s2)
                     | Some details \<Rightarrow>
                         if headerValid \<and> size_d details > 0 then
                           (case ubd_read hw bdOffset (sizeof_details cfg) (dev s2) of
                              ((bd_status', bytes), t2) \<Rightarrow>
                                let s3 = s2\<lparr>dev := t2,
                                           calls := calls s2
                                             @ [Ubd_read bdOffset (sizeof_details cfg) bd_status']\<rparr>;
                                    curr_details = details_of_bytes cfg bytes
                                in if bd_status' \<noteq> BD_ERROR_OK then Some (RESULT_ERROR, s3)
                                   else if version curr_details = version details
                                           \<and> size_d curr_details = size_d details
                                   then Some (RESULT_SUCCESS, s3)
                                   else
                                     do {
                                       s4 \<leftarrow> copy_loop cfg hw (size_d details) (ucast (size_d details))
                                               0 (bdOffset + sizeof_details cfg) s3;
                                       (case bdSha256_calculate hw (buffer_array s4)
                                               (bdOffset + sizeof_details cfg)
                                               (size_d details) (dev s4) of
                                          ((shaInBd, buffer'), t4) \<Rightarrow>
                                            let s5 = s4\<lparr>dev := t4,
                                                       buffer_array := buffer',
                                                       calls := calls s4
                                                         @ [BdSha256_calculate
                                                              (bdOffset + sizeof_details cfg)
                                                              (size_d details) shaInBd]\<rparr>
                                            in if memcmp_eq (hash details) shaInBd SIZEOF_SHA256 then
                                                 (let record = details_bytes cfg details
                                                  in case ubd_program hw record bdOffset
                                                          (sizeof_details cfg) (dev s5) of
                                                       (program_status, t5) \<Rightarrow>
                                                         Some (RESULT_SUCCESS,
                                                               s5\<lparr>dev := t5,
                                                                  calls := calls s5
                                                                    @ [Ubd_program record bdOffset
                                                                         (sizeof_details cfg)
                                                                         program_status]\<rparr>))
                                               else Some (RESULT_ERROR, s5))
                                     })
                         else if headerValid \<and> size_d details = 0 then Some (RESULT_EMPTY, s2)
                         else Some (RESULT_ERROR, s2))
                  })"


section \<open>What the claims speak of\<close>

text \<open>The bytes of a region of \<open>n\<close> bytes at address \<open>a\<close> of a memory, the digest of a
  byte sequence by one \<open>update\<close> call, and what is expected of the collaborators: the hash
  is a streaming hash, and a read of the internal flash succeeds, returns the bytes of the
  memory and leaves the memory as it is.\<close>

definition range_bytes :: "(u32 \<Rightarrow> u8) \<Rightarrow> u32 \<Rightarrow> nat \<Rightarrow> u8 list" where
  "range_bytes m a n = map (\<lambda>i. m (a + of_nat i)) [0..<n]"

definition digest :: "('s, 'c) platform \<Rightarrow> u8 list \<Rightarrow> u8 list" where
  "digest hw bytes =
     mbedtls_sha256_finish hw (mbedtls_sha256_update hw (mbedtls_sha256_starts hw) bytes)"

definition sha256_streaming :: "('s, 'c) platform \<Rightarrow> bool" where
  "sha256_streaming hw \<longleftrightarrow>
     (\<forall>c a b. mbedtls_sha256_update hw (mbedtls_sha256_update hw c a) b
              = mbedtls_sha256_update hw c (a @ b))"

definition flash_reads_ok :: "('s, 'c) platform \<Rightarrow> ('s \<Rightarrow> u32 \<Rightarrow> u8) \<Rightarrow> bool" where
  "flash_reads_ok hw mem \<longleftrightarrow>
     (\<forall>addr n t. fst (fst (flash_read hw addr n t)) = 0
               \<and> snd (fst (flash_read hw addr n t)) = range_bytes (mem t) addr (unat n)
               \<and> mem (snd (flash_read hw addr n t)) = mem t)"

section \<open>A small platform to run the code on\<close>

text \<open>A device with 64 bytes of internal flash (header at 0, application at 40, pages of 4
  bytes, sectors of 8 bytes), a block device, and an update source holding one candidate
  image. The header codec stores the version and the size in one byte each, followed by the
  32 bytes of the hash. The hash keeps the number of bytes and their sum: it is a streaming
  hash, and its digest has 32 bytes.\<close>

record toy_dev =
  iflash :: "u8 list"
  xflash :: "u8 list"
  candidate :: "u8 list"

definition overwrite :: "u8 list \<Rightarrow> nat \<Rightarrow> u8 list \<Rightarrow> u8 list" where
  "overwrite xs i data = take i xs @ data @ drop (i + length data) xs"

definition toy_mem :: "toy_dev \<Rightarrow> u32 \<Rightarrow> u8" where
  "toy_mem t a = (if unat a < length (iflash t) then iflash t ! unat a else 0xFF)"

definition toy_encode :: "arm_uc_firmware_details_t \<Rightarrow> u8 list" where
  "toy_encode d = [ucast (version d), ucast (size_d d)] @ take 32 (hash d)"

definition toy_decode :: "u8 list \<Rightarrow> arm_uc_firmware_details_t" where
  "toy_decode bytes =
     \<lparr>version = ucast (bytes ! 0), size_d = ucast (bytes ! 1), hash = take 32 (drop 2 bytes)\<rparr>"

definition toy_finish :: "nat \<times> u8 \<Rightarrow> u8 list" where
  "toy_finish c =
     [snd c, of_nat (fst c), of_nat (fst c div 2 ^ 8), of_nat (fst c div 2 ^ 16),
      of_nat (fst c div 2 ^ 24), of_nat (fst c div 2 ^ 32)] @ replicate 26 0"

definition toy_cfg :: config where
  "toy_cfg =
     \<lparr>BUFFER_SIZE = 36,
      MBED_CONF_APP_APPLICATION_START_ADDRESS = 40,
      MBED_CONF_APP_MAX_APPLICATION_SIZE = 24,
      FIRMWARE_METADATA_HEADER_ADDRESS = 0,
      FIRMWARE_METADATA_HEADER_SIZE = 40,
      ARM_UC_INTERNAL_HEADER_SIZE_V2 = 34,
      sizeof_details = 34,
      details_bytes = toy_encode,
      details_of_bytes = toy_decode\<rparr>"

definition toy_hw :: "(toy_dev, nat \<times> u8) platform" where
  "toy_hw =
     \<lparr>flash_read = (\<lambda>addr n t. ((0, range_bytes (toy_mem t) addr (unat n)), t)),
      flash_program = (\<lambda>data addr n t.
         (0, t\<lparr>iflash := overwrite (iflash t) (unat addr) (take (unat n) data)\<rparr>)),
      flash_erase = (\<lambda>addr n t.
         (0, t\<lparr>iflash := overwrite (iflash t) (unat addr) (replicate (unat n) 0xFF)\<rparr>)),
      flash_get_page_size = 4,
      flash_get_sector_size = (\<lambda>addr. 8),
      ARM_UCP_GetActiveFirmwareDetails = (\<lambda>d t.
         ((ERR_NONE, ARM_UC_PAAL_EVENT_GET_ACTIVE_FIRMWARE_DETAILS_DONE,
           toy_decode (take 34 (iflash t))), t)),
      ARM_UCP_Read = (\<lambda>index offset n t.
         ((ERR_NONE, ARM_UC_PAAL_EVENT_READ_DONE, n,
           take (unat n) (drop (unat offset) (candidate t))), t)),
      arm_uc_create_internal_header_v2 = (\<lambda>d. (ERR_NONE, 34, toy_encode d)),
      mbedtls_sha256_starts = (0, 0),
      mbedtls_sha256_update = (\<lambda>c bytes. (fst c + length bytes, snd c + sum_list bytes)),
      mbedtls_sha256_finish = toy_finish,
      ubd_init = (\<lambda>t. (0, t)),
      ubd_read = (\<lambda>offset n t. ((0, take (unat n) (drop (unat offset) (xflash t))), t)),
      ubd_program = (\<lambda>data offset n t.
         (0, t\<lparr>xflash := overwrite (xflash t) (unat offset) (take (unat n) data)\<rparr>)),
      bdSha256_calculate = (\<lambda>buffer offset n t.
         ((toy_finish (unat n, sum_list (take (unat n) (drop (unat offset) (xflash t)))),
           buffer), t))\<rparr>"

text \<open>An image of 6 bytes with its header, and the machine holding it.\<close>

definition toy_details :: arm_uc_firmware_details_t where
  "toy_details = \<lparr>version = 1, size_d = 6, hash = toy_finish (6, 21)\<rparr>"

definition toy_image :: "u8 list" where
  "toy_image = toy_encode toy_details @ replicate 6 0xFF @ [1, 2, 3, 4, 5, 6] @ replicate 18 0xFF"

definition toy_s0 :: "toy_dev machine" where
  "toy_s0 = \<lparr>dev = \<lparr>iflash = toy_image, xflash = replicate 48 0, candidate = []\<rparr>,
             buffer_array = replicate 36 0, calls = []\<rparr>"

text \<open>The same platform with an update client that answers the header read with a fixed
  error, event and header; and with an internal flash whose reads fail and store nothing.\<close>

definition toy_hw_header ::
  "arm_uc_error \<Rightarrow> event \<Rightarrow> arm_uc_firmware_details_t \<Rightarrow> (toy_dev, nat \<times> u8) platform" where
  "toy_hw_header status ev d =
     toy_hw\<lparr>ARM_UCP_GetActiveFirmwareDetails := (\<lambda>d0 t. ((status, ev, d), t))\<rparr>"

definition toy_huge_details :: arm_uc_firmware_details_t where
  "toy_huge_details = \<lparr>version = 1, size_d = 2 ^ 32, hash = toy_finish (0, 0)\<rparr>"

definition toy_empty_details :: arm_uc_firmware_details_t where
  "toy_empty_details = \<lparr>version = 2, size_d = 0, hash = replicate 32 0\<rparr>"

definition toy_stale_details :: arm_uc_firmware_details_t where
  "toy_stale_details = \<lparr>version = 1, size_d = 6, hash = toy_finish (6, 0)\<rparr>"

definition toy_hw_read_fails :: "(toy_dev, nat \<times> u8) platform" where
  "toy_hw_read_fails =
     (toy_hw_header ERR_NONE ARM_UC_PAAL_EVENT_GET_ACTIVE_FIRMWARE_DETAILS_DONE toy_stale_details)
       \<lparr>flash_read := (\<lambda>addr n t. ((- 1, []), t))\<rparr>"

text \<open>What a log of the erase loop looks like when the loop erases sector by sector from
  the address \<open>a\<close> and stops at the first erase that fails: every call is an erase of the
  sector at the current address, the next call is for the address after that sector, and
  nothing follows an erase whose status is not 0. \<open>erase_status\<close> is the status of the last
  erase of a log.\<close>

fun sector_erases :: "('s, 'c) platform \<Rightarrow> u32 \<Rightarrow> call list \<Rightarrow> bool" where
  "sector_erases hw a [] = True"
| "sector_erases hw a (Flash_erase a' n r # cs) =
     (a' = a \<and> n = flash_get_sector_size hw a
      \<and> (if r = 0 then sector_erases hw (a + n) cs else cs = []))"
| "sector_erases hw a (c # cs) = False"

fun erase_status :: "int \<Rightarrow> call list \<Rightarrow> int" where
  "erase_status r0 [] = r0"
| "erase_status r0 (Flash_erase a n r # cs) = erase_status r cs"
| "erase_status r0 (c # cs) = erase_status r0 cs"

fun erased_to :: "u32 \<Rightarrow> call list \<Rightarrow> u32" where
  "erased_to a [] = a"
| "erased_to a (Flash_erase a' n r # cs) = erased_to (a' + n) cs"
| "erased_to a (c # cs) = erased_to a cs"

text \<open>The small platform with a flash whose erase fails on the sector at address 8, and with
  a flash whose erase and program report success and change nothing.\<close>

definition toy_hw_erase_fails :: "(toy_dev, nat \<times> u8) platform" where
  "toy_hw_erase_fails =
     toy_hw\<lparr>flash_erase := (\<lambda>addr n t. if addr = 8 then (- 1, t) else flash_erase toy_hw addr n t)\<rparr>"

definition toy_hw_noop :: "(toy_dev, nat \<times> u8) platform" where
  "toy_hw_noop =
     toy_hw\<lparr>flash_erase := (\<lambda>addr n t. (0, t)), flash_program := (\<lambda>data addr n t. (0, t))\<rparr>"

text \<open>A candidate image of 6 bytes in the update source, and its details.\<close>

definition toy_new_details :: arm_uc_firmware_details_t where
  "toy_new_details = \<lparr>version = 2, size_d = 6, hash = toy_finish (6, 39)\<rparr>"

definition toy_s_update :: "toy_dev machine" where
  "toy_s_update = toy_s0\<lparr>dev := (dev toy_s0)\<lparr>candidate := [9, 8, 7, 6, 5, 4]\<rparr>\<rparr>"

text \<open>The states a replacement passes through on the small platform: after the erase, the
  header write, the payload write and the verification of the candidate image
  (\<open>toy_s1\<close> to \<open>toy_s4\<close>); after an erase that fails on its second sector (\<open>toy_f1\<close>);
  when an empty image is installed (\<open>toy_w1\<close> to \<open>toy_w4\<close>); and when an empty image is
  installed on the flash that changes nothing (\<open>toy_n1\<close> to \<open>toy_n4\<close>).\<close>

definition toy_header_bytes :: "u8 list" where
  "toy_header_bytes = [2, 6, 39, 6] @ replicate 30 0 @ [0xFF, 0xFF]"

definition toy_empty_header_bytes :: "u8 list" where
  "toy_empty_header_bytes = [2, 0] @ replicate 32 0 @ [0xFF, 0xFF]"

definition toy_s1 :: "toy_dev machine" where
  "toy_s1 = toy_s_update
     \<lparr>dev := (dev toy_s_update)\<lparr>iflash := replicate 64 0xFF\<rparr>,
      calls := [Flash_erase 0 8 0, Flash_erase 8 8 0, Flash_erase 16 8 0,
                Flash_erase 24 8 0, Flash_erase 32 8 0, Flash_erase 40 8 0]\<rparr>"

definition toy_s2 :: "toy_dev machine" where
  "toy_s2 = toy_s1
     \<lparr>dev := (dev toy_s1)\<lparr>iflash := toy_header_bytes @ replicate 28 0xFF\<rparr>,
      buffer_array := toy_header_bytes,
      calls := calls toy_s1 @ [Printf ''writeActiveFirmwareHeader\<newline>'', Create_internal_header,
                               Flash_program toy_header_bytes 0 36 0]\<rparr>"

definition toy_s3 :: "toy_dev machine" where
  "toy_s3 = toy_s2
     \<lparr>dev := (dev toy_s2)\<lparr>iflash := toy_header_bytes @ replicate 4 0xFF
                                        @ [9, 8, 7, 6, 5, 4, 0, 0] @ replicate 16 0xFF\<rparr>,
      buffer_array := [9, 8, 7, 6, 5, 4] @ replicate 28 0 @ [0xFF, 0xFF],
      calls := calls toy_s2 @ [UCP_Read 0 0 6, Flash_program [9, 8, 7, 6] 40 4 0,
                               Flash_program [5, 4, 0, 0] 44 4 0]\<rparr>"

definition toy_s4 :: "toy_dev machine" where
  "toy_s4 = toy_s3\<lparr>calls := calls toy_s3 @ [UCP_GetActiveFirmwareDetails, Flash_read 40 6 0]\<rparr>"

definition toy_f1 :: "toy_dev machine" where
  "toy_f1 = toy_s0
     \<lparr>dev := (dev toy_s0)\<lparr>iflash := replicate 8 0xFF @ drop 8 toy_image\<rparr>,
      calls := [Flash_erase 0 8 0, Flash_erase 8 8 (- 1)]\<rparr>"

definition toy_w1 :: "toy_dev machine" where
  "toy_w1 = toy_s0
     \<lparr>dev := (dev toy_s0)\<lparr>iflash := replicate 40 0xFF @ drop 40 toy_image\<rparr>,
      calls := [Flash_erase 0 8 0, Flash_erase 8 8 0, Flash_erase 16 8 0,
                Flash_erase 24 8 0, Flash_erase 32 8 0]\<rparr>"

definition toy_w2 :: "toy_dev machine" where
  "toy_w2 = toy_w1
     \<lparr>dev := (dev toy_w1)\<lparr>iflash := toy_empty_header_bytes @ drop 36 (iflash (dev toy_w1))\<rparr>,
      buffer_array := toy_empty_header_bytes,
      calls := calls toy_w1 @ [Printf ''writeActiveFirmwareHeader\<newline>'', Create_internal_header,
                               Flash_program toy_empty_header_bytes 0 36 0]\<rparr>"

definition toy_w4 :: "toy_dev machine" where
  "toy_w4 = toy_w2\<lparr>calls := calls toy_w2 @ [UCP_GetActiveFirmwareDetails]\<rparr>"

definition toy_n1 :: "toy_dev machine" where
  "toy_n1 = toy_s0
     \<lparr>calls := [Flash_erase 0 8 0, Flash_erase 8 8 0, Flash_erase 16 8 0,
                Flash_erase 24 8 0, Flash_erase 32 8 0]\<rparr>"

definition toy_n2 :: "toy_dev machine" where
  "toy_n2 = toy_n1
     \<lparr>buffer_array := toy_empty_header_bytes,
      calls := calls toy_n1 @ [Printf ''writeActiveFirmwareHeader\<newline>'', Create_internal_header,
                               Flash_program toy_empty_header_bytes 0 36 0]\<rparr>"

definition toy_n4 :: "toy_dev machine" where
  "toy_n4 = toy_n2
     \<lparr>buffer_array := [1, 2, 3, 4, 5, 6] @ drop 6 toy_empty_header_bytes,
      calls := calls toy_n2 @ [UCP_GetActiveFirmwareDetails, Flash_read 40 6 0]\<rparr>"

text \<open>The state of \<open>copyActiveApplicationIntoFlash\<close> after \<open>ubd.init()\<close> has returned
  \<open>bd_status\<close> and left the device in \<open>t0\<close>.\<close>

definition mirror_entry :: "'s machine \<Rightarrow> int \<Rightarrow> 's \<Rightarrow> 's machine" where
  "mirror_entry s bd_status t0 =
     s\<lparr>dev := t0,
       calls := calls s @ [Printf ''Copying active firmware into external flash...\<newline>'',
                           Ubd_init bd_status]\<rparr>"

text \<open>A log of the copy loop: each read of the internal flash is followed by one program
  of the block device of the same length, and there is nothing else.\<close>

fun chunk_copies :: "call list \<Rightarrow> bool" where
  "chunk_copies [] = True"
| "chunk_copies (Flash_read a n st # Ubd_program data off n' pst # cs) = (n' = n \<and> chunk_copies cs)"
| "chunk_copies cs = False"

text \<open>Two platforms that differ at most in the status \<open>ubd.program\<close> returns: every other
  capability is the same, and \<open>ubd.program\<close> leaves the same device state.\<close>

definition same_but_program_status :: "('s, 'c) platform \<Rightarrow> ('s, 'c) platform \<Rightarrow> bool" where
  "same_but_program_status hw hw' \<longleftrightarrow>
     hw' = hw\<lparr>ubd_program := ubd_program hw'\<rparr>
     \<and> (\<forall>data off n t. snd (ubd_program hw' data off n t) = snd (ubd_program hw data off n t))"

text \<open>What is observed of a run apart from the log: the value returned, the device and the
  staging buffer.\<close>

definition observe :: "('r \<times> 's machine) option \<Rightarrow> ('r \<times> 's \<times> u8 list) option" where
  "observe run = map_option (\<lambda>(r, s). (r, dev s, buffer_array s)) run"

text \<open>Block devices for the small platform: one whose program at offset 0 fails and
  stores nothing, one whose program stores the data and reports a failure, and one whose
  program reports success and stores nothing. The states of a mirror run on the small
  platform follow.\<close>

definition toy_hw_commit_fails :: "(toy_dev, nat \<times> u8) platform" where
  "toy_hw_commit_fails =
     toy_hw\<lparr>ubd_program := (\<lambda>data off n t.
        if off = 0 then (- 1, t) else ubd_program toy_hw data off n t)\<rparr>"

definition toy_hw_status_lies :: "(toy_dev, nat \<times> u8) platform" where
  "toy_hw_status_lies =
     toy_hw\<lparr>ubd_program := (\<lambda>data off n t. (- 1, snd (ubd_program toy_hw data off n t)))\<rparr>"

definition toy_hw_program_lost :: "(toy_dev, nat \<times> u8) platform" where
  "toy_hw_program_lost = toy_hw\<lparr>ubd_program := (\<lambda>data off n t. (0, t))\<rparr>"

definition toy_mirror_calls :: "int \<Rightarrow> call list" where
  "toy_mirror_calls st =
     [Printf ''Copying active firmware into external flash...\<newline>'', Ubd_init 0,
      UCP_GetActiveFirmwareDetails, Ubd_read 0 34 0,
      Flash_read 40 6 0, Ubd_program [1, 2, 3, 4, 5, 6] 34 6 0,
      BdSha256_calculate 34 6 (toy_finish (6, 21)),
      Ubd_program (toy_encode toy_details) 0 34 st]"

definition toy_m1 :: "toy_dev machine" where
  "toy_m1 = toy_s0
     \<lparr>dev := (dev toy_s0)\<lparr>xflash := toy_encode toy_details @ [1, 2, 3, 4, 5, 6] @ replicate 8 0\<rparr>,
      buffer_array := [1, 2, 3, 4, 5, 6] @ replicate 30 0,
      calls := toy_mirror_calls 0\<rparr>"

definition toy_m2 :: "toy_dev machine" where
  "toy_m2 = toy_m1
     \<lparr>calls := calls toy_m1
        @ [Printf ''Copying active firmware into external flash...\<newline>'', Ubd_init 0,
           UCP_GetActiveFirmwareDetails, Ubd_read 0 34 0]\<rparr>"

definition toy_c1 :: "toy_dev machine" where
  "toy_c1 = toy_s0
     \<lparr>dev := (dev toy_s0)\<lparr>xflash := replicate 34 0 @ [1, 2, 3, 4, 5, 6] @ replicate 8 0\<rparr>,
      buffer_array := [1, 2, 3, 4, 5, 6] @ replicate 30 0,
      calls := toy_mirror_calls (- 1)\<rparr>"

definition toy_c2 :: "toy_dev machine" where
  "toy_c2 = toy_c1\<lparr>calls := calls toy_c1 @ toy_mirror_calls (- 1)\<rparr>"

definition toy_k2 :: "toy_dev machine" where
  "toy_k2 = (mirror_entry toy_s0 0 (dev toy_s0))
     \<lparr>calls := calls (mirror_entry toy_s0 0 (dev toy_s0)) @ [UCP_GetActiveFirmwareDetails]\<rparr>"

definition toy_k3 :: "toy_dev machine" where
  "toy_k3 = toy_k2\<lparr>dev := dev toy_s0, calls := calls toy_k2 @ [Ubd_read 0 34 0]\<rparr>"

definition toy_k4 :: "toy_dev machine" where
  "toy_k4 = toy_k3
     \<lparr>dev := (dev toy_s0)\<lparr>xflash := replicate 34 0 @ [1, 2, 3, 4, 5, 6] @ replicate 8 0\<rparr>,
      buffer_array := [1, 2, 3, 4, 5, 6] @ replicate 30 0,
      calls := calls toy_k3 @ [Flash_read 40 6 0, Ubd_program [1, 2, 3, 4, 5, 6] 34 6 0]\<rparr>"

definition toy_l4 :: "toy_dev machine" where
  "toy_l4 = toy_k3
     \<lparr>buffer_array := [1, 2, 3, 4, 5, 6] @ replicate 30 0,
      calls := calls toy_k3 @ [Flash_read 40 6 0, Ubd_program [1, 2, 3, 4, 5, 6] 34 6 0]\<rparr>"

definition toy_k5 :: "toy_dev machine" where
  "toy_k5 = toy_k4\<lparr>calls := calls toy_k4 @ [BdSha256_calculate 34 6 (toy_finish (6, 21))]\<rparr>"

definition toy_l5 :: "toy_dev machine" where
  "toy_l5 = toy_l4\<lparr>calls := calls toy_l4 @ [BdSha256_calculate 34 6 (toy_finish (6, 0))]\<rparr>"

text \<open>An address is page-aligned when \<open>addr % pageSize == 0\<close>. A call of
  \<open>writeActiveFirmware\<close> is in order when it is a request to the update source at a
  page-aligned offset or a program of exactly one page at a page-aligned address.\<close>

definition page_aligned :: "u32 \<Rightarrow> u32 \<Rightarrow> bool" where
  "page_aligned pageSize addr \<longleftrightarrow> addr mod pageSize = 0"





text \<open>Running a log again on a device: the device state after the logged calls to the
  internal flash and to the update source, when each erase, program and read gives the
  status the log holds; \<open>None\<close> when a status is not the one that call gives, or when the
  log holds a call of another collaborator. A log that replays is a true account of what
  was done to the device.\<close>

fun replay :: "('s, 'c) platform \<Rightarrow> 's \<Rightarrow> call list \<Rightarrow> 's option" where
  "replay hw t [] = Some t"
| "replay hw t (Flash_erase a n r # cs) =
     (if fst (flash_erase hw a n t) = r then replay hw (snd (flash_erase hw a n t)) cs else None)"
| "replay hw t (Flash_program data a n r # cs) =
     (if fst (flash_program hw data a n t) = r
      then replay hw (snd (flash_program hw data a n t)) cs else None)"
| "replay hw t (Flash_read a n r # cs) =
     (if fst (fst (flash_read hw a n t)) = r then replay hw (snd (flash_read hw a n t)) cs else None)"
| "replay hw t (UCP_Read i off n # cs) = replay hw (snd (ARM_UCP_Read hw i off n t)) cs"
| "replay hw t (Create_internal_header # cs) = replay hw t cs"
| "replay hw t (Printf m # cs) = replay hw t cs"
| "replay hw t (c # cs) = None"

text \<open>The calls each step of a replacement may issue.\<close>

fun is_erase_call :: "call \<Rightarrow> bool" where
  "is_erase_call (Flash_erase a n r) = True"
| "is_erase_call c = False"

fun is_header_call :: "call \<Rightarrow> bool" where
  "is_header_call (Printf m) = (m = ''writeActiveFirmwareHeader\<newline>'')"
| "is_header_call Create_internal_header = True"
| "is_header_call (Flash_program data a n r) = True"
| "is_header_call c = False"

fun is_payload_call :: "call \<Rightarrow> bool" where
  "is_payload_call (UCP_Read i off n) = True"
| "is_payload_call (Flash_program data a n r) = True"
| "is_payload_call c = False"

fun is_verify_call :: "call \<Rightarrow> bool" where
  "is_verify_call UCP_GetActiveFirmwareDetails = True"
| "is_verify_call (Flash_read a n r) = True"
| "is_verify_call c = False"

text \<open>What a log of \<open>writeActiveFirmware\<close> looks like when the offset starts at the cursor
  \<open>c\<close> and moves by whole pages: a request to the update source is made at the cursor; a
  program writes one page at the application start address plus the cursor and, when it
  succeeds, moves the cursor by one page; nothing follows a program that fails.\<close>

fun write_log :: "u32 \<Rightarrow> u32 \<Rightarrow> u32 \<Rightarrow> u32 \<Rightarrow> call list \<Rightarrow> bool" where
  "write_log p app i c [] = True"
| "write_log p app i c (UCP_Read i' off n # cs) = (i' = i \<and> off = c \<and> write_log p app i c cs)"
| "write_log p app i c (Flash_program data a n r # cs) =
     (a = app + c \<and> n = p \<and> (if r = 0 then write_log p app i (c + p) cs else cs = []))"
| "write_log p app i c (x # cs) = False"




text \<open>The small platform with a flash that reports success for a program of the
  application area and stores nothing there, and the states of a replacement on it after
  the payload write, the header read of the verification and the verification
  (\<open>toy_p3\<close>, \<open>toy_p3h\<close>, \<open>toy_p4\<close>); \<open>toy_s3h\<close> is the state after the header read of
  the verification on the platform that stores what is programmed.\<close>

definition toy_hw_payload_lost :: "(toy_dev, nat \<times> u8) platform" where
  "toy_hw_payload_lost =
     toy_hw\<lparr>flash_program := (\<lambda>data addr n t.
        if addr < 40 then flash_program toy_hw data addr n t else (0, t))\<rparr>"

definition toy_s3h :: "toy_dev machine" where
  "toy_s3h = toy_s3\<lparr>calls := calls toy_s3 @ [UCP_GetActiveFirmwareDetails]\<rparr>"

definition toy_p3 :: "toy_dev machine" where
  "toy_p3 = toy_s2
     \<lparr>buffer_array := [9, 8, 7, 6, 5, 4] @ replicate 28 0 @ [0xFF, 0xFF],
      calls := calls toy_s2 @ [UCP_Read 0 0 6, Flash_program [9, 8, 7, 6] 40 4 0,
                               Flash_program [5, 4, 0, 0] 44 4 0]\<rparr>"

definition toy_p3h :: "toy_dev machine" where
  "toy_p3h = toy_p3\<lparr>calls := calls toy_p3 @ [UCP_GetActiveFirmwareDetails]\<rparr>"

definition toy_p4 :: "toy_dev machine" where
  "toy_p4 = toy_p3
     \<lparr>buffer_array := replicate 6 0xFF @ replicate 28 0 @ [0xFF, 0xFF],
      calls := calls toy_p3 @ [UCP_GetActiveFirmwareDetails, Flash_read 40 6 0]\<rparr>"

text \<open>The small platform with a staging buffer of 4 bytes, so that the image of 6 bytes
  is mirrored in two chunks; a block device whose program reports a failure and stores
  nothing; and the states of a mirror run in two chunks, when the block device stores what
  is programmed (\<open>toy_t1\<close>) and when it stores nothing (\<open>toy_u1\<close>), for the status \<open>st\<close>
  its programs report.\<close>

definition toy_cfg4 :: config where
  "toy_cfg4 = toy_cfg\<lparr>BUFFER_SIZE := 4\<rparr>"

definition toy_hw_program_fails :: "(toy_dev, nat \<times> u8) platform" where
  "toy_hw_program_fails = toy_hw\<lparr>ubd_program := (\<lambda>data off n t. (- 1, t))\<rparr>"

definition toy_t1 :: "int \<Rightarrow> toy_dev machine" where
  "toy_t1 st = toy_s0
     \<lparr>dev := (dev toy_s0)\<lparr>xflash := toy_encode toy_details @ [1, 2, 3, 4, 5, 6] @ replicate 8 0\<rparr>,
      buffer_array := [5, 6, 3, 4] @ replicate 32 0,
      calls := [Printf ''Copying active firmware into external flash...\<newline>'', Ubd_init 0,
                UCP_GetActiveFirmwareDetails, Ubd_read 0 34 0,
                Flash_read 40 4 0, Ubd_program [1, 2, 3, 4] 34 4 st,
                Flash_read 44 2 0, Ubd_program [5, 6] 38 2 st,
                BdSha256_calculate 34 6 (toy_finish (6, 21)),
                Ubd_program (toy_encode toy_details) 0 34 st]\<rparr>"

definition toy_u1 :: "int \<Rightarrow> toy_dev machine" where
  "toy_u1 st = toy_s0
     \<lparr>buffer_array := [5, 6, 3, 4] @ replicate 32 0,
      calls := [Printf ''Copying active firmware into external flash...\<newline>'', Ubd_init 0,
                UCP_GetActiveFirmwareDetails, Ubd_read 0 34 0,
                Flash_read 40 4 0, Ubd_program [1, 2, 3, 4] 34 4 st,
                Flash_read 44 2 0, Ubd_program [5, 6] 38 2 st,
                BdSha256_calculate 34 6 (toy_finish (6, 0))]\<rparr>"

text \<open>The small platform with a flash whose program of the page at address 44 fails, and
  the state of a replacement on it after the payload write.\<close>

definition toy_hw_page_fails :: "(toy_dev, nat \<times> u8) platform" where
  "toy_hw_page_fails =
     toy_hw\<lparr>flash_program := (\<lambda>data addr n t.
        if addr = 44 then (- 1, t) else flash_program toy_hw data addr n t)\<rparr>"

definition toy_q3 :: "toy_dev machine" where
  "toy_q3 = toy_s2
     \<lparr>dev := (dev toy_s2)\<lparr>iflash := toy_header_bytes @ replicate 4 0xFF
                                        @ [9, 8, 7, 6] @ replicate 20 0xFF\<rparr>,
      buffer_array := [9, 8, 7, 6, 5, 4] @ replicate 28 0 @ [0xFF, 0xFF],
      calls := calls toy_s2 @ [UCP_Read 0 0 6, Flash_program [9, 8, 7, 6] 40 4 0,
                               Flash_program [5, 4, 0, 0] 44 4 (- 1)]\<rparr>"
section \<open>Arithmetic of the truncating conversions\<close>

lemma take_bit_add_down:
  fixes x y :: int
  assumes "m \<le> n"
  shows "take_bit m (take_bit n x + take_bit n y) = take_bit m (x + y)"
proof -
  have "take_bit m (take_bit n x + take_bit n y)
      = take_bit m (take_bit m (take_bit n x) + take_bit m (take_bit n y))"
    by (simp only: take_bit_add)
  also have "\<dots> = take_bit m (take_bit m x + take_bit m y)"
    using assms by (simp add: min_def)
  also have "\<dots> = take_bit m (x + y)"
    by (simp only: take_bit_add)
  finally show ?thesis .
qed

lemma take_bit_diff_down:
  fixes x y :: int
  assumes "m \<le> n"
  shows "take_bit m (take_bit n x - take_bit n y) = take_bit m (x - y)"
proof -
  have "take_bit m (take_bit n x - take_bit n y)
      = take_bit m (take_bit m (take_bit n x) - take_bit m (take_bit n y))"
    by (simp only: take_bit_diff)
  also have "\<dots> = take_bit m (take_bit m x - take_bit m y)"
    using assms by (simp add: min_def)
  also have "\<dots> = take_bit m (x - y)"
    by (simp only: take_bit_diff)
  finally show ?thesis .
qed

lemma ucast_add_64_32: "(ucast ((x::u64) + y) :: u32) = ucast x + ucast y"
  by transfer (simp add: take_bit_add_down)

lemma ucast_diff_64_32: "(ucast ((x::u64) - y) :: u32) = ucast x - ucast y"
  by transfer (simp add: take_bit_diff_down)

lemma addr_trunc:
  "(ucast ((ucast (a::u32) :: u64) + (d - ucast (n::u32))) :: u32) = a + ucast d - n"
  by (simp add: ucast_add_64_32 ucast_diff_64_32 ucast_down_ucast_id is_down)

lemma unat_ucast_64_32: "(d::u64) < 2 ^ 32 \<Longrightarrow> unat (ucast d :: u32) = unat d"
  by (simp add: unsigned_ucast_eq word_less_nat_alt take_bit_nat_eq_self_iff)

lemma ucast_64_32_pos: "(0::u64) < d \<Longrightarrow> d < 2 ^ 32 \<Longrightarrow> 0 < (ucast d :: u32)"
  using unat_ucast_64_32[of d] by (simp add: word_less_nat_alt)

section \<open>Bytes of a region\<close>

lemma length_range_bytes [simp]: "length (range_bytes m a n) = n"
  by (simp add: range_bytes_def)

lemma range_bytes_append:
  "range_bytes m a (k + l) = range_bytes m a k @ range_bytes m (a + of_nat k) l"
  by (induction l) (simp_all add: range_bytes_def add.assoc)

lemma range_bytes_0 [simp]: "range_bytes m a 0 = []"
  by (simp add: range_bytes_def)

lemma range_bytes_Suc: "range_bytes m a (Suc n) = m a # range_bytes m (a + 1) n"
proof -
  have "[0..<Suc n] = 0 # map Suc [0..<n]"
    by (simp add: upt_conv_Cons map_Suc_upt del: upt_Suc)
  then show ?thesis
    by (simp add: range_bytes_def o_def add.assoc del: upt_Suc)
qed

lemma range_bytes_numeral:
  "range_bytes m a (numeral k) = m a # range_bytes m (a + 1) (pred_numeral k)"
  by (simp only: numeral_eq_Suc range_bytes_Suc)

lemma replicate_numeral:
  "replicate (numeral k) x = x # replicate (pred_numeral k) x"
  by (simp only: numeral_eq_Suc replicate_Suc)

lemma take_store [simp]: "length d = k \<Longrightarrow> take k (store buf d) = d"
  by (simp add: store_def)

text \<open>Unfolding the small platform and its machine.\<close>

lemmas toy_defs =
  toy_hw_def toy_cfg_def toy_s0_def toy_image_def toy_details_def toy_encode_def
  toy_decode_def toy_finish_def toy_mem_def overwrite_def store_def memcmp_eq_def
  SIZEOF_SHA256_def BD_ERROR_OK_def wait_event_def Let_def
  replicate_numeral range_bytes_numeral range_bytes_Suc

lemma toy_streaming: "sha256_streaming toy_hw"
  by (simp add: sha256_streaming_def toy_hw_def)

lemma toy_reads_ok: "flash_reads_ok toy_hw toy_mem"
  by (simp add: flash_reads_ok_def toy_hw_def)

lemmas run_defs =
  eraseActiveFirmware_def writeActiveFirmwareHeader_def
  writeActiveFirmware_def checkActiveApplication_def readActiveFirmwareHeader_def
  erase_end.simps erase_sectors.simps program_pages.simps write_loop.simps check_loop.simps
  toy_new_details_def toy_empty_details_def toy_s_update_def
  toy_header_bytes_def toy_empty_header_bytes_def toy_defs

section \<open>The verification loop\<close>

lemma check_loop_stop:
  "\<not> (0 < n \<and> st = 0) \<Longrightarrow> check_loop cfg hw dsize n st ctx s = Some (ctx, s)"
  by (subst check_loop.simps) (rule if_not_P)

lemma check_loop_digest:
  assumes str: "sha256_streaming hw" and ok: "flash_reads_ok hw mem"
    and B: "0 < BUFFER_SIZE cfg"
  shows "0 < n \<Longrightarrow>
    \<exists>s'. check_loop cfg hw dsize n 0 ctx s
           = Some (mbedtls_sha256_update hw ctx
                     (range_bytes (mem (dev s))
                        (MBED_CONF_APP_APPLICATION_START_ADDRESS cfg + ucast dsize - n) (unat n)),
                   s')
        \<and> mem (dev s') = mem (dev s)"
proof (induction "unat n" arbitrary: n ctx s rule: less_induct)
  case less
  define readSize where "readSize = (if n > BUFFER_SIZE cfg then BUFFER_SIZE cfg else n)"
  define addr where "addr = MBED_CONF_APP_APPLICATION_START_ADDRESS cfg + ucast dsize - n"
  define data where "data = range_bytes (mem (dev s)) addr (unat readSize)"
  define t where "t = snd (flash_read hw addr readSize (dev s))"
  define s' where "s' = s\<lparr>dev := t,
       buffer_array := store (buffer_array s) (take (unat readSize) data),
       calls := calls s @ [Flash_read addr readSize 0]\<rparr>"
  define ctx' where "ctx' = mbedtls_sha256_update hw ctx data"
  have rs_pos: "0 < readSize" and rs_le: "readSize \<le> n"
    using less.prems B by (auto simp: readSize_def)
  have rd: "flash_read hw addr readSize (dev s) = ((0, data), t)"
    using ok unfolding flash_reads_ok_def data_def t_def by (metis prod.collapse)
  have mem_t: "mem t = mem (dev s)"
    using ok unfolding flash_reads_ok_def t_def by blast
  have step: "check_loop cfg hw dsize n 0 ctx s = check_loop cfg hw dsize (n - readSize) 0 ctx' s'"
    apply (subst check_loop.simps)
    using less.prems
    apply (simp add: Let_def addr_trunc readSize_def[symmetric] addr_def[symmetric] rd
        s'_def ctx'_def data_def)
    done
  show ?case
  proof (cases "n - readSize = 0")
    case True
    then have "readSize = n" by simp
    then show ?thesis
      using step True mem_t
      by (simp add: check_loop_stop ctx'_def data_def addr_def s'_def)
  next
    case False
    then have pos': "0 < n - readSize"
      by (simp add: word_gt_0)
    have le_nat: "unat readSize \<le> unat n"
      using rs_le by (simp only: word_le_nat_alt)
    have un: "unat (n - readSize) = unat n - unat readSize"
      using rs_le by (rule unat_sub)
    have "0 < unat readSize"
      using rs_pos by (simp add: unat_gt_0 word_gt_0)
    then have lt: "unat (n - readSize) < unat n"
      using un le_nat by linarith
    from less.hyps[OF lt pos', of ctx' s'] obtain s'' where
      r: "check_loop cfg hw dsize (n - readSize) 0 ctx' s'
           = Some (mbedtls_sha256_update hw ctx'
                     (range_bytes (mem (dev s'))
                        (MBED_CONF_APP_APPLICATION_START_ADDRESS cfg + ucast dsize - (n - readSize))
                        (unat (n - readSize))), s'')"
      and m: "mem (dev s'') = mem (dev s')" by blast
    have a': "MBED_CONF_APP_APPLICATION_START_ADDRESS cfg + ucast dsize - (n - readSize)
              = addr + of_nat (unat readSize)"
      unfolding addr_def by simp
    have nsum: "unat n = unat readSize + unat (n - readSize)"
      using un le_nat by linarith
    have split: "range_bytes (mem (dev s)) addr (unat n)
       = data @ range_bytes (mem (dev s)) (addr + of_nat (unat readSize)) (unat (n - readSize))"
      unfolding data_def by (subst nsum) (rule range_bytes_append)
    have ms': "mem (dev s') = mem (dev s)"
      unfolding s'_def using mem_t by simp
    have upd: "mbedtls_sha256_update hw ctx'
            (range_bytes (mem (dev s')) (addr + of_nat (unat readSize)) (unat (n - readSize)))
          = mbedtls_sha256_update hw ctx (range_bytes (mem (dev s)) addr (unat n))"
      using str unfolding sha256_streaming_def ctx'_def split ms' by blast
    have "check_loop cfg hw dsize n 0 ctx s
          = Some (mbedtls_sha256_update hw ctx (range_bytes (mem (dev s)) addr (unat n)), s'')"
      unfolding step r a' upd ..
    moreover have "mem (dev s'') = mem (dev s)"
      using m ms' by simp
    ultimately show ?thesis
      unfolding addr_def by blast
  qed
qed

lemma chunked_digest_eq_whole_digest_aux:
  assumes "sha256_streaming hw" and "flash_reads_ok hw mem" and "0 < BUFFER_SIZE cfg"
    and "0 < dsize" and "dsize < 2 ^ 32"
  shows "\<exists>ctx s'. check_loop cfg hw dsize (ucast dsize) 0 (mbedtls_sha256_starts hw) s = Some (ctx, s')
           \<and> mbedtls_sha256_finish hw ctx
               = digest hw (range_bytes (mem (dev s))
                              (MBED_CONF_APP_APPLICATION_START_ADDRESS cfg) (unat dsize))"
proof -
  have pos: "0 < (ucast dsize :: u32)"
    using assms(4,5) by (rule ucast_64_32_pos)
  from check_loop_digest[OF assms(1-3) pos, of dsize "mbedtls_sha256_starts hw" s]
  obtain s' where
    "check_loop cfg hw dsize (ucast dsize) 0 (mbedtls_sha256_starts hw) s
       = Some (mbedtls_sha256_update hw (mbedtls_sha256_starts hw)
                 (range_bytes (mem (dev s))
                    (MBED_CONF_APP_APPLICATION_START_ADDRESS cfg + ucast dsize - ucast dsize)
                    (unat (ucast dsize :: u32))), s')"
    by blast
  then show ?thesis
    using assms(5) by (simp add: digest_def unat_ucast_64_32)
qed

text \<open>
  C3, as amended. Chunk-boundary invariance. For every staging-buffer capacity
  \<open>BUFFER_SIZE > 0\<close>, every memory and every payload of fewer than \<open>2^32\<close> bytes, the loop
  of \<open>checkActiveApplication\<close>, which reads and hashes the payload in chunks of at most
  \<open>BUFFER_SIZE\<close> bytes, returns, and the digest it leaves is the digest of the whole byte
  range hashed by one \<open>update\<close> call. The hash is a streaming hash (for the payload of no
  bytes: an update with no bytes leaves the initial context as it is) and the reads deliver
  the bytes of the memory.
\<close>

theorem chunked_digest_eq_whole_digest:
  assumes "sha256_streaming hw" and "flash_reads_ok hw mem" and "0 < BUFFER_SIZE cfg"
    and "dsize < 2 ^ 32"
    and "0 < dsize
         \<or> mbedtls_sha256_update hw (mbedtls_sha256_starts hw) [] = mbedtls_sha256_starts hw"
  shows "\<exists>ctx s'. check_loop cfg hw dsize (ucast dsize) 0 (mbedtls_sha256_starts hw) s = Some (ctx, s')
           \<and> mbedtls_sha256_finish hw ctx
               = digest hw (range_bytes (mem (dev s))
                              (MBED_CONF_APP_APPLICATION_START_ADDRESS cfg) (unat dsize))"
proof (cases "0 < dsize")
  case True
  with assms(1-4) show ?thesis
    by (intro chunked_digest_eq_whole_digest_aux)
next
  case False
  then have z: "dsize = 0"
    by (simp add: word_gt_0)
  with assms(5) have e: "mbedtls_sha256_update hw (mbedtls_sha256_starts hw) []
                          = mbedtls_sha256_starts hw"
    by simp
  have "check_loop cfg hw dsize (ucast dsize) 0 (mbedtls_sha256_starts hw) s
          = Some (mbedtls_sha256_starts hw, s)"
    unfolding z by (rule check_loop_stop) simp
  then show ?thesis
    using e by (simp add: z digest_def)
qed

theorem chunked_digest_eq_whole_digest_witness:
  "sha256_streaming toy_hw \<and> flash_reads_ok toy_hw toy_mem
   \<and> 0 < BUFFER_SIZE (toy_cfg\<lparr>BUFFER_SIZE := 4\<rparr>) \<and> (6::u64) < 2 ^ 32 \<and> (0::u64) < 6
   \<and> check_loop (toy_cfg\<lparr>BUFFER_SIZE := 4\<rparr>) toy_hw 6 (ucast (6::u64)) 0
         (mbedtls_sha256_starts toy_hw) toy_s0
       = Some ((6, 21),
               toy_s0\<lparr>buffer_array := [5, 6, 3, 4] @ replicate 32 0,
                       calls := [Flash_read 40 4 0, Flash_read 44 2 0]\<rparr>)
   \<and> range_bytes (toy_mem (dev toy_s0))
         (MBED_CONF_APP_APPLICATION_START_ADDRESS (toy_cfg\<lparr>BUFFER_SIZE := 4\<rparr>)) (unat (6::u64))
       = [1, 2, 3, 4, 5, 6]
   \<and> (\<exists>ctx s'. check_loop (toy_cfg\<lparr>BUFFER_SIZE := 4\<rparr>) toy_hw 6 (ucast (6::u64)) 0
                   (mbedtls_sha256_starts toy_hw) toy_s0 = Some (ctx, s')
               \<and> mbedtls_sha256_finish toy_hw ctx = digest toy_hw [1, 2, 3, 4, 5, 6])"
proof -
  have h3: "0 < BUFFER_SIZE (toy_cfg\<lparr>BUFFER_SIZE := 4\<rparr>)" by simp
  have h4: "(6::u64) < 2 ^ 32" by simp
  have h5: "(0::u64) < 6
            \<or> mbedtls_sha256_update toy_hw (mbedtls_sha256_starts toy_hw) []
                = mbedtls_sha256_starts toy_hw" by simp
  have run: "check_loop (toy_cfg\<lparr>BUFFER_SIZE := 4\<rparr>) toy_hw 6 (ucast (6::u64)) 0
               (mbedtls_sha256_starts toy_hw) toy_s0
             = Some ((6, 21),
                     toy_s0\<lparr>buffer_array := [5, 6, 3, 4] @ replicate 32 0,
                             calls := [Flash_read 40 4 0, Flash_read 44 2 0]\<rparr>)"
    by (simp add: check_loop.simps toy_defs)
  have bytes: "range_bytes (toy_mem (dev toy_s0))
                 (MBED_CONF_APP_APPLICATION_START_ADDRESS (toy_cfg\<lparr>BUFFER_SIZE := 4\<rparr>))
                 (unat (6::u64)) = [1, 2, 3, 4, 5, 6]"
    by (simp add: toy_defs)
  have "\<exists>ctx s'. check_loop (toy_cfg\<lparr>BUFFER_SIZE := 4\<rparr>) toy_hw 6 (ucast (6::u64)) 0
                   (mbedtls_sha256_starts toy_hw) toy_s0 = Some (ctx, s')
               \<and> mbedtls_sha256_finish toy_hw ctx = digest toy_hw [1, 2, 3, 4, 5, 6]"
    using chunked_digest_eq_whole_digest[OF toy_streaming toy_reads_ok h3 h4 h5, of toy_s0]
    by (simp only: bytes)
  then show ?thesis
    using toy_streaming toy_reads_ok h3 run bytes by simp
qed

text \<open>
  C3 as stated fails for a payload of \<open>2^32\<close> bytes: \<open>remaining\<close> is a \<open>uint32_t\<close>, the
  loop starts with 0 bytes remaining, reads no chunk and leaves the digest of no bytes,
  which is not the digest of the range. The hash is a streaming hash, the reads deliver the
  bytes of the memory and the buffer capacity is positive.
\<close>

theorem chunked_digest_truncated_counterexample:
  "sha256_streaming toy_hw \<and> flash_reads_ok toy_hw toy_mem \<and> 0 < BUFFER_SIZE toy_cfg
   \<and> check_loop toy_cfg toy_hw (2 ^ 32) (ucast ((2 ^ 32) :: u64)) 0 (mbedtls_sha256_starts toy_hw) toy_s0
       = Some (mbedtls_sha256_starts toy_hw, toy_s0)
   \<and> mbedtls_sha256_finish toy_hw (mbedtls_sha256_starts toy_hw)
       \<noteq> digest toy_hw (range_bytes (toy_mem (dev toy_s0))
                            (MBED_CONF_APP_APPLICATION_START_ADDRESS toy_cfg) (unat ((2 ^ 32) :: u64)))"
proof -
  have b: "0 < BUFFER_SIZE toy_cfg"
    by (simp add: toy_cfg_def)
  have trunc: "(ucast ((2 ^ 32) :: u64) :: u32) = 0"
    by simp
  have run: "check_loop toy_cfg toy_hw (2 ^ 32) (ucast ((2 ^ 32) :: u64)) 0
               (mbedtls_sha256_starts toy_hw) toy_s0
             = Some (mbedtls_sha256_starts toy_hw, toy_s0)"
    unfolding trunc by (rule check_loop_stop) simp
  have len: "unat ((2 ^ 32) :: u64) = 4294967296"
    by simp
  have ne: "mbedtls_sha256_finish toy_hw (mbedtls_sha256_starts toy_hw)
       \<noteq> digest toy_hw (range_bytes (toy_mem (dev toy_s0))
                            (MBED_CONF_APP_APPLICATION_START_ADDRESS toy_cfg) (unat ((2 ^ 32) :: u64)))"
    unfolding len by (simp add: digest_def toy_hw_def toy_finish_def)
  show ?thesis
    using toy_streaming toy_reads_ok b run ne by simp
qed

lemma check_loop_calls:
  fixes hw :: "('s, 'c) platform" and s :: "'s machine"
  assumes "check_loop cfg hw dsize remaining status ctx s = Some y"
  shows "\<exists>vs. calls (snd y) = calls s @ vs \<and> list_all is_verify_call vs"
proof (rule check_loop.raw_induct[where P="\<lambda>cfg (hw :: ('s, 'c) platform) dsize remaining
            (status :: int) ctx (s :: 's machine) y.
         \<exists>vs. calls (snd y) = calls s @ vs \<and> list_all is_verify_call vs", OF _ assms])
  fix f cfg and hw :: "('s, 'c) platform" and dsize remaining and status :: int and ctx
    and s :: "'s machine" and y
  assume IH: "\<And>cfg (hw :: ('s, 'c) platform) dsize remaining (status :: int) ctx (s :: 's machine) y.
       f cfg hw dsize remaining status ctx s = Some y
       \<Longrightarrow> \<exists>vs. calls (snd y) = calls s @ vs \<and> list_all is_verify_call vs"
    and body: "(if remaining > 0 \<and> status = 0 then
        (let readSize = (if remaining > BUFFER_SIZE cfg then BUFFER_SIZE cfg else remaining);
             addr = (ucast ((ucast (MBED_CONF_APP_APPLICATION_START_ADDRESS cfg) :: u64)
                            + (dsize - ucast remaining)) :: u32)
         in case flash_read hw addr readSize (dev s) of
              ((status', data), t) \<Rightarrow>
                let s' = s\<lparr>dev := t,
                           buffer_array := store (buffer_array s) (take (unat readSize) data),
                           calls := calls s @ [Flash_read addr readSize status']\<rparr>;
                    ctx' = mbedtls_sha256_update hw ctx (take (unat readSize) (buffer_array s'))
                in f cfg hw dsize (remaining - readSize) status' ctx' s')
      else Some (ctx, s)) = Some y"
  show "\<exists>vs. calls (snd y) = calls s @ vs \<and> list_all is_verify_call vs"
  proof (cases "remaining > 0 \<and> status = 0")
    case False
    have "y = (ctx, s)" using body unfolding if_not_P[OF False] by simp
    then show ?thesis by (intro exI[of _ "[]"]) simp
  next
    case True
    define readSize where "readSize = (if remaining > BUFFER_SIZE cfg then BUFFER_SIZE cfg else remaining)"
    define addr where "addr = (ucast ((ucast (MBED_CONF_APP_APPLICATION_START_ADDRESS cfg) :: u64)
                            + (dsize - ucast remaining)) :: u32)"
    obtain st data t where rd: "flash_read hw addr readSize (dev s) = ((st, data), t)"
      by (metis prod.exhaust)
    define s1 where "s1 = s\<lparr>dev := t,
                           buffer_array := store (buffer_array s) (take (unat readSize) data),
                           calls := calls s @ [Flash_read addr readSize st]\<rparr>"
    have "\<exists>c'. f cfg hw dsize (remaining - readSize) st c' s1 = Some y"
      using body rd unfolding if_P[OF True] s1_def
      by (auto simp add: Let_def readSize_def[symmetric] addr_def[symmetric])
    then obtain c' where nxt: "f cfg hw dsize (remaining - readSize) st c' s1 = Some y" ..
    from IH[OF nxt] obtain vs where
      "calls (snd y) = calls s1 @ vs" "list_all is_verify_call vs" by blast
    then show ?thesis
      by (intro exI[of _ "Flash_read addr readSize st # vs"]) (simp add: s1_def)
  qed
qed

section \<open>The verifier\<close>

lemma readActiveFirmwareHeader_Some:
  "readActiveFirmwareHeader hw (Some d) s = Some ((v, dopt), s1) \<Longrightarrow> \<exists>d'. dopt = Some d'"
  by (auto simp: readActiveFirmwareHeader_def Let_def wait_event_def
      split: prod.splits if_splits)

lemma readActiveFirmwareHeader_calls:
  assumes "readActiveFirmwareHeader hw (Some d) s = Some ((v, dopt), s')"
  shows "calls s' = calls s @ [UCP_GetActiveFirmwareDetails] \<and> buffer_array s' = buffer_array s"
  using assms
  by (auto simp: readActiveFirmwareHeader_def Let_def wait_event_def
      split: prod.splits if_splits)

lemma checkActiveApplication_run:
  fixes hw :: "('s, 'c) platform" and s :: "'s machine"
  assumes "checkActiveApplication cfg hw (Some d) s = Some ((rc, dd), s')"
  shows "\<exists>hv d' s1 vs.
           readActiveFirmwareHeader hw (Some d) s = Some ((hv, Some d'), s1)
         \<and> calls s' = calls s @ vs \<and> list_all is_verify_call vs
         \<and> (if hv \<and> 0 < size_d d'
             then \<exists>ctx. check_loop cfg hw (size_d d') (ucast (size_d d')) 0
                          (mbedtls_sha256_starts hw) s1 = Some (ctx, s')
                      \<and> (rc = RESULT_SUCCESS)
                          = (take 32 (hash d') = take 32 (mbedtls_sha256_finish hw ctx))
             else rc \<noteq> RESULT_SUCCESS \<and> s' = s1)"
proof -
  from assms obtain hv dopt s1 where
    h0: "readActiveFirmwareHeader hw (Some d) s = Some ((hv, dopt), s1)"
    by (auto simp: checkActiveApplication_def bind_eq_Some_conv)
  then obtain d' where dopt: "dopt = Some d'"
    using readActiveFirmwareHeader_Some by blast
  note h = h0[unfolded dopt]
  have c1: "calls s1 = calls s @ [UCP_GetActiveFirmwareDetails]"
    using readActiveFirmwareHeader_calls[OF h] by simp
  show ?thesis
  proof (cases "hv \<and> 0 < size_d d'")
    case True
    from assms h True obtain ctx where
      l: "check_loop cfg hw (size_d d') (ucast (size_d d')) 0 (mbedtls_sha256_starts hw) s1
            = Some (ctx, s')"
      and rc: "rc = (if memcmp_eq (hash d') (mbedtls_sha256_finish hw ctx) SIZEOF_SHA256
                     then RESULT_SUCCESS else RESULT_ERROR)"
      by (auto simp: checkActiveApplication_def bind_eq_Some_conv Let_def)
    from check_loop_calls[OF l] obtain vs where
      v: "calls s' = calls s1 @ vs" "list_all is_verify_call vs" by auto
    have eq: "(rc = RESULT_SUCCESS)
                = (take 32 (hash d') = take 32 (mbedtls_sha256_finish hw ctx))"
      using rc by (simp add: memcmp_eq_def SIZEOF_SHA256_def)
    show ?thesis
      using h True l eq v c1
      by (intro exI[of _ hv] exI[of _ d'] exI[of _ s1]
          exI[of _ "UCP_GetActiveFirmwareDetails # vs"]) auto
  next
    case False
    then have "rc \<noteq> RESULT_SUCCESS \<and> s' = s1"
      using assms h by (auto simp: checkActiveApplication_def split: if_splits)
    then show ?thesis
      using h False c1
      by (intro exI[of _ hv] exI[of _ d'] exI[of _ s1]
          exI[of _ "[UCP_GetActiveFirmwareDetails]"]) auto
  qed
qed

text \<open>
  C1, as amended. When the header read fails, \<open>checkActiveApplication\<close> returns
  \<open>RESULT_ERROR\<close>. When it succeeds with size 0, the result is \<open>RESULT_EMPTY\<close>. When it
  succeeds with a size that is positive and fits 32 bits, and every read of the internal
  flash succeeds and delivers the bytes of the memory, the function returns
  \<open>RESULT_SUCCESS\<close> exactly when the digest of the bytes
  \<open>[appStart, appStart + size)\<close> equals \<open>details->hash\<close> on its 32 bytes, and
  \<open>RESULT_ERROR\<close> otherwise.
\<close>

theorem checkActiveApplication_classifies:
  assumes hdr: "readActiveFirmwareHeader hw (Some d) s = Some ((headerValid, Some d'), s1)"
  shows "(\<not> headerValid \<longrightarrow>
            checkActiveApplication cfg hw (Some d) s = Some ((RESULT_ERROR, Some d'), s1))
       \<and> (headerValid \<and> size_d d' = 0 \<longrightarrow>
            checkActiveApplication cfg hw (Some d) s = Some ((RESULT_EMPTY, Some d'), s1))
       \<and> (headerValid \<and> 0 < size_d d' \<and> size_d d' < 2 ^ 32 \<and> 0 < BUFFER_SIZE cfg
            \<and> sha256_streaming hw \<and> flash_reads_ok hw mem \<longrightarrow>
            (\<exists>s2. checkActiveApplication cfg hw (Some d) s
                   = Some ((if memcmp_eq (hash d')
                                 (digest hw (range_bytes (mem (dev s1))
                                    (MBED_CONF_APP_APPLICATION_START_ADDRESS cfg)
                                    (unat (size_d d'))))
                                 SIZEOF_SHA256
                            then RESULT_SUCCESS else RESULT_ERROR, Some d'), s2)))"
proof (intro conjI impI)
  assume "\<not> headerValid"
  then show "checkActiveApplication cfg hw (Some d) s = Some ((RESULT_ERROR, Some d'), s1)"
    using hdr by (simp add: checkActiveApplication_def)
next
  assume "headerValid \<and> size_d d' = 0"
  then show "checkActiveApplication cfg hw (Some d) s = Some ((RESULT_EMPTY, Some d'), s1)"
    using hdr by (simp add: checkActiveApplication_def)
next
  assume a: "headerValid \<and> 0 < size_d d' \<and> size_d d' < 2 ^ 32 \<and> 0 < BUFFER_SIZE cfg
            \<and> sha256_streaming hw \<and> flash_reads_ok hw mem"
  then obtain ctx s2 where
    loop: "check_loop cfg hw (size_d d') (ucast (size_d d')) 0 (mbedtls_sha256_starts hw) s1
             = Some (ctx, s2)"
    and dg: "mbedtls_sha256_finish hw ctx
             = digest hw (range_bytes (mem (dev s1))
                            (MBED_CONF_APP_APPLICATION_START_ADDRESS cfg) (unat (size_d d')))"
    using chunked_digest_eq_whole_digest_aux[of hw mem cfg "size_d d'" s1] by blast
  have "checkActiveApplication cfg hw (Some d) s
        = Some ((if memcmp_eq (hash d') (mbedtls_sha256_finish hw ctx) SIZEOF_SHA256
                 then RESULT_SUCCESS else RESULT_ERROR, Some d'), s2)"
    using hdr a loop by (simp add: checkActiveApplication_def)
  then show "\<exists>s2. checkActiveApplication cfg hw (Some d) s
                   = Some ((if memcmp_eq (hash d')
                                 (digest hw (range_bytes (mem (dev s1))
                                    (MBED_CONF_APP_APPLICATION_START_ADDRESS cfg)
                                    (unat (size_d d'))))
                                 SIZEOF_SHA256
                            then RESULT_SUCCESS else RESULT_ERROR, Some d'), s2)"
    unfolding dg by blast
qed

theorem checkActiveApplication_classifies_witness:
  "readActiveFirmwareHeader toy_hw (Some toy_empty_details) toy_s0
     = Some ((True, Some toy_details), toy_s0\<lparr>calls := [UCP_GetActiveFirmwareDetails]\<rparr>)
   \<and> 0 < size_d toy_details \<and> size_d toy_details < 2 ^ 32
   \<and> 0 < BUFFER_SIZE (toy_cfg\<lparr>BUFFER_SIZE := 4\<rparr>)
   \<and> sha256_streaming toy_hw \<and> flash_reads_ok toy_hw toy_mem
   \<and> (\<exists>s2. checkActiveApplication (toy_cfg\<lparr>BUFFER_SIZE := 4\<rparr>) toy_hw (Some toy_empty_details) toy_s0
              = Some ((RESULT_SUCCESS, Some toy_details), s2))"
proof -
  let ?cfg = "toy_cfg\<lparr>BUFFER_SIZE := 4\<rparr>"
  let ?s1 = "toy_s0\<lparr>calls := [UCP_GetActiveFirmwareDetails]\<rparr>"
  have hdr: "readActiveFirmwareHeader toy_hw (Some toy_empty_details) toy_s0
               = Some ((True, Some toy_details), ?s1)"
    by (simp add: readActiveFirmwareHeader_def toy_defs)
  have sz: "0 < size_d toy_details \<and> size_d toy_details < 2 ^ 32 \<and> 0 < BUFFER_SIZE ?cfg"
    by (simp add: toy_details_def)
  have dg: "memcmp_eq (hash toy_details)
              (digest toy_hw (range_bytes (toy_mem (dev ?s1))
                 (MBED_CONF_APP_APPLICATION_START_ADDRESS ?cfg) (unat (size_d toy_details))))
              SIZEOF_SHA256"
    by (simp add: digest_def toy_defs)
  show ?thesis
    using checkActiveApplication_classifies[OF hdr, of ?cfg toy_mem]
      hdr sz toy_streaming toy_reads_ok dg
    by simp
qed

text \<open>
  C1 as stated fails for a header whose size does not fit 32 bits: \<open>remaining\<close> is a
  \<open>uint32_t\<close>, so for the size \<open>2^32\<close> the loop reads nothing and the digest of no bytes is
  compared. Here the header read succeeds and the reads of the flash succeed, the result
  is \<open>RESULT_SUCCESS\<close>, and the digest of the declared range differs from the hash of the
  header.
\<close>

theorem checkActiveApplication_size_truncated_counterexample:
  "map_option fst
     (readActiveFirmwareHeader
        (toy_hw_header ERR_NONE ARM_UC_PAAL_EVENT_GET_ACTIVE_FIRMWARE_DETAILS_DONE toy_huge_details)
        (Some toy_details) toy_s0)
     = Some (True, Some toy_huge_details)
   \<and> 0 < size_d toy_huge_details
   \<and> map_option fst
       (checkActiveApplication toy_cfg
          (toy_hw_header ERR_NONE ARM_UC_PAAL_EVENT_GET_ACTIVE_FIRMWARE_DETAILS_DONE toy_huge_details)
          (Some toy_details) toy_s0)
     = Some (RESULT_SUCCESS, Some toy_huge_details)
   \<and> \<not> memcmp_eq (hash toy_huge_details)
         (digest
            (toy_hw_header ERR_NONE ARM_UC_PAAL_EVENT_GET_ACTIVE_FIRMWARE_DETAILS_DONE toy_huge_details)
            (range_bytes (toy_mem (dev toy_s0)) (MBED_CONF_APP_APPLICATION_START_ADDRESS toy_cfg)
               (unat (size_d toy_huge_details))))
         SIZEOF_SHA256"
proof -
  let ?hw = "toy_hw_header ERR_NONE ARM_UC_PAAL_EVENT_GET_ACTIVE_FIRMWARE_DETAILS_DONE toy_huge_details"
  have hdr: "readActiveFirmwareHeader ?hw (Some toy_details) toy_s0
               = Some ((True, Some toy_huge_details), toy_s0\<lparr>calls := [UCP_GetActiveFirmwareDetails]\<rparr>)"
    by (simp add: readActiveFirmwareHeader_def toy_hw_header_def toy_hw_def toy_s0_def
        wait_event_def)
  have pos: "0 < size_d toy_huge_details"
    by (simp add: toy_huge_details_def)
  have trunc: "(ucast (size_d toy_huge_details) :: u32) = 0"
    by (simp add: toy_huge_details_def)
  have chk: "checkActiveApplication toy_cfg ?hw (Some toy_details) toy_s0
               = Some ((RESULT_SUCCESS, Some toy_huge_details),
                       toy_s0\<lparr>calls := [UCP_GetActiveFirmwareDetails]\<rparr>)"
    using pos by (simp add: checkActiveApplication_def hdr trunc check_loop_stop)
      (simp add: toy_hw_header_def toy_hw_def toy_huge_details_def memcmp_eq_def)
  have len: "unat (size_d toy_huge_details) = 4294967296"
    by (simp add: toy_huge_details_def)
  have dg: "\<not> memcmp_eq (hash toy_huge_details)
         (digest ?hw (range_bytes (toy_mem (dev toy_s0))
            (MBED_CONF_APP_APPLICATION_START_ADDRESS toy_cfg) (unat (size_d toy_huge_details))))
         SIZEOF_SHA256"
    unfolding len
    by (simp add: digest_def toy_hw_header_def toy_hw_def toy_huge_details_def toy_finish_def
        memcmp_eq_def SIZEOF_SHA256_def replicate_numeral)
  show ?thesis
    using hdr pos chk dg by simp
qed

text \<open>
  C2. A chunk read that fails stops the loop, but the buffer has already been fed to the
  hash and the hash of what was fed is compared with the header. On a flash whose read
  fails and stores nothing, with a header holding the digest of the 6 bytes that were in the
  staging buffer, \<open>checkActiveApplication\<close> issues one read, which fails, and returns
  \<open>RESULT_SUCCESS\<close>.
\<close>

theorem checkActiveApplication_accepts_after_failed_read:
  "checkActiveApplication toy_cfg toy_hw_read_fails (Some toy_details) toy_s0
     = Some ((RESULT_SUCCESS, Some toy_stale_details),
             toy_s0\<lparr>calls := [UCP_GetActiveFirmwareDetails, Flash_read 40 6 (- 1)]\<rparr>)"
  by (simp add: checkActiveApplication_def readActiveFirmwareHeader_def toy_hw_read_fails_def
      toy_hw_header_def toy_stale_details_def check_loop.simps toy_defs)

section \<open>The eraser\<close>

lemma erase_sectors_run:
  fixes hw :: "('s, 'c) platform" and s :: "'s machine"
  assumes "erase_end hw limit a = Some e"
  shows "\<exists>es s'. erase_sectors hw limit a r0 s = Some (erase_status r0 es, s')
            \<and> calls s' = calls s @ es \<and> buffer_array s' = buffer_array s
            \<and> sector_erases hw a es \<and> replay hw (dev s) es = Some (dev s')
            \<and> (erase_status r0 es = 0 \<longrightarrow> erased_to a es = e)"
proof -
  have "\<forall>r0 (s :: 's machine). \<exists>es s'. erase_sectors hw limit a r0 s = Some (erase_status r0 es, s')
            \<and> calls s' = calls s @ es \<and> buffer_array s' = buffer_array s
            \<and> sector_erases hw a es \<and> replay hw (dev s) es = Some (dev s')
            \<and> (erase_status r0 es = 0 \<longrightarrow> erased_to a es = e)"
  proof (rule erase_end.raw_induct[where P="\<lambda>hw limit a e. \<forall>r0 (s :: 's machine). \<exists>es s'.
            erase_sectors hw limit a r0 s = Some (erase_status r0 es, s')
            \<and> calls s' = calls s @ es \<and> buffer_array s' = buffer_array s
            \<and> sector_erases hw a es \<and> replay hw (dev s) es = Some (dev s')
            \<and> (erase_status r0 es = 0 \<longrightarrow> erased_to a es = e)", OF _ assms])
    fix f and hw :: "('s, 'c) platform" and limit a e
    assume IH: "\<And>(hw :: ('s, 'c) platform) limit a e. f hw limit a = Some e \<Longrightarrow> \<forall>r0 (s :: 's machine). \<exists>es s'.
            erase_sectors hw limit a r0 s = Some (erase_status r0 es, s')
            \<and> calls s' = calls s @ es \<and> buffer_array s' = buffer_array s
            \<and> sector_erases hw a es \<and> replay hw (dev s) es = Some (dev s')
            \<and> (erase_status r0 es = 0 \<longrightarrow> erased_to a es = e)"
      and body: "(if a < limit then f hw limit (a + flash_get_sector_size hw a) else Some a) = Some e"
    show "\<forall>r0 (s :: 's machine). \<exists>es s'.
            erase_sectors hw limit a r0 s = Some (erase_status r0 es, s')
            \<and> calls s' = calls s @ es \<and> buffer_array s' = buffer_array s
            \<and> sector_erases hw a es \<and> replay hw (dev s) es = Some (dev s')
            \<and> (erase_status r0 es = 0 \<longrightarrow> erased_to a es = e)"
    proof (intro allI)
      fix r0 :: int and s :: "'s machine"
      show "\<exists>es s'.
            erase_sectors hw limit a r0 s = Some (erase_status r0 es, s')
            \<and> calls s' = calls s @ es \<and> buffer_array s' = buffer_array s
            \<and> sector_erases hw a es \<and> replay hw (dev s) es = Some (dev s')
            \<and> (erase_status r0 es = 0 \<longrightarrow> erased_to a es = e)"
      proof (cases "a < limit")
        case False
        then have "e = a" using body by simp
        moreover have "erase_sectors hw limit a r0 s = Some (r0, s)"
          using False by (subst erase_sectors.simps) simp
        ultimately show ?thesis
          by (intro exI[of _ "[]"] exI[of _ s]) simp
      next
        case True
        define n where "n = flash_get_sector_size hw a"
        obtain r t where er: "flash_erase hw a n (dev s) = (r, t)"
          by (cases "flash_erase hw a n (dev s)")
        define s1 where "s1 = s\<lparr>dev := t, calls := calls s @ [Flash_erase a n r]\<rparr>"
        show ?thesis
        proof (cases "r = 0")
          case False
          have "erase_sectors hw limit a r0 s = Some (r, s1)"
            using True False er
            by (subst erase_sectors.simps) (simp add: n_def[symmetric] s1_def)
          then show ?thesis
            using False er
            by (intro exI[of _ "[Flash_erase a n r]"] exI[of _ s1]) (simp add: s1_def n_def)
        next
          case r0: True
          have next_end: "f hw limit (a + n) = Some e"
            using body True by (simp add: n_def)
          from IH[OF next_end, rule_format, of r s1] obtain es s' where
            run: "erase_sectors hw limit (a + n) r s1 = Some (erase_status r es, s')"
            and c: "calls s' = calls s1 @ es" and b: "buffer_array s' = buffer_array s1"
            and se: "sector_erases hw (a + n) es"
            and rp: "replay hw (dev s1) es = Some (dev s')"
            and to: "erase_status r es = 0 \<longrightarrow> erased_to (a + n) es = e"
            by blast
          have "erase_sectors hw limit a r0 s = erase_sectors hw limit (a + n) r s1"
            using True r0 er
            by (subst erase_sectors.simps) (simp add: n_def[symmetric] s1_def)
          then show ?thesis
            using run c b se to r0 rp er
            by (intro exI[of _ "Flash_erase a n r # es"] exI[of _ s']) (simp add: s1_def n_def)
        qed
      qed
    qed
  qed
  then show ?thesis by blast
qed


lemma sector_erases_only:
  "sector_erases hw a es \<Longrightarrow> c \<in> set es \<Longrightarrow> \<exists>a' n r. c = Flash_erase a' n r"
  by (induction hw a es rule: sector_erases.induct) (auto split: if_splits)

lemma sector_erases_kinds:
  "sector_erases hw a es \<Longrightarrow> list_all is_erase_call es"
  by (induction hw a es rule: sector_erases.induct) (auto split: if_splits)

lemma eraseActiveFirmware_run:
  fixes hw :: "('s, 'c) platform" and s :: "'s machine"
  assumes walk: "erase_end hw (FIRMWARE_METADATA_HEADER_ADDRESS cfg
                    + (FIRMWARE_METADATA_HEADER_SIZE cfg + firmwareSize))
                   (FIRMWARE_METADATA_HEADER_ADDRESS cfg) = Some e"
  shows "(\<not> e < MBED_CONF_APP_MAX_APPLICATION_SIZE cfg + MBED_CONF_APP_APPLICATION_START_ADDRESS cfg
            \<longrightarrow> eraseActiveFirmware cfg hw firmwareSize s = Some (False, s))
       \<and> (e < MBED_CONF_APP_MAX_APPLICATION_SIZE cfg + MBED_CONF_APP_APPLICATION_START_ADDRESS cfg
            \<longrightarrow> (\<exists>es s'. eraseActiveFirmware cfg hw firmwareSize s
                            = Some (erase_status (- 1) es = 0, s')
                   \<and> calls s' = calls s @ es \<and> buffer_array s' = buffer_array s
                   \<and> sector_erases hw (FIRMWARE_METADATA_HEADER_ADDRESS cfg) es
                   \<and> replay hw (dev s) es = Some (dev s')
                   \<and> (erase_status (- 1) es = 0
                        \<longrightarrow> erased_to (FIRMWARE_METADATA_HEADER_ADDRESS cfg) es = e)))"
proof (intro conjI impI)
  assume "\<not> e < MBED_CONF_APP_MAX_APPLICATION_SIZE cfg + MBED_CONF_APP_APPLICATION_START_ADDRESS cfg"
  then show "eraseActiveFirmware cfg hw firmwareSize s = Some (False, s)"
    using walk by (simp add: eraseActiveFirmware_def Let_def)
next
  assume lt: "e < MBED_CONF_APP_MAX_APPLICATION_SIZE cfg + MBED_CONF_APP_APPLICATION_START_ADDRESS cfg"
  from erase_sectors_run[OF walk, of "- 1" s] obtain es s' where
    run: "erase_sectors hw (FIRMWARE_METADATA_HEADER_ADDRESS cfg
                    + (FIRMWARE_METADATA_HEADER_SIZE cfg + firmwareSize))
            (FIRMWARE_METADATA_HEADER_ADDRESS cfg) (- 1) s = Some (erase_status (- 1) es, s')"
    and rest: "calls s' = calls s @ es" "buffer_array s' = buffer_array s"
      "sector_erases hw (FIRMWARE_METADATA_HEADER_ADDRESS cfg) es"
      "replay hw (dev s) es = Some (dev s')"
      "erase_status (- 1) es = 0 \<longrightarrow> erased_to (FIRMWARE_METADATA_HEADER_ADDRESS cfg) es = e"
    by blast
  have "eraseActiveFirmware cfg hw firmwareSize s = Some (erase_status (- 1) es = 0, s')"
    using walk lt run by (simp add: eraseActiveFirmware_def Let_def)
  then show "\<exists>es s'. eraseActiveFirmware cfg hw firmwareSize s = Some (erase_status (- 1) es = 0, s')
                   \<and> calls s' = calls s @ es \<and> buffer_array s' = buffer_array s
                   \<and> sector_erases hw (FIRMWARE_METADATA_HEADER_ADDRESS cfg) es
                   \<and> replay hw (dev s) es = Some (dev s')
                   \<and> (erase_status (- 1) es = 0
                        \<longrightarrow> erased_to (FIRMWARE_METADATA_HEADER_ADDRESS cfg) es = e)"
    using rest by blast
qed

lemma eraseActiveFirmware_calls:
  fixes hw :: "('s, 'c) platform" and s :: "'s machine"
  assumes "eraseActiveFirmware cfg hw firmwareSize s = Some (r, s')"
  shows "\<exists>es. calls s' = calls s @ es \<and> sector_erases hw (FIRMWARE_METADATA_HEADER_ADDRESS cfg) es
              \<and> replay hw (dev s) es = Some (dev s')"
proof -
  obtain e where walk: "erase_end hw (FIRMWARE_METADATA_HEADER_ADDRESS cfg
                    + (FIRMWARE_METADATA_HEADER_SIZE cfg + firmwareSize))
                   (FIRMWARE_METADATA_HEADER_ADDRESS cfg) = Some e"
    using assms by (auto simp: eraseActiveFirmware_def Let_def split: bind_splits)
  show ?thesis
  proof (cases "e < MBED_CONF_APP_MAX_APPLICATION_SIZE cfg + MBED_CONF_APP_APPLICATION_START_ADDRESS cfg")
    case True
    with eraseActiveFirmware_run[OF walk, of s] assms show ?thesis by auto
  next
    case False
    with eraseActiveFirmware_run[OF walk, of s] assms have "s' = s" by auto
    then show ?thesis by (intro exI[of _ "[]"]) simp
  qed
qed

lemma erase_end_terminates:
  fixes hw :: "('s, 'c) platform"
  assumes ok: "\<forall>a. a < limit \<longrightarrow> 0 < flash_get_sector_size hw a
                  \<and> unat a + unat (flash_get_sector_size hw a) < 2 ^ 32"
  shows "\<exists>e. erase_end hw limit a = Some e"
proof (induction "unat limit - unat a" arbitrary: a rule: less_induct)
  case less
  show ?case
  proof (cases "a < limit")
    case False
    then show ?thesis by (subst erase_end.simps) simp
  next
    case True
    define n where "n = flash_get_sector_size hw a"
    have pos: "0 < unat n" and nowrap: "unat a + unat n < 2 ^ 32"
      using ok True by (auto simp: n_def word_less_nat_alt)
    have "unat a + unat n < 2 ^ LENGTH(32)"
      using nowrap by simp
    then have "unat (a + n) = unat a + unat n"
      by (rule unat_add_lem[THEN iffD1])
    moreover have "unat a < unat limit"
      using True by (simp add: word_less_nat_alt)
    ultimately have "unat limit - unat (a + n) < unat limit - unat a"
      using pos by linarith
    from less[OF this] obtain e where "erase_end hw limit (a + n) = Some e" by blast
    then show ?thesis
      using True by (subst erase_end.simps) (simp add: n_def)
  qed
qed













section \<open>Writing the payload\<close>





lemma unat_round_up:
  fixes x p :: u32
  shows "unat (x div p * p) = unat x div unat p * unat p"
proof -
  have "unat x div unat p * unat p \<le> unat x" by simp
  also have "\<dots> < 2 ^ 32" using unsigned_less[of x] by simp
  finally have "unat x div unat p * unat p < 2 ^ LENGTH(32)" by simp
  then have "unat (x div p * p) = unat (x div p) * unat p"
    by (intro unat_mult_lem[THEN iffD1]) (simp add: unat_div)
  then show ?thesis by (simp add: unat_div)
qed


lemma program_pages_log:
  fixes hw :: "('s, 'c) platform" and s :: "'s machine"
  assumes "program_pages hw app offset p programSize po rv s = Some y"
  shows "unat p dvd unat programSize - unat po \<longrightarrow> unat po \<le> unat programSize
           \<longrightarrow> (\<exists>cs. calls (snd y) = calls s @ cs
                  \<and> replay hw (dev s) cs = Some (dev (snd y))
                  \<and> list_all is_payload_call cs
                  \<and> (rv \<noteq> 0 \<longrightarrow> cs = [] \<and> fst y \<noteq> 0)
                  \<and> (\<forall>cs2. (if fst y = 0 then write_log p app i (offset + programSize) cs2
                             else cs2 = [])
                        \<longrightarrow> write_log p app i (offset + po) (cs @ cs2)))"
proof (rule program_pages.raw_induct[where P="\<lambda>(hw :: ('s, 'c) platform) app offset p programSize po
            (rv :: int) (s :: 's machine) y.
         unat p dvd unat programSize - unat po \<longrightarrow> unat po \<le> unat programSize
           \<longrightarrow> (\<exists>cs. calls (snd y) = calls s @ cs
                  \<and> replay hw (dev s) cs = Some (dev (snd y))
                  \<and> list_all is_payload_call cs
                  \<and> (rv \<noteq> 0 \<longrightarrow> cs = [] \<and> fst y \<noteq> 0)
                  \<and> (\<forall>cs2. (if fst y = 0 then write_log p app i (offset + programSize) cs2
                             else cs2 = [])
                        \<longrightarrow> write_log p app i (offset + po) (cs @ cs2)))", OF _ assms])
  fix f and hw :: "('s, 'c) platform" and app offset p programSize po and rv :: int
    and s :: "'s machine" and y
  assume IH: "\<And>(hw :: ('s, 'c) platform) app offset p programSize po (rv :: int) (s :: 's machine) y.
       f hw app offset p programSize po rv s = Some y
       \<Longrightarrow> unat p dvd unat programSize - unat po \<longrightarrow> unat po \<le> unat programSize
           \<longrightarrow> (\<exists>cs. calls (snd y) = calls s @ cs
                  \<and> replay hw (dev s) cs = Some (dev (snd y))
                  \<and> list_all is_payload_call cs
                  \<and> (rv \<noteq> 0 \<longrightarrow> cs = [] \<and> fst y \<noteq> 0)
                  \<and> (\<forall>cs2. (if fst y = 0 then write_log p app i (offset + programSize) cs2
                             else cs2 = [])
                        \<longrightarrow> write_log p app i (offset + po) (cs @ cs2)))"
    and body: "(if po < programSize \<and> rv = 0 then
        (let addr = app + offset + po;
             data = take (unat p) (drop (unat po) (buffer_array s))
         in case flash_program hw data addr p (dev s) of
              (retval', t) \<Rightarrow>
                f hw app offset p programSize (po + p) retval'
                  (s\<lparr>dev := t,
                     calls := calls s @ [Flash_program data addr p retval']\<rparr>))
      else Some (rv, s)) = Some y"
  show "unat p dvd unat programSize - unat po \<longrightarrow> unat po \<le> unat programSize
           \<longrightarrow> (\<exists>cs. calls (snd y) = calls s @ cs
                  \<and> replay hw (dev s) cs = Some (dev (snd y))
                  \<and> list_all is_payload_call cs
                  \<and> (rv \<noteq> 0 \<longrightarrow> cs = [] \<and> fst y \<noteq> 0)
                  \<and> (\<forall>cs2. (if fst y = 0 then write_log p app i (offset + programSize) cs2
                             else cs2 = [])
                        \<longrightarrow> write_log p app i (offset + po) (cs @ cs2)))"
  proof (intro impI)
    assume dv: "unat p dvd unat programSize - unat po" and le: "unat po \<le> unat programSize"
    show "\<exists>cs. calls (snd y) = calls s @ cs
                  \<and> replay hw (dev s) cs = Some (dev (snd y))
                  \<and> list_all is_payload_call cs
                  \<and> (rv \<noteq> 0 \<longrightarrow> cs = [] \<and> fst y \<noteq> 0)
                  \<and> (\<forall>cs2. (if fst y = 0 then write_log p app i (offset + programSize) cs2
                             else cs2 = [])
                        \<longrightarrow> write_log p app i (offset + po) (cs @ cs2))"
    proof (cases "po < programSize \<and> rv = 0")
      case False
      have y: "y = (rv, s)" using body unfolding if_not_P[OF False] by simp
      have "rv = 0 \<Longrightarrow> po = programSize"
        using False le by (simp add: word_less_nat_alt word_unat_eq_iff)
      then show ?thesis
        using y by (intro exI[of _ "[]"]) auto
    next
      case True
      define addr where "addr = app + offset + po"
      define data where "data = take (unat p) (drop (unat po) (buffer_array s))"
      obtain rv1 t where pr: "flash_program hw data addr p (dev s) = (rv1, t)"
        by (metis prod.exhaust)
      define s1 where "s1 = s\<lparr>dev := t, calls := calls s @ [Flash_program data addr p rv1]\<rparr>"
      have nxt: "f hw app offset p programSize (po + p) rv1 s1 = Some y"
        using body pr unfolding if_P[OF True] s1_def
        by (simp add: Let_def addr_def[symmetric] data_def[symmetric])
      have lt: "unat po < unat programSize"
        using True by (simp add: word_less_nat_alt)
      then have pos: "0 < unat programSize - unat po" by simp
      have ple: "unat p \<le> unat programSize - unat po"
        using dv pos by (rule dvd_imp_le)
      have "unat po + unat p \<le> unat programSize" using ple lt by simp
      moreover have "unat programSize < 2 ^ LENGTH(32)" by (rule unsigned_less)
      ultimately have "unat po + unat p < 2 ^ LENGTH(32)" by simp
      then have un: "unat (po + p) = unat po + unat p"
        by (rule unat_add_lem[THEN iffD1])
      have le': "unat (po + p) \<le> unat programSize"
        using un ple lt by simp
      have "unat programSize - unat po = (unat programSize - unat (po + p)) + unat p"
        using un ple by simp
      with dv have dv': "unat p dvd unat programSize - unat (po + p)"
        by (metis dvd_add_triv_right_iff)
      from IH[OF nxt] dv' le' obtain cs where
        c: "calls (snd y) = calls s1 @ cs" "replay hw (dev s1) cs = Some (dev (snd y))"
           "list_all is_payload_call cs" "rv1 \<noteq> 0 \<longrightarrow> cs = [] \<and> fst y \<noteq> 0"
           "\<forall>cs2. (if fst y = 0 then write_log p app i (offset + programSize) cs2 else cs2 = [])
                        \<longrightarrow> write_log p app i (offset + (po + p)) (cs @ cs2)"
        by blast
      have rv0: "rv = 0" using True by simp
      show ?thesis
      proof (intro exI[of _ "Flash_program data addr p rv1 # cs"] conjI allI impI)
        show "calls (snd y) = calls s @ Flash_program data addr p rv1 # cs"
          using c(1) by (simp add: s1_def)
        show "replay hw (dev s) (Flash_program data addr p rv1 # cs) = Some (dev (snd y))"
          using c(2) pr by (simp add: s1_def)
        show "list_all is_payload_call (Flash_program data addr p rv1 # cs)"
          using c(3) by simp
        show "(Flash_program data addr p rv1 # cs) = []" if "rv \<noteq> 0"
          using that rv0 by simp
        show "fst y \<noteq> 0" if "rv \<noteq> 0"
          using that rv0 by simp
      next
        fix cs2
        assume k: "if fst y = 0 then write_log p app i (offset + programSize) cs2 else cs2 = []"
        show "write_log p app i (offset + po) ((Flash_program data addr p rv1 # cs) @ cs2)"
        proof (cases "rv1 = 0")
          case True
          then show ?thesis
            using c(5) k by (simp add: addr_def add.assoc)
        next
          case False
          with c(4) have "cs = []" "fst y \<noteq> 0" by simp_all
          with k have "cs2 = []" by simp
          then show ?thesis
            using False \<open>cs = []\<close> by (simp add: addr_def add.assoc)
        qed
      qed
    qed
  qed
qed

lemma replay_append:
  "replay hw t cs = Some t' \<Longrightarrow> replay hw t (cs @ ds) = replay hw t' ds"
  by (induction hw t cs rule: replay.induct) (auto split: if_splits)

lemma write_loop_log:
  fixes hw :: "('s, 'c) platform" and s :: "'s machine"
  assumes "write_loop cfg hw index dsize p size_max offset rv s = Some y"
  shows "(\<exists>cs. calls (snd y) = calls s @ cs
            \<and> replay hw (dev s) cs = Some (dev (snd y))
            \<and> list_all is_payload_call cs
            \<and> (rv \<noteq> 0 \<longrightarrow> cs = [])
            \<and> (cs \<noteq> [] \<longrightarrow> (\<exists>n. hd cs = UCP_Read index offset n))
            \<and> write_log p (MBED_CONF_APP_APPLICATION_START_ADDRESS cfg) index offset cs)"
proof (rule write_loop.raw_induct[where P="\<lambda>cfg (hw :: ('s, 'c) platform) index dsize p size_max offset
            (rv :: int) (s :: 's machine) y. (\<exists>cs. calls (snd y) = calls s @ cs
            \<and> replay hw (dev s) cs = Some (dev (snd y))
            \<and> list_all is_payload_call cs
            \<and> (rv \<noteq> 0 \<longrightarrow> cs = [])
            \<and> (cs \<noteq> [] \<longrightarrow> (\<exists>n. hd cs = UCP_Read index offset n))
            \<and> write_log p (MBED_CONF_APP_APPLICATION_START_ADDRESS cfg) index offset cs)", OF _ assms])
  fix f cfg and hw :: "('s, 'c) platform" and index dsize p size_max offset and rv :: int
    and s :: "'s machine" and y
  assume IH: "\<And>cfg (hw :: ('s, 'c) platform) index dsize p size_max offset (rv :: int)
                (s :: 's machine) y.
       f cfg hw index dsize p size_max offset rv s = Some y \<Longrightarrow> (\<exists>cs. calls (snd y) = calls s @ cs
            \<and> replay hw (dev s) cs = Some (dev (snd y))
            \<and> list_all is_payload_call cs
            \<and> (rv \<noteq> 0 \<longrightarrow> cs = [])
            \<and> (cs \<noteq> [] \<longrightarrow> (\<exists>n. hd cs = UCP_Read index offset n))
            \<and> write_log p (MBED_CONF_APP_APPLICATION_START_ADDRESS cfg) index offset cs)"
    and body: "(if ucast offset < dsize \<and> rv = 0 then
        (let buffer_size = (if dsize - ucast offset > ucast size_max
                            then size_max else ucast (dsize - ucast offset))
         in case ARM_UCP_Read hw index offset buffer_size (dev s) of
              ((ucp_status, ev, buffer_size', data), t) \<Rightarrow>
                let s1 = s\<lparr>dev := t,
                           buffer_array := store (buffer_array s) data,
                           calls := calls s @ [UCP_Read index offset buffer_size]\<rparr>
                in do {
                     event_callback \<leftarrow> (if ucp_status = ERR_NONE then wait_event ev else Some ev);
                     if event_callback = ARM_UC_PAAL_EVENT_READ_DONE \<and> buffer_size' > 0 then
                       (let programSize = (buffer_size' + p - 1) div p * p
                        in do {
                             (retval', s2) \<leftarrow>
                               program_pages hw (MBED_CONF_APP_APPLICATION_START_ADDRESS cfg)
                                 offset p programSize 0 rv s1;
                             f cfg hw index dsize p size_max
                               (offset + programSize) retval' s2
                           })
                     else Some (- 1, s1)
                   })
      else Some (rv, s)) = Some y"
  show "(\<exists>cs. calls (snd y) = calls s @ cs
            \<and> replay hw (dev s) cs = Some (dev (snd y))
            \<and> list_all is_payload_call cs
            \<and> (rv \<noteq> 0 \<longrightarrow> cs = [])
            \<and> (cs \<noteq> [] \<longrightarrow> (\<exists>n. hd cs = UCP_Read index offset n))
            \<and> write_log p (MBED_CONF_APP_APPLICATION_START_ADDRESS cfg) index offset cs)"
  proof (cases "ucast offset < dsize \<and> rv = 0")
    case False
    have "y = (rv, s)" using body unfolding if_not_P[OF False] by simp
    then show ?thesis by (intro exI[of _ "[]"]) simp
  next
    case True
    define bs where "bs = (if dsize - ucast offset > ucast size_max
                          then size_max else ucast (dsize - ucast offset))"
    obtain ust ev bs' data t where
      rd: "ARM_UCP_Read hw index offset bs (dev s) = ((ust, ev, bs', data), t)"
      by (metis prod.exhaust)
    define s1 where "s1 = s\<lparr>dev := t, buffer_array := store (buffer_array s) data,
                         calls := calls s @ [UCP_Read index offset bs]\<rparr>"
    define programSize where "programSize = (bs' + p - 1) div p * p"
    have body': "(if ust = ERR_NONE then wait_event ev else Some ev) \<bind>
           (\<lambda>event_callback.
               if event_callback = ARM_UC_PAAL_EVENT_READ_DONE \<and> bs' > 0 then
                 program_pages hw (MBED_CONF_APP_APPLICATION_START_ADDRESS cfg)
                     offset p programSize 0 rv s1 \<bind>
                   (\<lambda>(retval', s2). f cfg hw index dsize p size_max (offset + programSize) retval' s2)
               else Some (- 1, s1)) = Some y"
      using body rd unfolding if_P[OF True] s1_def programSize_def
      by (simp add: Let_def bs_def[symmetric] split del: if_split cong: if_cong)
    then obtain evc where
      rest: "(if evc = ARM_UC_PAAL_EVENT_READ_DONE \<and> bs' > 0 then
                 program_pages hw (MBED_CONF_APP_APPLICATION_START_ADDRESS cfg)
                     offset p programSize 0 rv s1 \<bind>
                   (\<lambda>(retval', s2). f cfg hw index dsize p size_max (offset + programSize) retval' s2)
               else Some (- 1, s1)) = Some y"
      by (auto simp: bind_eq_Some_conv)
    have rv0: "rv = 0" using True by simp
    have step: "replay hw (dev s) (UCP_Read index offset bs # cs) = replay hw (dev s1) cs" for cs
      using rd by (simp add: s1_def)
    show ?thesis
    proof (cases "evc = ARM_UC_PAAL_EVENT_READ_DONE \<and> bs' > 0")
      case False
      have "y = (- 1, s1)" using rest unfolding if_not_P[OF False] by simp
      then show ?thesis
        using rv0 rd by (intro exI[of _ "[UCP_Read index offset bs]"]) (simp add: s1_def)
    next
      case t: True
      from rest obtain rv1 s2 where
        pp: "program_pages hw (MBED_CONF_APP_APPLICATION_START_ADDRESS cfg)
               offset p programSize 0 rv s1 = Some (rv1, s2)"
        and nxt: "f cfg hw index dsize p size_max (offset + programSize) rv1 s2 = Some y"
        unfolding if_P[OF t] by (auto simp: bind_eq_Some_conv)
      have dv: "unat p dvd unat programSize - unat (0 :: u32)"
        unfolding programSize_def by (simp add: unat_round_up)
      from program_pages_log[OF pp, where i = index] dv obtain cs1 where
        c1: "calls s2 = calls s1 @ cs1" "replay hw (dev s1) cs1 = Some (dev s2)"
            "list_all is_payload_call cs1"
            "\<forall>cs2. (if rv1 = 0 then write_log p (MBED_CONF_APP_APPLICATION_START_ADDRESS cfg) index
                                      (offset + programSize) cs2 else cs2 = [])
                  \<longrightarrow> write_log p (MBED_CONF_APP_APPLICATION_START_ADDRESS cfg) index (offset + 0)
                        (cs1 @ cs2)"
        by auto
      from IH[OF nxt] obtain cs2 where
        c2: "calls (snd y) = calls s2 @ cs2" "replay hw (dev s2) cs2 = Some (dev (snd y))"
            "list_all is_payload_call cs2" "rv1 \<noteq> 0 \<longrightarrow> cs2 = []"
            "write_log p (MBED_CONF_APP_APPLICATION_START_ADDRESS cfg) index (offset + programSize) cs2"
        by blast
      have k: "if rv1 = 0 then write_log p (MBED_CONF_APP_APPLICATION_START_ADDRESS cfg) index
                                      (offset + programSize) cs2 else cs2 = []"
        using c2(4,5) by simp
      have wl: "write_log p (MBED_CONF_APP_APPLICATION_START_ADDRESS cfg) index offset (cs1 @ cs2)"
        using c1(4) k by simp
      have rp: "replay hw (dev s1) (cs1 @ cs2) = Some (dev (snd y))"
        using c1(2) c2(2) by (simp add: replay_append)
      show ?thesis
        using c1(1,3) c2(1,3) wl rp rv0 step
        by (intro exI[of _ "UCP_Read index offset bs # cs1 @ cs2"]) (simp add: s1_def)
    qed
  qed
qed

lemma writeActiveFirmware_log:
  fixes hw :: "('s, 'c) platform" and s :: "'s machine"
  assumes "writeActiveFirmware cfg hw index (Some d) s = Some (r, s')"
  shows "page_aligned (flash_get_page_size hw) (MBED_CONF_APP_APPLICATION_START_ADDRESS cfg)
       \<and> (\<exists>cs. calls s' = calls s @ cs
            \<and> replay hw (dev s) cs = Some (dev s')
            \<and> list_all is_payload_call cs
            \<and> (cs \<noteq> [] \<longrightarrow> (\<exists>n. hd cs = UCP_Read index 0 n))
            \<and> write_log (flash_get_page_size hw) (MBED_CONF_APP_APPLICATION_START_ADDRESS cfg)
                 index 0 cs)"
proof -
  have nz: "flash_get_page_size hw \<noteq> 0"
    and al: "MBED_CONF_APP_APPLICATION_START_ADDRESS cfg mod flash_get_page_size hw = 0"
    using assms by (auto simp: writeActiveFirmware_def Let_def split: if_splits)
  obtain rv where
    run: "write_loop cfg hw index (size_d d) (flash_get_page_size hw)
            (BUFFER_SIZE cfg div flash_get_page_size hw * flash_get_page_size hw) 0 0 s
          = Some (rv, s')"
    using assms nz al
    by (auto simp: writeActiveFirmware_def Let_def bind_eq_Some_conv)
  show ?thesis
    using write_loop_log[OF run] al by (simp add: page_aligned_def)
qed






section \<open>Replacing the active application\<close>

lemma writeActiveFirmwareHeader_calls:
  fixes hw :: "('s, 'c) platform" and s :: "'s machine"
  assumes "writeActiveFirmwareHeader cfg hw (Some d) s = Some (r, s')"
  shows "\<exists>hs. calls s' = calls s @ Printf ''writeActiveFirmwareHeader\<newline>'' # hs
              \<and> list_all is_header_call hs
              \<and> replay hw (dev s) hs = Some (dev s')"
proof -
  let ?p = "flash_get_page_size hw"
  let ?n = "(ARM_UC_INTERNAL_HEADER_SIZE_V2 cfg + ?p - 1) div ?p * ?p"
  have g: "?p \<noteq> 0" "?n \<le> BUFFER_SIZE cfg" "?n \<le> FIRMWARE_METADATA_HEADER_SIZE cfg"
    using assms by (auto simp: writeActiveFirmwareHeader_def Let_def split: if_splits)
  obtain st n bytes where h: "arm_uc_create_internal_header_v2 hw d = (st, n, bytes)"
    by (metis prod.exhaust)
  show ?thesis
  proof (cases "st = ERR_NONE \<and> n = ARM_UC_INTERNAL_HEADER_SIZE_V2 cfg")
    case False
    then have "calls s' = calls s @ [Printf ''writeActiveFirmwareHeader\<newline>'', Create_internal_header]
               \<and> dev s' = dev s"
      using assms g h by (auto simp: writeActiveFirmwareHeader_def Let_def)
    then show ?thesis
      by (intro exI[of _ "[Create_internal_header]"]) simp
  next
    case True
    let ?s0 = "s\<lparr>calls := calls s @ [Printf ''writeActiveFirmwareHeader\<newline>'']\<rparr>"
    let ?s1 = "?s0\<lparr>buffer_array := store (store (buffer_array ?s0) (replicate (unat ?n) 0xFF)) bytes,
                    calls := calls ?s0 @ [Create_internal_header]\<rparr>"
    let ?data = "take (unat ?n) (buffer_array ?s1)"
    obtain ret t where
      pr: "flash_program hw ?data (FIRMWARE_METADATA_HEADER_ADDRESS cfg) ?n (dev ?s1) = (ret, t)"
      by (metis prod.exhaust)
    have "s' = ?s1\<lparr>dev := t, calls := calls ?s1
                 @ [Flash_program ?data (FIRMWARE_METADATA_HEADER_ADDRESS cfg) ?n ret]\<rparr>"
      using assms g h True pr by (simp add: writeActiveFirmwareHeader_def Let_def)
    then have c: "calls s' = calls s @ [Printf ''writeActiveFirmwareHeader\<newline>'', Create_internal_header,
                    Flash_program ?data (FIRMWARE_METADATA_HEADER_ADDRESS cfg) ?n ret]"
      and d: "dev s' = t"
      by simp_all
    show ?thesis
      using c d pr
      by (intro exI[of _ "[Create_internal_header,
             Flash_program ?data (FIRMWARE_METADATA_HEADER_ADDRESS cfg) ?n ret]"]) simp
  qed
qed

lemma copyStoredApplication_steps:
  assumes "eraseActiveFirmware cfg hw (ucast (size_d details)) s = Some (True, s1)"
    and "writeActiveFirmwareHeader cfg hw (Some details) s1 = Some (True, s2)"
    and "writeActiveFirmware cfg hw index (Some details) s2 = Some (True, s3)"
    and "checkActiveApplication cfg hw (Some details) s3 = Some ((recheck, details'), s4)"
  shows "copyStoredApplication cfg hw index details s = Some (recheck = RESULT_SUCCESS, s4)"
  using assms by (simp add: copyStoredApplication_def)

text \<open>
  C4. A run of \<open>copyStoredApplication\<close> that returns has gone through erase, header write,
  payload write and verification in this order. \<open>r1\<close>, \<open>r2\<close> and \<open>r3\<close> are the values of
  \<open>result\<close> after the first three steps and \<open>s1\<close>, \<open>s2\<close> and \<open>s3\<close> the states then. A
  step runs only if \<open>result\<close> is \<open>true\<close>, on the state the step before left; a step that is
  skipped issues no call and leaves state and \<open>result\<close> as they are. The calls of the run
  are the erases \<open>es\<close>, sector by sector, then the calls \<open>hs\<close> of the header write, which
  begin with its announcement on \<open>printf\<close>, then the calls \<open>ps\<close> of the payload write, then
  the calls \<open>vs\<close> of the verification; the calls of the three writing steps are a true
  account of what was done to the device. When a step returns \<open>false\<close> the function returns
  \<open>false\<close> in the state that step left: after a failed erase the run has issued erases
  only, and \<open>writeActiveFirmwareHeader\<close> has not been entered. When the three writing steps
  return \<open>true\<close>, the function returns \<open>true\<close> exactly when \<open>checkActiveApplication\<close>
  returns \<open>RESULT_SUCCESS\<close>, that is, when the header read back is valid with a positive
  size and the digest that the loop over the flash computes equals the hash of the header
  on its 32 bytes: a valid header is not enough.
\<close>

theorem copyStoredApplication_sequence:
  fixes hw :: "('s, 'c) platform" and s :: "'s machine"
  assumes run: "copyStoredApplication cfg hw index details s = Some (r, s')"
  shows "\<exists>r1 r2 r3 s1 s2 s3 es hs ps vs.
           eraseActiveFirmware cfg hw (ucast (size_d details)) s = Some (r1, s1)
         \<and> calls s1 = calls s @ es
         \<and> sector_erases hw (FIRMWARE_METADATA_HEADER_ADDRESS cfg) es
         \<and> (if r1 then writeActiveFirmwareHeader cfg hw (Some details) s1 = Some (r2, s2)
                       \<and> hs \<noteq> [] \<and> hd hs = Printf ''writeActiveFirmwareHeader\<newline>''
            else \<not> r2 \<and> s2 = s1 \<and> hs = [])
         \<and> calls s2 = calls s1 @ hs
         \<and> list_all is_header_call hs
         \<and> (if r2 then writeActiveFirmware cfg hw index (Some details) s2 = Some (r3, s3)
            else \<not> r3 \<and> s3 = s2 \<and> ps = [])
         \<and> calls s3 = calls s2 @ ps
         \<and> list_all is_payload_call ps
         \<and> replay hw (dev s) (es @ hs @ ps) = Some (dev s3)
         \<and> (if r3 then
               (\<exists>hv d' s3'. readActiveFirmwareHeader hw (Some details) s3 = Some ((hv, Some d'), s3')
                  \<and> (if hv \<and> 0 < size_d d'
                      then \<exists>ctx. check_loop cfg hw (size_d d') (ucast (size_d d')) 0
                                   (mbedtls_sha256_starts hw) s3' = Some (ctx, s')
                               \<and> r = (take 32 (hash d') = take 32 (mbedtls_sha256_finish hw ctx))
                      else \<not> r \<and> s' = s3'))
            else \<not> r \<and> s' = s3 \<and> vs = [])
         \<and> (r3 \<longrightarrow> (\<exists>recheck d'. checkActiveApplication cfg hw (Some details) s3
                                      = Some ((recheck, d'), s')
                                  \<and> r = (recheck = RESULT_SUCCESS)))
         \<and> calls s' = calls s3 @ vs
         \<and> list_all is_verify_call vs
         \<and> calls s' = calls s @ es @ hs @ ps @ vs"
proof -
  from run obtain r1 s1 where
    e: "eraseActiveFirmware cfg hw (ucast (size_d details)) s = Some (r1, s1)"
    by (auto simp: copyStoredApplication_def bind_eq_Some_conv)
  from eraseActiveFirmware_calls[OF e] obtain es where
    es: "calls s1 = calls s @ es" "sector_erases hw (FIRMWARE_METADATA_HEADER_ADDRESS cfg) es"
        "replay hw (dev s) es = Some (dev s1)"
    by blast
  show ?thesis
  proof (cases r1)
    case False
    have fin: "\<not> r" "s' = s1"
      using run e False by (simp_all add: copyStoredApplication_def)
    show ?thesis
      apply (rule exI[of _ r1], rule exI[of _ False], rule exI[of _ False],
             rule exI[of _ s1], rule exI[of _ s1], rule exI[of _ s1],
             rule exI[of _ es], rule exI[of _ "[]"], rule exI[of _ "[]"],
             rule exI[of _ "[]"])
      using e es False fin
      by simp
  next
    case r1: True
    from run e r1 obtain r2 s2 where
      h: "writeActiveFirmwareHeader cfg hw (Some details) s1 = Some (r2, s2)"
      by (auto simp: copyStoredApplication_def bind_eq_Some_conv)
    from writeActiveFirmwareHeader_calls[OF h] obtain hs' where
      hs': "calls s2 = calls s1 @ Printf ''writeActiveFirmwareHeader\<newline>'' # hs'"
           "list_all is_header_call hs'" "replay hw (dev s1) hs' = Some (dev s2)"
      by blast
    define hs where "hs = Printf ''writeActiveFirmwareHeader\<newline>'' # hs'"
    have hs: "calls s2 = calls s1 @ hs" "list_all is_header_call hs"
      "replay hw (dev s1) hs = Some (dev s2)" "hs \<noteq> []"
      "hd hs = Printf ''writeActiveFirmwareHeader\<newline>''"
      using hs' by (simp_all add: hs_def)
    have rp2: "replay hw (dev s) (es @ hs) = Some (dev s2)"
      using es(3) hs(3) by (simp add: replay_append)
    show ?thesis
    proof (cases r2)
      case False
      have fin: "\<not> r" "s' = s2"
        using run e r1 h False by (simp_all add: copyStoredApplication_def)
      show ?thesis
        apply (rule exI[of _ r1], rule exI[of _ r2], rule exI[of _ False],
               rule exI[of _ s1], rule exI[of _ s2], rule exI[of _ s2],
               rule exI[of _ es], rule exI[of _ hs], rule exI[of _ "[]"],
               rule exI[of _ "[]"])
        using e es r1 h hs False fin rp2
        by simp
    next
      case r2: True
      from run e r1 h r2 obtain r3 s3 where
        w: "writeActiveFirmware cfg hw index (Some details) s2 = Some (r3, s3)"
        by (auto simp: copyStoredApplication_def bind_eq_Some_conv)
      from writeActiveFirmware_log[OF w] obtain ps where
        ps: "calls s3 = calls s2 @ ps" "replay hw (dev s2) ps = Some (dev s3)"
            "list_all is_payload_call ps"
        by blast
      have rp3: "replay hw (dev s) (es @ hs @ ps) = Some (dev s3)"
        using rp2 ps(2) replay_append[OF rp2, of ps] by simp
      show ?thesis
      proof (cases r3)
        case False
        have fin: "\<not> r" "s' = s3"
          using run e r1 h r2 w False by (simp_all add: copyStoredApplication_def)
        show ?thesis
          apply (rule exI[of _ r1], rule exI[of _ r2], rule exI[of _ r3],
                 rule exI[of _ s1], rule exI[of _ s2], rule exI[of _ s3],
                 rule exI[of _ es], rule exI[of _ hs], rule exI[of _ ps],
                 rule exI[of _ "[]"])
          using e es r1 h hs r2 w ps False fin rp3
          by simp
      next
        case r3: True
        from run e r1 h r2 w r3 obtain rc dd where
          c: "checkActiveApplication cfg hw (Some details) s3 = Some ((rc, dd), s')"
          and r: "r = (rc = RESULT_SUCCESS)"
          by (auto simp: copyStoredApplication_def bind_eq_Some_conv)
        from checkActiveApplication_run[OF c] obtain hv d' s3' vs where
          v: "readActiveFirmwareHeader hw (Some details) s3 = Some ((hv, Some d'), s3')"
             "calls s' = calls s3 @ vs" "list_all is_verify_call vs"
             "if hv \<and> 0 < size_d d'
              then \<exists>ctx. check_loop cfg hw (size_d d') (ucast (size_d d')) 0
                           (mbedtls_sha256_starts hw) s3' = Some (ctx, s')
                       \<and> (rc = RESULT_SUCCESS)
                           = (take 32 (hash d') = take 32 (mbedtls_sha256_finish hw ctx))
              else rc \<noteq> RESULT_SUCCESS \<and> s' = s3'"
          by blast
        have pin: "\<exists>hv d' s3'. readActiveFirmwareHeader hw (Some details) s3 = Some ((hv, Some d'), s3')
                  \<and> (if hv \<and> 0 < size_d d'
                      then \<exists>ctx. check_loop cfg hw (size_d d') (ucast (size_d d')) 0
                                   (mbedtls_sha256_starts hw) s3' = Some (ctx, s')
                               \<and> r = (take 32 (hash d') = take 32 (mbedtls_sha256_finish hw ctx))
                      else \<not> r \<and> s' = s3')"
          using v(1,4) unfolding r
          by (intro exI[of _ hv] exI[of _ d'] exI[of _ s3']) (simp split: if_splits)
        have chk: "\<exists>recheck d'. checkActiveApplication cfg hw (Some details) s3
                                 = Some ((recheck, d'), s')
                             \<and> r = (recheck = RESULT_SUCCESS)"
          using c r by blast
        show ?thesis
          apply (rule exI[of _ r1], rule exI[of _ r2], rule exI[of _ r3],
                 rule exI[of _ s1], rule exI[of _ s2], rule exI[of _ s3],
                 rule exI[of _ es], rule exI[of _ hs], rule exI[of _ ps],
                 rule exI[of _ vs])
          using e es r1 h hs r2 w ps r3 pin chk v(2,3) rp3
          by simp
      qed
    qed
  qed
qed

text \<open>The runs on the small platform, step by step.\<close>

lemma toy_erase: "eraseActiveFirmware toy_cfg toy_hw (ucast (size_d toy_new_details)) toy_s_update
                    = Some (True, toy_s1)"
  by (simp add: run_defs toy_s1_def)

lemma toy_header: "writeActiveFirmwareHeader toy_cfg toy_hw (Some toy_new_details) toy_s1
                     = Some (True, toy_s2)"
  by (simp add: run_defs toy_s1_def toy_s2_def)

lemma toy_write: "writeActiveFirmware toy_cfg toy_hw 0 (Some toy_new_details) toy_s2
                    = Some (True, toy_s3)"
  by (simp add: run_defs toy_s1_def toy_s2_def toy_s3_def)

lemma toy_check: "checkActiveApplication toy_cfg toy_hw (Some toy_new_details) toy_s3
                    = Some ((RESULT_SUCCESS, Some toy_new_details), toy_s4)"
  by (simp add: run_defs toy_s1_def toy_s2_def toy_s3_def toy_s4_def)

lemma toy_erase_fails: "eraseActiveFirmware toy_cfg toy_hw_erase_fails (ucast (size_d toy_details)) toy_s0
                          = Some (False, toy_f1)"
  by (simp add: run_defs toy_hw_erase_fails_def toy_f1_def)

lemma toy_check_header:
  "readActiveFirmwareHeader toy_hw (Some toy_new_details) toy_s3
     = Some ((True, Some toy_new_details), toy_s3h)"
  by (simp add: run_defs toy_s1_def toy_s2_def toy_s3_def toy_s3h_def)

lemma toy_lost_erase:
  "eraseActiveFirmware toy_cfg toy_hw_payload_lost (ucast (size_d toy_new_details)) toy_s_update
     = Some (True, toy_s1)"
  by (simp add: run_defs toy_s1_def toy_hw_payload_lost_def)

lemma toy_lost_header:
  "writeActiveFirmwareHeader toy_cfg toy_hw_payload_lost (Some toy_new_details) toy_s1
     = Some (True, toy_s2)"
  by (simp add: run_defs toy_s1_def toy_s2_def toy_hw_payload_lost_def)

lemma toy_lost_write:
  "writeActiveFirmware toy_cfg toy_hw_payload_lost 0 (Some toy_new_details) toy_s2
     = Some (True, toy_p3)"
  by (simp add: run_defs toy_s1_def toy_s2_def toy_p3_def toy_hw_payload_lost_def)

lemma toy_lost_check_header:
  "readActiveFirmwareHeader toy_hw_payload_lost (Some toy_new_details) toy_p3
     = Some ((True, Some toy_new_details), toy_p3h)"
  by (simp add: run_defs toy_s1_def toy_s2_def toy_p3_def toy_p3h_def toy_hw_payload_lost_def)

lemma toy_lost_check:
  "checkActiveApplication toy_cfg toy_hw_payload_lost (Some toy_new_details) toy_p3
     = Some ((RESULT_ERROR, Some toy_new_details), toy_p4)"
  by (simp add: run_defs toy_s1_def toy_s2_def toy_p3_def toy_p4_def toy_hw_payload_lost_def)

lemma toy_run_erase_fails:
  "copyStoredApplication toy_cfg toy_hw_erase_fails 0 toy_details toy_s0 = Some (False, toy_f1)"
  using toy_erase_fails by (simp add: copyStoredApplication_def)

lemma toy_run:
  "copyStoredApplication toy_cfg toy_hw 0 toy_new_details toy_s_update = Some (True, toy_s4)"
  using copyStoredApplication_steps[OF toy_erase toy_header toy_write toy_check] by simp

lemma toy_run_lost:
  "copyStoredApplication toy_cfg toy_hw_payload_lost 0 toy_new_details toy_s_update
     = Some (False, toy_p4)"
  using copyStoredApplication_steps[OF toy_lost_erase toy_lost_header toy_lost_write toy_lost_check]
  by simp

lemma toy_page_erase:
  "eraseActiveFirmware toy_cfg toy_hw_page_fails (ucast (size_d toy_new_details)) toy_s_update
     = Some (True, toy_s1)"
  by (simp add: run_defs toy_s1_def toy_hw_page_fails_def)

lemma toy_page_header:
  "writeActiveFirmwareHeader toy_cfg toy_hw_page_fails (Some toy_new_details) toy_s1
     = Some (True, toy_s2)"
  by (simp add: run_defs toy_s1_def toy_s2_def toy_hw_page_fails_def)

lemma toy_page_write:
  "writeActiveFirmware toy_cfg toy_hw_page_fails 0 (Some toy_new_details) toy_s2
     = Some (False, toy_q3)"
  by (simp add: run_defs toy_s1_def toy_s2_def toy_q3_def toy_hw_page_fails_def)

lemma toy_run_page_fails:
  "copyStoredApplication toy_cfg toy_hw_page_fails 0 toy_new_details toy_s_update
     = Some (False, toy_q3)"
  using toy_page_erase toy_page_header toy_page_write by (simp add: copyStoredApplication_def)

theorem copyStoredApplication_sequence_witness:
  "copyStoredApplication toy_cfg toy_hw_erase_fails 0 toy_details toy_s0 = Some (False, toy_f1)
   \<and> eraseActiveFirmware toy_cfg toy_hw_erase_fails (ucast (size_d toy_details)) toy_s0
       = Some (False, toy_f1)
   \<and> calls toy_f1 = [Flash_erase 0 8 0, Flash_erase 8 8 (- 1)]
   \<and> sector_erases toy_hw_erase_fails (FIRMWARE_METADATA_HEADER_ADDRESS toy_cfg) (calls toy_f1)
   \<and> copyStoredApplication toy_cfg toy_hw 0 toy_new_details toy_s_update = Some (True, toy_s4)
   \<and> checkActiveApplication toy_cfg toy_hw (Some toy_new_details) toy_s3
       = Some ((RESULT_SUCCESS, Some toy_new_details), toy_s4)
   \<and> readActiveFirmwareHeader toy_hw (Some toy_new_details) toy_s3
       = Some ((True, Some toy_new_details), toy_s3h)
   \<and> (\<exists>ctx. check_loop toy_cfg toy_hw (size_d toy_new_details) (ucast (size_d toy_new_details)) 0
               (mbedtls_sha256_starts toy_hw) toy_s3h = Some (ctx, toy_s4)
           \<and> take 32 (hash toy_new_details) = take 32 (mbedtls_sha256_finish toy_hw ctx))
   \<and> calls toy_s4
       = [Flash_erase 0 8 0, Flash_erase 8 8 0, Flash_erase 16 8 0,
          Flash_erase 24 8 0, Flash_erase 32 8 0, Flash_erase 40 8 0,
          Printf ''writeActiveFirmwareHeader\<newline>'', Create_internal_header,
          Flash_program toy_header_bytes 0 36 0,
          UCP_Read 0 0 6, Flash_program [9, 8, 7, 6] 40 4 0, Flash_program [5, 4, 0, 0] 44 4 0,
          UCP_GetActiveFirmwareDetails, Flash_read 40 6 0]
   \<and> eraseActiveFirmware toy_cfg toy_hw_payload_lost (ucast (size_d toy_new_details)) toy_s_update
       = Some (True, toy_s1)
   \<and> writeActiveFirmwareHeader toy_cfg toy_hw_payload_lost (Some toy_new_details) toy_s1
       = Some (True, toy_s2)
   \<and> writeActiveFirmware toy_cfg toy_hw_payload_lost 0 (Some toy_new_details) toy_s2
       = Some (True, toy_p3)
   \<and> checkActiveApplication toy_cfg toy_hw_payload_lost (Some toy_new_details) toy_p3
       = Some ((RESULT_ERROR, Some toy_new_details), toy_p4)
   \<and> readActiveFirmwareHeader toy_hw_payload_lost (Some toy_new_details) toy_p3
       = Some ((True, Some toy_new_details), toy_p3h)
   \<and> (\<exists>ctx. check_loop toy_cfg toy_hw_payload_lost (size_d toy_new_details)
               (ucast (size_d toy_new_details)) 0
               (mbedtls_sha256_starts toy_hw_payload_lost) toy_p3h = Some (ctx, toy_p4)
           \<and> take 32 (hash toy_new_details)
               \<noteq> take 32 (mbedtls_sha256_finish toy_hw_payload_lost ctx))
   \<and> copyStoredApplication toy_cfg toy_hw_payload_lost 0 toy_new_details toy_s_update
       = Some (False, toy_p4)
   \<and> writeActiveFirmware toy_cfg toy_hw_page_fails 0 (Some toy_new_details) toy_s2
       = Some (False, toy_q3)
   \<and> copyStoredApplication toy_cfg toy_hw_page_fails 0 toy_new_details toy_s_update
       = Some (False, toy_q3)
   \<and> (\<exists>es hs ps. calls toy_q3 = es @ hs @ ps
          \<and> sector_erases toy_hw_page_fails (FIRMWARE_METADATA_HEADER_ADDRESS toy_cfg) es
          \<and> list_all is_header_call hs \<and> list_all is_payload_call ps)
   \<and> calls toy_q3
       = [Flash_erase 0 8 0, Flash_erase 8 8 0, Flash_erase 16 8 0,
          Flash_erase 24 8 0, Flash_erase 32 8 0, Flash_erase 40 8 0,
          Printf ''writeActiveFirmwareHeader\<newline>'', Create_internal_header,
          Flash_program toy_header_bytes 0 36 0,
          UCP_Read 0 0 6, Flash_program [9, 8, 7, 6] 40 4 0,
          Flash_program [5, 4, 0, 0] 44 4 (- 1)]"
proof -
  have c0: "calls toy_s0 = []" by (simp add: toy_s0_def)
  have cu: "calls toy_s_update = []" by (simp add: toy_s_update_def toy_s0_def)
  have pos: "0 < size_d toy_new_details" by (simp add: toy_new_details_def)
  have first: "sector_erases toy_hw_erase_fails (FIRMWARE_METADATA_HEADER_ADDRESS toy_cfg)
                 (calls toy_f1)"
  proof -
  from copyStoredApplication_sequence[OF toy_run_erase_fails] obtain r1 r2 r3 s1 s2 s3 es hs ps vs where
    A: "eraseActiveFirmware toy_cfg toy_hw_erase_fails (ucast (size_d toy_details)) toy_s0 = Some (r1, s1)"
    and A': "calls s1 = calls toy_s0 @ es"
            "sector_erases toy_hw_erase_fails (FIRMWARE_METADATA_HEADER_ADDRESS toy_cfg) es"
    and B: "if r1 then writeActiveFirmwareHeader toy_cfg toy_hw_erase_fails (Some toy_details) s1 = Some (r2, s2)
                       \<and> hs \<noteq> [] \<and> hd hs = Printf ''writeActiveFirmwareHeader\<newline>''
            else \<not> r2 \<and> s2 = s1 \<and> hs = []"
    and C: "if r2 then writeActiveFirmware toy_cfg toy_hw_erase_fails 0 (Some toy_details) s2 = Some (r3, s3)
            else \<not> r3 \<and> s3 = s2 \<and> ps = []"
    and D: "if r3 then
               (\<exists>hv d' s3'. readActiveFirmwareHeader toy_hw_erase_fails (Some toy_details) s3 = Some ((hv, Some d'), s3')
                  \<and> (if hv \<and> 0 < size_d d'
                      then \<exists>ctx. check_loop toy_cfg toy_hw_erase_fails (size_d d') (ucast (size_d d')) 0
                                   (mbedtls_sha256_starts toy_hw_erase_fails) s3' = Some (ctx, toy_f1)
                               \<and> False = (take 32 (hash d') = take 32 (mbedtls_sha256_finish toy_hw_erase_fails ctx))
                      else \<not> False \<and> toy_f1 = s3'))
            else \<not> False \<and> toy_f1 = s3 \<and> vs = []"
    and T: "calls toy_f1 = calls toy_s0 @ es @ hs @ ps @ vs"
    by blast
    from A toy_erase_fails have r1: "\<not> r1" "s1 = toy_f1" by simp_all
    from B r1 have "hs = []" "s2 = toy_f1" "\<not> r2" by simp_all
    with C have "ps = []" "\<not> r3" by simp_all
    with D have "vs = []" by simp
    with T \<open>hs = []\<close> \<open>ps = []\<close> c0 have "calls toy_f1 = es" by simp
    with A' show ?thesis by simp
  qed
  have second: "\<exists>ctx. check_loop toy_cfg toy_hw (size_d toy_new_details)
               (ucast (size_d toy_new_details)) 0
               (mbedtls_sha256_starts toy_hw) toy_s3h = Some (ctx, toy_s4)
           \<and> take 32 (hash toy_new_details) = take 32 (mbedtls_sha256_finish toy_hw ctx)"
  proof -
  from copyStoredApplication_sequence[OF toy_run] obtain r1 r2 r3 s1 s2 s3 es hs ps vs where
    A: "eraseActiveFirmware toy_cfg toy_hw (ucast (size_d toy_new_details)) toy_s_update = Some (r1, s1)"
    and A': "calls s1 = calls toy_s_update @ es"
            "sector_erases toy_hw (FIRMWARE_METADATA_HEADER_ADDRESS toy_cfg) es"
    and B: "if r1 then writeActiveFirmwareHeader toy_cfg toy_hw (Some toy_new_details) s1 = Some (r2, s2)
                       \<and> hs \<noteq> [] \<and> hd hs = Printf ''writeActiveFirmwareHeader\<newline>''
            else \<not> r2 \<and> s2 = s1 \<and> hs = []"
    and C: "if r2 then writeActiveFirmware toy_cfg toy_hw 0 (Some toy_new_details) s2 = Some (r3, s3)
            else \<not> r3 \<and> s3 = s2 \<and> ps = []"
    and D: "if r3 then
               (\<exists>hv d' s3'. readActiveFirmwareHeader toy_hw (Some toy_new_details) s3 = Some ((hv, Some d'), s3')
                  \<and> (if hv \<and> 0 < size_d d'
                      then \<exists>ctx. check_loop toy_cfg toy_hw (size_d d') (ucast (size_d d')) 0
                                   (mbedtls_sha256_starts toy_hw) s3' = Some (ctx, toy_s4)
                               \<and> True = (take 32 (hash d') = take 32 (mbedtls_sha256_finish toy_hw ctx))
                      else \<not> True \<and> toy_s4 = s3'))
            else \<not> True \<and> toy_s4 = s3 \<and> vs = []"
    and T: "calls toy_s4 = calls toy_s_update @ es @ hs @ ps @ vs"
    by blast
    from A toy_erase have r1: "r1" "s1 = toy_s1" by simp_all
    from B r1 toy_header have r2: "r2" "s2 = toy_s2" by simp_all
    from C r2 toy_write have r3: "r3" "s3 = toy_s3" by simp_all
    from D r3 obtain hv d' s3' where
      E: "readActiveFirmwareHeader toy_hw (Some toy_new_details) toy_s3 = Some ((hv, Some d'), s3')"
      and F: "if hv \<and> 0 < size_d d'
              then \<exists>ctx. check_loop toy_cfg toy_hw (size_d d') (ucast (size_d d')) 0
                           (mbedtls_sha256_starts toy_hw) s3' = Some (ctx, toy_s4)
                       \<and> True = (take 32 (hash d') = take 32 (mbedtls_sha256_finish toy_hw ctx))
              else \<not> True \<and> toy_s4 = s3'"
      by auto
    from E toy_check_header have "hv" "d' = toy_new_details" "s3' = toy_s3h" by simp_all
    with F pos show ?thesis by simp
  qed
  have third: "\<exists>ctx. check_loop toy_cfg toy_hw_payload_lost (size_d toy_new_details)
               (ucast (size_d toy_new_details)) 0
               (mbedtls_sha256_starts toy_hw_payload_lost) toy_p3h = Some (ctx, toy_p4)
           \<and> take 32 (hash toy_new_details)
               \<noteq> take 32 (mbedtls_sha256_finish toy_hw_payload_lost ctx)"
  proof -
  from copyStoredApplication_sequence[OF toy_run_lost] obtain r1 r2 r3 s1 s2 s3 es hs ps vs where
    A: "eraseActiveFirmware toy_cfg toy_hw_payload_lost (ucast (size_d toy_new_details)) toy_s_update = Some (r1, s1)"
    and A': "calls s1 = calls toy_s_update @ es"
            "sector_erases toy_hw_payload_lost (FIRMWARE_METADATA_HEADER_ADDRESS toy_cfg) es"
    and B: "if r1 then writeActiveFirmwareHeader toy_cfg toy_hw_payload_lost (Some toy_new_details) s1 = Some (r2, s2)
                       \<and> hs \<noteq> [] \<and> hd hs = Printf ''writeActiveFirmwareHeader\<newline>''
            else \<not> r2 \<and> s2 = s1 \<and> hs = []"
    and C: "if r2 then writeActiveFirmware toy_cfg toy_hw_payload_lost 0 (Some toy_new_details) s2 = Some (r3, s3)
            else \<not> r3 \<and> s3 = s2 \<and> ps = []"
    and D: "if r3 then
               (\<exists>hv d' s3'. readActiveFirmwareHeader toy_hw_payload_lost (Some toy_new_details) s3 = Some ((hv, Some d'), s3')
                  \<and> (if hv \<and> 0 < size_d d'
                      then \<exists>ctx. check_loop toy_cfg toy_hw_payload_lost (size_d d') (ucast (size_d d')) 0
                                   (mbedtls_sha256_starts toy_hw_payload_lost) s3' = Some (ctx, toy_p4)
                               \<and> False = (take 32 (hash d') = take 32 (mbedtls_sha256_finish toy_hw_payload_lost ctx))
                      else \<not> False \<and> toy_p4 = s3'))
            else \<not> False \<and> toy_p4 = s3 \<and> vs = []"
    and T: "calls toy_p4 = calls toy_s_update @ es @ hs @ ps @ vs"
    by blast
    from A toy_lost_erase have r1: "r1" "s1 = toy_s1" by simp_all
    from B r1 toy_lost_header have r2: "r2" "s2 = toy_s2" by simp_all
    from C r2 toy_lost_write have r3: "r3" "s3 = toy_p3" by simp_all
    from D r3 obtain hv d' s3' where
      E: "readActiveFirmwareHeader toy_hw_payload_lost (Some toy_new_details) toy_p3
            = Some ((hv, Some d'), s3')"
      and F: "if hv \<and> 0 < size_d d'
              then \<exists>ctx. check_loop toy_cfg toy_hw_payload_lost (size_d d') (ucast (size_d d')) 0
                           (mbedtls_sha256_starts toy_hw_payload_lost) s3' = Some (ctx, toy_p4)
                       \<and> False = (take 32 (hash d')
                                   = take 32 (mbedtls_sha256_finish toy_hw_payload_lost ctx))
              else \<not> False \<and> toy_p4 = s3'"
      by auto
    from E toy_lost_check_header have "hv" "d' = toy_new_details" "s3' = toy_p3h" by simp_all
    with F pos show ?thesis by simp
  qed
  have fourth: "\<exists>es hs ps. calls toy_q3 = es @ hs @ ps
          \<and> sector_erases toy_hw_page_fails (FIRMWARE_METADATA_HEADER_ADDRESS toy_cfg) es
          \<and> list_all is_header_call hs \<and> list_all is_payload_call ps"
  proof -
  from copyStoredApplication_sequence[OF toy_run_page_fails] obtain r1 r2 r3 s1 s2 s3 es hs ps vs where
    A: "eraseActiveFirmware toy_cfg toy_hw_page_fails (ucast (size_d toy_new_details)) toy_s_update = Some (r1, s1)"
    and A': "calls s1 = calls toy_s_update @ es"
            "sector_erases toy_hw_page_fails (FIRMWARE_METADATA_HEADER_ADDRESS toy_cfg) es"
    and B: "if r1 then writeActiveFirmwareHeader toy_cfg toy_hw_page_fails (Some toy_new_details) s1 = Some (r2, s2)
                       \<and> hs \<noteq> [] \<and> hd hs = Printf ''writeActiveFirmwareHeader\<newline>''
            else \<not> r2 \<and> s2 = s1 \<and> hs = []"
    and C: "if r2 then writeActiveFirmware toy_cfg toy_hw_page_fails 0 (Some toy_new_details) s2 = Some (r3, s3)
            else \<not> r3 \<and> s3 = s2 \<and> ps = []"
    and D: "if r3 then
               (\<exists>hv d' s3'. readActiveFirmwareHeader toy_hw_page_fails (Some toy_new_details) s3 = Some ((hv, Some d'), s3')
                  \<and> (if hv \<and> 0 < size_d d'
                      then \<exists>ctx. check_loop toy_cfg toy_hw_page_fails (size_d d') (ucast (size_d d')) 0
                                   (mbedtls_sha256_starts toy_hw_page_fails) s3' = Some (ctx, toy_q3)
                               \<and> False = (take 32 (hash d') = take 32 (mbedtls_sha256_finish toy_hw_page_fails ctx))
                      else \<not> False \<and> toy_q3 = s3'))
            else \<not> False \<and> toy_q3 = s3 \<and> vs = []"
    and K: "list_all is_header_call hs" "list_all is_payload_call ps"
    and T: "calls toy_q3 = calls toy_s_update @ es @ hs @ ps @ vs"
    by blast
    from A toy_page_erase have r1: "r1" "s1 = toy_s1" by simp_all
    from B r1 toy_page_header have r2: "r2" "s2 = toy_s2" by simp_all
    from C r2 toy_page_write have r3: "\<not> r3" "s3 = toy_q3" by simp_all
    from D r3 have "vs = []" by simp
    with T cu have "calls toy_q3 = es @ hs @ ps" by simp
    with A' K show ?thesis by blast
  qed
  have l1: "calls toy_f1 = [Flash_erase 0 8 0, Flash_erase 8 8 (- 1)]"
    by (simp add: toy_f1_def)
  have l2: "calls toy_s4
       = [Flash_erase 0 8 0, Flash_erase 8 8 0, Flash_erase 16 8 0,
          Flash_erase 24 8 0, Flash_erase 32 8 0, Flash_erase 40 8 0,
          Printf ''writeActiveFirmwareHeader\<newline>'', Create_internal_header,
          Flash_program toy_header_bytes 0 36 0,
          UCP_Read 0 0 6, Flash_program [9, 8, 7, 6] 40 4 0, Flash_program [5, 4, 0, 0] 44 4 0,
          UCP_GetActiveFirmwareDetails, Flash_read 40 6 0]"
    by (simp add: toy_s4_def toy_s3_def toy_s2_def toy_s1_def)
  have l3: "calls toy_q3
       = [Flash_erase 0 8 0, Flash_erase 8 8 0, Flash_erase 16 8 0,
          Flash_erase 24 8 0, Flash_erase 32 8 0, Flash_erase 40 8 0,
          Printf ''writeActiveFirmwareHeader\<newline>'', Create_internal_header,
          Flash_program toy_header_bytes 0 36 0,
          UCP_Read 0 0 6, Flash_program [9, 8, 7, 6] 40 4 0,
          Flash_program [5, 4, 0, 0] 44 4 (- 1)]"
    by (simp add: toy_q3_def toy_s2_def toy_s1_def)
  show ?thesis
    using toy_run_erase_fails toy_erase_fails l1 first toy_run toy_check toy_check_header second l2
      toy_lost_erase toy_lost_header toy_lost_write toy_lost_check toy_lost_check_header third
      toy_run_lost toy_page_write toy_run_page_fails fourth l3
    by (intro conjI)
qed

text \<open>
  C9, as amended. \<open>checkActiveApplication\<close> reads the header again from the flash, and it
  is the header read back that is classified. For a details record with size 0: when
  erase, header write and payload write succeed and the header read back carries the size
  just written, the verification returns \<open>RESULT_EMPTY\<close> (\<open>RESULT_ERROR\<close> if the read
  itself fails) and \<open>copyStoredApplication\<close> returns \<open>false\<close>.
\<close>

theorem copyStoredApplication_empty_image_fails:
  assumes "size_d details = 0"
    and "eraseActiveFirmware cfg hw (ucast (size_d details)) s = Some (True, s1)"
    and "writeActiveFirmwareHeader cfg hw (Some details) s1 = Some (True, s2)"
    and "writeActiveFirmware cfg hw index (Some details) s2 = Some (True, s3)"
    and "readActiveFirmwareHeader hw (Some details) s3 = Some ((headerValid, Some d'), s4)"
    and "size_d d' = size_d details"
  shows "checkActiveApplication cfg hw (Some details) s3
           = Some ((if headerValid then RESULT_EMPTY else RESULT_ERROR, Some d'), s4)
       \<and> copyStoredApplication cfg hw index details s = Some (False, s4)"
proof -
  have chk: "checkActiveApplication cfg hw (Some details) s3
           = Some ((if headerValid then RESULT_EMPTY else RESULT_ERROR, Some d'), s4)"
    using assms(1,5,6) by (simp add: checkActiveApplication_def)
  have "copyStoredApplication cfg hw index details s
          = Some ((if headerValid then RESULT_EMPTY else RESULT_ERROR) = RESULT_SUCCESS, s4)"
    using assms(2-4) chk by (rule copyStoredApplication_steps)
  then show ?thesis
    using chk by simp
qed

lemma toy_w_erase: "eraseActiveFirmware toy_cfg toy_hw (ucast (size_d toy_empty_details)) toy_s0
                      = Some (True, toy_w1)"
  by (simp add: run_defs toy_w1_def)

lemma toy_w_header: "writeActiveFirmwareHeader toy_cfg toy_hw (Some toy_empty_details) toy_w1
                       = Some (True, toy_w2)"
  by (simp add: run_defs toy_w1_def toy_w2_def)

lemma toy_w_write: "writeActiveFirmware toy_cfg toy_hw 0 (Some toy_empty_details) toy_w2
                      = Some (True, toy_w2)"
  by (simp add: run_defs)

lemma toy_w_read: "readActiveFirmwareHeader toy_hw (Some toy_empty_details) toy_w2
                     = Some ((True, Some toy_empty_details), toy_w4)"
  by (simp add: run_defs toy_w1_def toy_w2_def toy_w4_def)

theorem copyStoredApplication_empty_image_fails_witness:
  "size_d toy_empty_details = 0
   \<and> eraseActiveFirmware toy_cfg toy_hw (ucast (size_d toy_empty_details)) toy_s0 = Some (True, toy_w1)
   \<and> writeActiveFirmwareHeader toy_cfg toy_hw (Some toy_empty_details) toy_w1 = Some (True, toy_w2)
   \<and> writeActiveFirmware toy_cfg toy_hw 0 (Some toy_empty_details) toy_w2 = Some (True, toy_w2)
   \<and> readActiveFirmwareHeader toy_hw (Some toy_empty_details) toy_w2
       = Some ((True, Some toy_empty_details), toy_w4)
   \<and> checkActiveApplication toy_cfg toy_hw (Some toy_empty_details) toy_w2
       = Some ((RESULT_EMPTY, Some toy_empty_details), toy_w4)
   \<and> copyStoredApplication toy_cfg toy_hw 0 toy_empty_details toy_s0 = Some (False, toy_w4)"
proof -
  have z: "size_d toy_empty_details = 0"
    by (simp add: toy_empty_details_def)
  show ?thesis
    using copyStoredApplication_empty_image_fails[OF z toy_w_erase toy_w_header toy_w_write
        toy_w_read refl]
      z toy_w_erase toy_w_header toy_w_write toy_w_read
    by simp
qed

text \<open>
  C9 as stated fails on a flash whose erase and program report success and leave the
  content as it was, with a valid image in place: every writing step returns \<open>true\<close>, the
  verification reads the old header, finds the old image intact, and the installation of
  the empty image returns \<open>true\<close>.
\<close>

lemma toy_n_erase: "eraseActiveFirmware toy_cfg toy_hw_noop (ucast (size_d toy_empty_details)) toy_s0
                      = Some (True, toy_n1)"
  by (simp add: run_defs toy_hw_noop_def toy_n1_def)

lemma toy_n_header: "writeActiveFirmwareHeader toy_cfg toy_hw_noop (Some toy_empty_details) toy_n1
                       = Some (True, toy_n2)"
  by (simp add: run_defs toy_hw_noop_def toy_n1_def toy_n2_def)

lemma toy_n_write: "writeActiveFirmware toy_cfg toy_hw_noop 0 (Some toy_empty_details) toy_n2
                      = Some (True, toy_n2)"
  by (simp add: run_defs toy_hw_noop_def)

lemma toy_n_check: "checkActiveApplication toy_cfg toy_hw_noop (Some toy_empty_details) toy_n2
                      = Some ((RESULT_SUCCESS, Some toy_details), toy_n4)"
  by (simp add: run_defs toy_hw_noop_def toy_n1_def toy_n2_def toy_n4_def)

theorem copyStoredApplication_empty_image_counterexample:
  "size_d toy_empty_details = 0
   \<and> eraseActiveFirmware toy_cfg toy_hw_noop (ucast (size_d toy_empty_details)) toy_s0
       = Some (True, toy_n1)
   \<and> writeActiveFirmwareHeader toy_cfg toy_hw_noop (Some toy_empty_details) toy_n1
       = Some (True, toy_n2)
   \<and> writeActiveFirmware toy_cfg toy_hw_noop 0 (Some toy_empty_details) toy_n2 = Some (True, toy_n2)
   \<and> copyStoredApplication toy_cfg toy_hw_noop 0 toy_empty_details toy_s0 = Some (True, toy_n4)"
  using copyStoredApplication_steps[OF toy_n_erase toy_n_header toy_n_write toy_n_check]
    toy_n_erase toy_n_header toy_n_write
  by (simp add: toy_empty_details_def)

section \<open>Mirroring the active application\<close>

lemma mirror_prefix:
  assumes init: "ubd_init hw (dev s) = (BD_ERROR_OK, t0)"
    and hdr: "readActiveFirmwareHeader hw (Some details0) (mirror_entry s BD_ERROR_OK t0)
                = Some ((True, Some details), s2)"
    and pos: "0 < size_d details"
    and rd: "ubd_read hw bdOffset (sizeof_details cfg) (dev s2) = ((BD_ERROR_OK, bytes), t2)"
  shows "copyActiveApplicationIntoFlash cfg hw details0 bdOffset s =
     (let s3 = s2\<lparr>dev := t2, calls := calls s2 @ [Ubd_read bdOffset (sizeof_details cfg) BD_ERROR_OK]\<rparr>;
          curr_details = details_of_bytes cfg bytes
      in if version curr_details = version details \<and> size_d curr_details = size_d details
         then Some (RESULT_SUCCESS, s3)
         else
           do {
             s4 \<leftarrow> copy_loop cfg hw (size_d details) (ucast (size_d details))
                     0 (bdOffset + sizeof_details cfg) s3;
             (case bdSha256_calculate hw (buffer_array s4) (bdOffset + sizeof_details cfg)
                     (size_d details) (dev s4) of
                ((shaInBd, buffer'), t4) \<Rightarrow>
                  let s5 = s4\<lparr>dev := t4, buffer_array := buffer',
                             calls := calls s4 @ [BdSha256_calculate (bdOffset + sizeof_details cfg)
                                                    (size_d details) shaInBd]\<rparr>
                  in if memcmp_eq (hash details) shaInBd SIZEOF_SHA256 then
                       (let record = details_bytes cfg details
                        in case ubd_program hw record bdOffset (sizeof_details cfg) (dev s5) of
                             (program_status, t5) \<Rightarrow>
                               Some (RESULT_SUCCESS,
                                     s5\<lparr>dev := t5,
                                        calls := calls s5 @ [Ubd_program record bdOffset
                                                               (sizeof_details cfg) program_status]\<rparr>))
                     else Some (RESULT_ERROR, s5))
           })"
  using init hdr pos rd
  by (simp add: copyActiveApplicationIntoFlash_def mirror_entry_def Let_def)

text \<open>
  C8, as amended. When \<open>ubd.init\<close> succeeds, the internal header is valid with size > 0, and
  the record read from the secondary device at \<open>bdOffset\<close> decodes to the same version and
  size, \<open>copyActiveApplicationIntoFlash\<close> returns \<open>RESULT_SUCCESS\<close> after exactly four
  calls: the \<open>printf\<close>, \<open>ubd.init\<close>, the header read and the read of the record. It reads
  no payload from the internal flash and programs nothing. This holds for any call, so also
  for a second call that reads back the record the first call committed.
\<close>

theorem copyActiveApplicationIntoFlash_skips_current_mirror:
  assumes "ubd_init hw (dev s) = (BD_ERROR_OK, t0)"
    and "readActiveFirmwareHeader hw (Some details0) (mirror_entry s BD_ERROR_OK t0)
           = Some ((True, Some details), s2)"
    and "0 < size_d details"
    and "ubd_read hw bdOffset (sizeof_details cfg) (dev s2) = ((BD_ERROR_OK, bytes), t2)"
    and "version (details_of_bytes cfg bytes) = version details"
    and "size_d (details_of_bytes cfg bytes) = size_d details"
    and "s3 = s2\<lparr>dev := t2, calls := calls s2 @ [Ubd_read bdOffset (sizeof_details cfg) BD_ERROR_OK]\<rparr>"
  shows "copyActiveApplicationIntoFlash cfg hw details0 bdOffset s = Some (RESULT_SUCCESS, s3)
       \<and> new_calls s s3
           = [Printf ''Copying active firmware into external flash...\<newline>'',
              Ubd_init BD_ERROR_OK, UCP_GetActiveFirmwareDetails,
              Ubd_read bdOffset (sizeof_details cfg) BD_ERROR_OK]
       \<and> buffer_array s3 = buffer_array s"
proof -
  have "copyActiveApplicationIntoFlash cfg hw details0 bdOffset s = Some (RESULT_SUCCESS, s3)"
    using mirror_prefix[OF assms(1-4)] assms(5-7) by (simp add: Let_def)
  moreover from readActiveFirmwareHeader_calls[OF assms(2)]
  have "calls s2 = calls (mirror_entry s BD_ERROR_OK t0) @ [UCP_GetActiveFirmwareDetails]"
    and "buffer_array s2 = buffer_array (mirror_entry s BD_ERROR_OK t0)"
    by simp_all
  ultimately show ?thesis
    using assms(7) by (simp add: new_calls_def mirror_entry_def)
qed

lemmas mirror_defs =
  copyActiveApplicationIntoFlash_def readActiveFirmwareHeader_def copy_loop.simps
  mirror_entry_def toy_mirror_calls_def toy_defs

lemma toy_mirror_first:
  "copyActiveApplicationIntoFlash toy_cfg toy_hw toy_empty_details 0 toy_s0
     = Some (RESULT_SUCCESS, toy_m1)"
  by (simp add: mirror_defs toy_m1_def)

theorem copyActiveApplicationIntoFlash_skips_current_mirror_witness:
  "copyActiveApplicationIntoFlash toy_cfg toy_hw toy_empty_details 0 toy_s0
     = Some (RESULT_SUCCESS, toy_m1)
   \<and> ubd_init toy_hw (dev toy_m1) = (BD_ERROR_OK, dev toy_m1)
   \<and> readActiveFirmwareHeader toy_hw (Some toy_empty_details)
        (mirror_entry toy_m1 BD_ERROR_OK (dev toy_m1))
       = Some ((True, Some toy_details),
               (mirror_entry toy_m1 BD_ERROR_OK (dev toy_m1))
                 \<lparr>calls := calls (mirror_entry toy_m1 BD_ERROR_OK (dev toy_m1))
                              @ [UCP_GetActiveFirmwareDetails]\<rparr>)
   \<and> 0 < size_d toy_details
   \<and> ubd_read toy_hw 0 (sizeof_details toy_cfg) (dev toy_m1)
       = ((BD_ERROR_OK, toy_encode toy_details), dev toy_m1)
   \<and> version (details_of_bytes toy_cfg (toy_encode toy_details)) = version toy_details
   \<and> size_d (details_of_bytes toy_cfg (toy_encode toy_details)) = size_d toy_details
   \<and> copyActiveApplicationIntoFlash toy_cfg toy_hw toy_empty_details 0 toy_m1
       = Some (RESULT_SUCCESS, toy_m2)
   \<and> new_calls toy_m1 toy_m2
       = [Printf ''Copying active firmware into external flash...\<newline>'',
          Ubd_init BD_ERROR_OK, UCP_GetActiveFirmwareDetails,
          Ubd_read 0 (sizeof_details toy_cfg) BD_ERROR_OK]"
proof -
  let ?e = "mirror_entry toy_m1 BD_ERROR_OK (dev toy_m1)"
  let ?s2 = "?e\<lparr>calls := calls ?e @ [UCP_GetActiveFirmwareDetails]\<rparr>"
  have h1: "ubd_init toy_hw (dev toy_m1) = (BD_ERROR_OK, dev toy_m1)"
    by (simp add: toy_hw_def BD_ERROR_OK_def)
  have h2: "readActiveFirmwareHeader toy_hw (Some toy_empty_details) ?e
              = Some ((True, Some toy_details), ?s2)"
    by (simp add: mirror_defs toy_m1_def)
  have h3: "0 < size_d toy_details"
    by (simp add: toy_details_def)
  have h4: "ubd_read toy_hw 0 (sizeof_details toy_cfg) (dev ?s2)
              = ((BD_ERROR_OK, toy_encode toy_details), dev toy_m1)"
    by (simp add: mirror_defs toy_m1_def)
  have h5: "version (details_of_bytes toy_cfg (toy_encode toy_details)) = version toy_details"
    and h6: "size_d (details_of_bytes toy_cfg (toy_encode toy_details)) = size_d toy_details"
    by (simp_all add: toy_defs)
  have h7: "toy_m2 = ?s2\<lparr>dev := dev toy_m1,
                          calls := calls ?s2 @ [Ubd_read 0 (sizeof_details toy_cfg) BD_ERROR_OK]\<rparr>"
    by (simp add: toy_m2_def mirror_entry_def toy_cfg_def BD_ERROR_OK_def)
  have h4': "ubd_read toy_hw 0 (sizeof_details toy_cfg) (dev toy_m1)
              = ((BD_ERROR_OK, toy_encode toy_details), dev toy_m1)"
    using h4 by (simp add: mirror_entry_def)
  show ?thesis
    using copyActiveApplicationIntoFlash_skips_current_mirror[OF h1 h2 h3 h4 h5 h6 h7]
      toy_mirror_first h1 h2 h3 h4' h5 h6
    by simp
qed

text \<open>
  C8 as stated fails in its last part. The status of the program that commits the details
  record is not looked at: on a block device whose program at offset 0 fails and stores
  nothing, the first call copies the payload, finds its digest right and returns
  \<open>RESULT_SUCCESS\<close>; the second call, right after it, finds no record, reads the payload
  and programs it again.
\<close>

theorem copyActiveApplicationIntoFlash_second_call_counterexample:
  "copyActiveApplicationIntoFlash toy_cfg toy_hw_commit_fails toy_empty_details 0 toy_s0
     = Some (RESULT_SUCCESS, toy_c1)
   \<and> copyActiveApplicationIntoFlash toy_cfg toy_hw_commit_fails toy_empty_details 0 toy_c1
       = Some (RESULT_SUCCESS, toy_c2)
   \<and> new_calls toy_c1 toy_c2 = toy_mirror_calls (- 1)
   \<and> Flash_read 40 6 0 \<in> set (new_calls toy_c1 toy_c2)
   \<and> Ubd_program [1, 2, 3, 4, 5, 6] 34 6 0 \<in> set (new_calls toy_c1 toy_c2)"
proof -
  have a: "copyActiveApplicationIntoFlash toy_cfg toy_hw_commit_fails toy_empty_details 0 toy_s0
             = Some (RESULT_SUCCESS, toy_c1)"
    by (simp add: mirror_defs toy_hw_commit_fails_def toy_c1_def)
  have b: "copyActiveApplicationIntoFlash toy_cfg toy_hw_commit_fails toy_empty_details 0 toy_c1
             = Some (RESULT_SUCCESS, toy_c2)"
    by (simp add: mirror_defs toy_hw_commit_fails_def toy_c1_def toy_c2_def)
  have c: "new_calls toy_c1 toy_c2 = toy_mirror_calls (- 1)"
    by (simp add: new_calls_def toy_c2_def)
  show ?thesis
    using a b unfolding c by (simp add: toy_mirror_calls_def)
qed

lemma copy_loop_calls:
  fixes hw :: "('s, 'c) platform" and s :: "'s machine"
  assumes "copy_loop cfg hw dsize remaining status offset s = Some s'"
  shows "\<exists>cs. calls s' = calls s @ cs \<and> chunk_copies cs"
proof (rule copy_loop.raw_induct[where P="\<lambda>cfg (hw :: ('s, 'c) platform) dsize remaining status offset
            (s :: 's machine) s'. \<exists>cs. calls s' = calls s @ cs \<and> chunk_copies cs", OF _ assms])
  fix f cfg and hw :: "('s, 'c) platform" and dsize remaining status offset and s s' :: "'s machine"
  assume IH: "\<And>cfg (hw :: ('s, 'c) platform) dsize remaining status offset (s :: 's machine) s'.
       f cfg hw dsize remaining status offset s = Some s'
       \<Longrightarrow> \<exists>cs. calls s' = calls s @ cs \<and> chunk_copies cs"
    and body: "(if remaining > 0 \<and> status = 0 then
        (let readSize = (if remaining > BUFFER_SIZE cfg then BUFFER_SIZE cfg else remaining);
             addr = (ucast ((ucast (MBED_CONF_APP_APPLICATION_START_ADDRESS cfg) :: u64)
                            + (dsize - ucast remaining)) :: u32)
         in case flash_read hw addr readSize (dev s) of
              ((status', data), t) \<Rightarrow>
                let s1 = s\<lparr>dev := t,
                           buffer_array := store (buffer_array s) (take (unat readSize) data),
                           calls := calls s @ [Flash_read addr readSize status']\<rparr>;
                    chunk = take (unat readSize) (buffer_array s1)
                in case ubd_program hw chunk offset readSize (dev s1) of
                     (program_status, t') \<Rightarrow>
                       f cfg hw dsize (remaining - readSize) status' (offset + readSize)
                         (s1\<lparr>dev := t',
                             calls := calls s1
                               @ [Ubd_program chunk offset readSize program_status]\<rparr>))
      else Some s) = Some s'"
  show "\<exists>cs. calls s' = calls s @ cs \<and> chunk_copies cs"
  proof (cases "remaining > 0 \<and> status = 0")
    case False
    have "s' = s" using body unfolding if_not_P[OF False] by simp
    then show ?thesis by (intro exI[of _ "[]"]) simp
  next
    case True
    define readSize where "readSize = (if remaining > BUFFER_SIZE cfg then BUFFER_SIZE cfg else remaining)"
    define addr where "addr = (ucast ((ucast (MBED_CONF_APP_APPLICATION_START_ADDRESS cfg) :: u64)
                            + (dsize - ucast remaining)) :: u32)"
    obtain status' data t where rd: "flash_read hw addr readSize (dev s) = ((status', data), t)"
      by (metis prod.exhaust)
    define s1 where "s1 = s\<lparr>dev := t,
                           buffer_array := store (buffer_array s) (take (unat readSize) data),
                           calls := calls s @ [Flash_read addr readSize status']\<rparr>"
    define chunk where "chunk = take (unat readSize) (buffer_array s1)"
    obtain pst t' where pr: "ubd_program hw chunk offset readSize (dev s1) = (pst, t')"
      by (metis prod.exhaust)
    define s2 where "s2 = s1\<lparr>dev := t', calls := calls s1 @ [Ubd_program chunk offset readSize pst]\<rparr>"
    have "f cfg hw dsize (remaining - readSize) status' (offset + readSize) s2 = Some s'"
      using body rd pr unfolding if_P[OF True] s2_def chunk_def s1_def
      by (simp add: Let_def readSize_def[symmetric] addr_def[symmetric])
    from IH[OF this] obtain cs where "calls s' = calls s2 @ cs" "chunk_copies cs" by blast
    then show ?thesis
      by (intro exI[of _ "Flash_read addr readSize status' # Ubd_program chunk offset readSize pst # cs"])
        (simp add: s2_def s1_def)
  qed
qed

text \<open>
  C7. Take a run of \<open>copyActiveApplicationIntoFlash\<close> that reaches the comparison of the
  digests: \<open>ubd.init\<close> succeeded, the internal header is valid with size > 0, the record on
  the secondary device was read and differs, the copy loop returned in \<open>s4\<close>, and
  \<open>BdSha256::calculate\<close> delivered \<open>shaInBd\<close>, which leaves the state \<open>s5\<close>. Up to \<open>s4\<close>
  the loop has issued reads of the internal flash, each followed by the program of that
  chunk, and nothing else. If \<open>shaInBd\<close> differs from the internal hash the function
  returns \<open>RESULT_ERROR\<close> in \<open>s5\<close>: the digest calculation is its last call and no record
  is programmed. If it matches, the function programs the details record at \<open>bdOffset\<close> as
  its last call and returns \<open>RESULT_SUCCESS\<close>.
\<close>

theorem copyActiveApplicationIntoFlash_commits_after_digest_match:
  fixes hw :: "('s, 'c) platform" and s :: "'s machine"
  assumes init: "ubd_init hw (dev s) = (BD_ERROR_OK, t0)"
    and hdr: "readActiveFirmwareHeader hw (Some details0) (mirror_entry s BD_ERROR_OK t0)
                = Some ((True, Some details), s2)"
    and pos: "0 < size_d details"
    and rd: "ubd_read hw bdOffset (sizeof_details cfg) (dev s2) = ((BD_ERROR_OK, bytes), t2)"
    and differs: "\<not> (version (details_of_bytes cfg bytes) = version details
                     \<and> size_d (details_of_bytes cfg bytes) = size_d details)"
    and s3: "s3 = s2\<lparr>dev := t2, calls := calls s2 @ [Ubd_read bdOffset (sizeof_details cfg) BD_ERROR_OK]\<rparr>"
    and loop: "copy_loop cfg hw (size_d details) (ucast (size_d details)) 0
                 (bdOffset + sizeof_details cfg) s3 = Some s4"
    and sha: "bdSha256_calculate hw (buffer_array s4) (bdOffset + sizeof_details cfg)
                (size_d details) (dev s4) = ((shaInBd, buffer'), t4)"
    and s5: "s5 = s4\<lparr>dev := t4, buffer_array := buffer',
                      calls := calls s4 @ [BdSha256_calculate (bdOffset + sizeof_details cfg)
                                             (size_d details) shaInBd]\<rparr>"
  shows "(\<exists>cs. calls s4 = calls s3 @ cs \<and> chunk_copies cs)
       \<and> (\<not> memcmp_eq (hash details) shaInBd SIZEOF_SHA256 \<longrightarrow>
            copyActiveApplicationIntoFlash cfg hw details0 bdOffset s = Some (RESULT_ERROR, s5)
            \<and> last (calls s5) = BdSha256_calculate (bdOffset + sizeof_details cfg)
                                   (size_d details) shaInBd)
       \<and> (memcmp_eq (hash details) shaInBd SIZEOF_SHA256 \<longrightarrow>
            (\<exists>program_status t5 s6.
               ubd_program hw (details_bytes cfg details) bdOffset (sizeof_details cfg) (dev s5)
                 = (program_status, t5)
               \<and> s6 = s5\<lparr>dev := t5,
                         calls := calls s5 @ [Ubd_program (details_bytes cfg details) bdOffset
                                                (sizeof_details cfg) program_status]\<rparr>
               \<and> copyActiveApplicationIntoFlash cfg hw details0 bdOffset s
                   = Some (RESULT_SUCCESS, s6)
               \<and> last (calls s6) = Ubd_program (details_bytes cfg details) bdOffset
                                      (sizeof_details cfg) program_status))"
proof (intro conjI impI)
  show "\<exists>cs. calls s4 = calls s3 @ cs \<and> chunk_copies cs"
    using loop by (rule copy_loop_calls)
next
  assume "\<not> memcmp_eq (hash details) shaInBd SIZEOF_SHA256"
  then show "copyActiveApplicationIntoFlash cfg hw details0 bdOffset s = Some (RESULT_ERROR, s5)"
    using mirror_prefix[OF init hdr pos rd] differs loop sha
    unfolding s3[symmetric] by (simp add: Let_def s5)
  show "last (calls s5) = BdSha256_calculate (bdOffset + sizeof_details cfg) (size_d details) shaInBd"
    by (simp add: s5)
next
  assume m: "memcmp_eq (hash details) shaInBd SIZEOF_SHA256"
  obtain program_status t5 where
    pr: "ubd_program hw (details_bytes cfg details) bdOffset (sizeof_details cfg) (dev s5)
           = (program_status, t5)"
    by (metis prod.exhaust)
  define s6 where "s6 = s5\<lparr>dev := t5,
                         calls := calls s5 @ [Ubd_program (details_bytes cfg details) bdOffset
                                                (sizeof_details cfg) program_status]\<rparr>"
  have "copyActiveApplicationIntoFlash cfg hw details0 bdOffset s = Some (RESULT_SUCCESS, s6)"
    using mirror_prefix[OF init hdr pos rd] differs loop sha m pr
    unfolding s3[symmetric] s6_def by (simp add: Let_def s5)
  moreover have "last (calls s6) = Ubd_program (details_bytes cfg details) bdOffset
                                      (sizeof_details cfg) program_status"
    by (simp add: s6_def)
  ultimately show "\<exists>program_status t5 s6.
               ubd_program hw (details_bytes cfg details) bdOffset (sizeof_details cfg) (dev s5)
                 = (program_status, t5)
               \<and> s6 = s5\<lparr>dev := t5,
                         calls := calls s5 @ [Ubd_program (details_bytes cfg details) bdOffset
                                                (sizeof_details cfg) program_status]\<rparr>
               \<and> copyActiveApplicationIntoFlash cfg hw details0 bdOffset s
                   = Some (RESULT_SUCCESS, s6)
               \<and> last (calls s6) = Ubd_program (details_bytes cfg details) bdOffset
                                      (sizeof_details cfg) program_status"
    using pr s6_def by blast
qed

lemmas toy_k_defs = toy_k2_def toy_k3_def toy_k4_def toy_k5_def toy_l4_def toy_l5_def

theorem copyActiveApplicationIntoFlash_commits_after_digest_match_witness:
  "ubd_init toy_hw_program_lost (dev toy_s0) = (BD_ERROR_OK, dev toy_s0)
   \<and> readActiveFirmwareHeader toy_hw_program_lost (Some toy_empty_details)
        (mirror_entry toy_s0 BD_ERROR_OK (dev toy_s0)) = Some ((True, Some toy_details), toy_k2)
   \<and> 0 < size_d toy_details
   \<and> ubd_read toy_hw_program_lost 0 (sizeof_details toy_cfg) (dev toy_k2)
       = ((BD_ERROR_OK, replicate 34 0), dev toy_s0)
   \<and> \<not> (version (details_of_bytes toy_cfg (replicate 34 0)) = version toy_details
          \<and> size_d (details_of_bytes toy_cfg (replicate 34 0)) = size_d toy_details)
   \<and> copy_loop toy_cfg toy_hw_program_lost (size_d toy_details) (ucast (size_d toy_details)) 0
        (0 + sizeof_details toy_cfg) toy_k3 = Some toy_l4
   \<and> bdSha256_calculate toy_hw_program_lost (buffer_array toy_l4) (0 + sizeof_details toy_cfg)
        (size_d toy_details) (dev toy_l4)
       = ((toy_finish (6, 0), buffer_array toy_l4), dev toy_l4)
   \<and> \<not> memcmp_eq (hash toy_details) (toy_finish (6, 0)) SIZEOF_SHA256
   \<and> copyActiveApplicationIntoFlash toy_cfg toy_hw_program_lost toy_empty_details 0 toy_s0
       = Some (RESULT_ERROR, toy_l5)
   \<and> last (calls toy_l5) = BdSha256_calculate 34 6 (toy_finish (6, 0))
   \<and> ubd_init toy_hw (dev toy_s0) = (BD_ERROR_OK, dev toy_s0)
   \<and> readActiveFirmwareHeader toy_hw (Some toy_empty_details)
        (mirror_entry toy_s0 BD_ERROR_OK (dev toy_s0)) = Some ((True, Some toy_details), toy_k2)
   \<and> ubd_read toy_hw 0 (sizeof_details toy_cfg) (dev toy_k2)
       = ((BD_ERROR_OK, replicate 34 0), dev toy_s0)
   \<and> copy_loop toy_cfg toy_hw (size_d toy_details) (ucast (size_d toy_details)) 0
        (0 + sizeof_details toy_cfg) toy_k3 = Some toy_k4
   \<and> bdSha256_calculate toy_hw (buffer_array toy_k4) (0 + sizeof_details toy_cfg)
        (size_d toy_details) (dev toy_k4)
       = ((toy_finish (6, 21), buffer_array toy_k4), dev toy_k4)
   \<and> memcmp_eq (hash toy_details) (toy_finish (6, 21)) SIZEOF_SHA256
   \<and> copyActiveApplicationIntoFlash toy_cfg toy_hw toy_empty_details 0 toy_s0
       = Some (RESULT_SUCCESS, toy_m1)
   \<and> last (calls toy_m1) = Ubd_program (toy_encode toy_details) 0 34 0"
proof -
  let ?lost = toy_hw_program_lost
  have i1: "ubd_init ?lost (dev toy_s0) = (BD_ERROR_OK, dev toy_s0)"
    and i2: "ubd_init toy_hw (dev toy_s0) = (BD_ERROR_OK, dev toy_s0)"
    by (simp_all add: toy_hw_program_lost_def toy_hw_def BD_ERROR_OK_def)
  have h1: "readActiveFirmwareHeader ?lost (Some toy_empty_details)
              (mirror_entry toy_s0 BD_ERROR_OK (dev toy_s0)) = Some ((True, Some toy_details), toy_k2)"
    and h2: "readActiveFirmwareHeader toy_hw (Some toy_empty_details)
              (mirror_entry toy_s0 BD_ERROR_OK (dev toy_s0)) = Some ((True, Some toy_details), toy_k2)"
    by (simp_all add: mirror_defs toy_hw_program_lost_def toy_k_defs)
  have p: "0 < size_d toy_details"
    by (simp add: toy_details_def)
  have r1: "ubd_read ?lost 0 (sizeof_details toy_cfg) (dev toy_k2)
              = ((BD_ERROR_OK, replicate 34 0), dev toy_s0)"
    and r2: "ubd_read toy_hw 0 (sizeof_details toy_cfg) (dev toy_k2)
              = ((BD_ERROR_OK, replicate 34 0), dev toy_s0)"
    by (simp_all add: mirror_defs toy_hw_program_lost_def toy_k_defs)
  have d: "\<not> (version (details_of_bytes toy_cfg (replicate 34 0)) = version toy_details
             \<and> size_d (details_of_bytes toy_cfg (replicate 34 0)) = size_d toy_details)"
    by (simp add: toy_defs)
  have s3: "toy_k3 = toy_k2\<lparr>dev := dev toy_s0,
                calls := calls toy_k2 @ [Ubd_read 0 (sizeof_details toy_cfg) BD_ERROR_OK]\<rparr>"
    by (simp add: toy_k3_def toy_cfg_def BD_ERROR_OK_def)
  have l1: "copy_loop toy_cfg ?lost (size_d toy_details) (ucast (size_d toy_details)) 0
              (0 + sizeof_details toy_cfg) toy_k3 = Some toy_l4"
    by (simp add: mirror_defs toy_hw_program_lost_def toy_k_defs)
  have l2: "copy_loop toy_cfg toy_hw (size_d toy_details) (ucast (size_d toy_details)) 0
              (0 + sizeof_details toy_cfg) toy_k3 = Some toy_k4"
    by (simp add: mirror_defs toy_k_defs)
  have c1: "bdSha256_calculate ?lost (buffer_array toy_l4) (0 + sizeof_details toy_cfg)
              (size_d toy_details) (dev toy_l4)
            = ((toy_finish (6, 0), buffer_array toy_l4), dev toy_l4)"
    by (simp add: mirror_defs toy_hw_program_lost_def toy_k_defs)
  have c2: "bdSha256_calculate toy_hw (buffer_array toy_k4) (0 + sizeof_details toy_cfg)
              (size_d toy_details) (dev toy_k4)
            = ((toy_finish (6, 21), buffer_array toy_k4), dev toy_k4)"
    by (simp add: mirror_defs toy_k_defs)
  have s5l: "toy_l5 = toy_l4\<lparr>dev := dev toy_l4, buffer_array := buffer_array toy_l4,
                calls := calls toy_l4 @ [BdSha256_calculate (0 + sizeof_details toy_cfg)
                                           (size_d toy_details) (toy_finish (6, 0))]\<rparr>"
    by (simp add: toy_l5_def toy_cfg_def toy_details_def)
  have s5k: "toy_k5 = toy_k4\<lparr>dev := dev toy_k4, buffer_array := buffer_array toy_k4,
                calls := calls toy_k4 @ [BdSha256_calculate (0 + sizeof_details toy_cfg)
                                           (size_d toy_details) (toy_finish (6, 21))]\<rparr>"
    by (simp add: toy_k5_def toy_cfg_def toy_details_def)
  have ne: "\<not> memcmp_eq (hash toy_details) (toy_finish (6, 0)) SIZEOF_SHA256"
    and eq: "memcmp_eq (hash toy_details) (toy_finish (6, 21)) SIZEOF_SHA256"
    by (simp_all add: toy_defs)
  have commit: "ubd_program toy_hw (details_bytes toy_cfg toy_details) 0 (sizeof_details toy_cfg)
                  (dev toy_k5) = (0, dev toy_m1)"
    by (simp add: mirror_defs toy_k_defs toy_m1_def)
  have m1: "toy_k5\<lparr>dev := dev toy_m1,
                   calls := calls toy_k5 @ [Ubd_program (details_bytes toy_cfg toy_details) 0
                                              (sizeof_details toy_cfg) 0]\<rparr> = toy_m1"
    by (simp add: mirror_defs toy_k_defs toy_m1_def)
  have lm: "last (calls toy_m1) = Ubd_program (toy_encode toy_details) 0 34 0"
    by (simp add: toy_m1_def toy_mirror_calls_def)
  from copyActiveApplicationIntoFlash_commits_after_digest_match[OF i1 h1 p r1 d s3 l1 c1 s5l] ne
  have lost: "copyActiveApplicationIntoFlash toy_cfg ?lost toy_empty_details 0 toy_s0
                = Some (RESULT_ERROR, toy_l5)
              \<and> last (calls toy_l5) = BdSha256_calculate 34 6 (toy_finish (6, 0))"
    by (simp add: toy_cfg_def toy_details_def)
  from copyActiveApplicationIntoFlash_commits_after_digest_match[OF i2 h2 p r2 d s3 l2 c2 s5k] eq
  have good: "copyActiveApplicationIntoFlash toy_cfg toy_hw toy_empty_details 0 toy_s0
                = Some (RESULT_SUCCESS, toy_m1)
              \<and> last (calls toy_m1) = Ubd_program (toy_encode toy_details) 0 34 0"
    using commit m1 lm by (auto simp: toy_cfg_def)
  show ?thesis
    using i1 i2 h1 h2 p r1 r2 d l1 l2 c1 c2 ne eq lost good by simp
qed

lemma same_but_program_status_sym:
  assumes "same_but_program_status hw hw'"
  shows "same_but_program_status hw' hw"
proof -
  from assms have e: "hw' = hw\<lparr>ubd_program := ubd_program hw'\<rparr>"
    and p: "\<forall>data off n t. snd (ubd_program hw' data off n t) = snd (ubd_program hw data off n t)"
    by (simp_all add: same_but_program_status_def)
  have "hw = hw'\<lparr>ubd_program := ubd_program hw\<rparr>"
    by (subst e) simp
  then show ?thesis
    using p by (simp add: same_but_program_status_def)
qed

lemma same_fields:
  assumes "same_but_program_status hw hw'"
  shows "flash_read hw' = flash_read hw"
    and "ubd_init hw' = ubd_init hw"
    and "ubd_read hw' = ubd_read hw"
    and "bdSha256_calculate hw' = bdSha256_calculate hw"
    and "ARM_UCP_GetActiveFirmwareDetails hw' = ARM_UCP_GetActiveFirmwareDetails hw"
    and "snd (ubd_program hw' data off n t) = snd (ubd_program hw data off n t)"
proof -
  from assms have e: "hw' = hw\<lparr>ubd_program := ubd_program hw'\<rparr>"
    and p: "\<forall>data off n t. snd (ubd_program hw' data off n t) = snd (ubd_program hw data off n t)"
    by (simp_all add: same_but_program_status_def)
  show "flash_read hw' = flash_read hw" by (subst e) simp
  show "ubd_init hw' = ubd_init hw" by (subst e) simp
  show "ubd_read hw' = ubd_read hw" by (subst e) simp
  show "bdSha256_calculate hw' = bdSha256_calculate hw" by (subst e) simp
  show "ARM_UCP_GetActiveFirmwareDetails hw' = ARM_UCP_GetActiveFirmwareDetails hw" by (subst e) simp
  show "snd (ubd_program hw' data off n t) = snd (ubd_program hw data off n t)" using p by blast
qed

lemma readActiveFirmwareHeader_same:
  assumes "same_but_program_status hw hw'"
  shows "readActiveFirmwareHeader hw' d s = readActiveFirmwareHeader hw d s"
  by (cases d) (simp_all add: readActiveFirmwareHeader_def same_fields(5)[OF assms])

lemma copy_loop_status_sim:
  fixes hw :: "('s, 'c) platform" and s :: "'s machine"
  assumes "copy_loop cfg hw dsize remaining status offset s = Some s'"
  shows "\<forall>hw' u. same_but_program_status hw hw' \<and> dev u = dev s \<and> buffer_array u = buffer_array s
           \<longrightarrow> (\<exists>u'. copy_loop cfg hw' dsize remaining status offset u = Some u'
                      \<and> dev u' = dev s' \<and> buffer_array u' = buffer_array s')"
proof (rule copy_loop.raw_induct[where P="\<lambda>cfg (hw :: ('s, 'c) platform) dsize remaining status offset
            (s :: 's machine) s'.
         \<forall>hw' u. same_but_program_status hw hw' \<and> dev u = dev s \<and> buffer_array u = buffer_array s
           \<longrightarrow> (\<exists>u'. copy_loop cfg hw' dsize remaining status offset u = Some u'
                      \<and> dev u' = dev s' \<and> buffer_array u' = buffer_array s')", OF _ assms])
  fix f cfg and hw :: "('s, 'c) platform" and dsize remaining and status :: int
    and offset and s s' :: "'s machine"
  assume IH: "\<And>cfg (hw :: ('s, 'c) platform) dsize remaining status offset (s :: 's machine) s'.
       f cfg hw dsize remaining status offset s = Some s'
       \<Longrightarrow> \<forall>hw' u. same_but_program_status hw hw' \<and> dev u = dev s \<and> buffer_array u = buffer_array s
           \<longrightarrow> (\<exists>u'. copy_loop cfg hw' dsize remaining status offset u = Some u'
                      \<and> dev u' = dev s' \<and> buffer_array u' = buffer_array s')"
    and body: "(if remaining > 0 \<and> status = 0 then
        (let readSize = (if remaining > BUFFER_SIZE cfg then BUFFER_SIZE cfg else remaining);
             addr = (ucast ((ucast (MBED_CONF_APP_APPLICATION_START_ADDRESS cfg) :: u64)
                            + (dsize - ucast remaining)) :: u32)
         in case flash_read hw addr readSize (dev s) of
              ((status', data), t) \<Rightarrow>
                let s1 = s\<lparr>dev := t,
                           buffer_array := store (buffer_array s) (take (unat readSize) data),
                           calls := calls s @ [Flash_read addr readSize status']\<rparr>;
                    chunk = take (unat readSize) (buffer_array s1)
                in case ubd_program hw chunk offset readSize (dev s1) of
                     (program_status, t') \<Rightarrow>
                       f cfg hw dsize (remaining - readSize) status' (offset + readSize)
                         (s1\<lparr>dev := t',
                             calls := calls s1
                               @ [Ubd_program chunk offset readSize program_status]\<rparr>))
      else Some s) = Some s'"
  show "\<forall>hw' u. same_but_program_status hw hw' \<and> dev u = dev s \<and> buffer_array u = buffer_array s
           \<longrightarrow> (\<exists>u'. copy_loop cfg hw' dsize remaining status offset u = Some u'
                      \<and> dev u' = dev s' \<and> buffer_array u' = buffer_array s')"
  proof (intro allI impI)
    fix hw' :: "('s, 'c) platform" and u :: "'s machine"
    assume rel: "same_but_program_status hw hw' \<and> dev u = dev s \<and> buffer_array u = buffer_array s"
    then have same: "same_but_program_status hw hw'" and du: "dev u = dev s"
      and bu: "buffer_array u = buffer_array s" by simp_all
    show "\<exists>u'. copy_loop cfg hw' dsize remaining status offset u = Some u'
                      \<and> dev u' = dev s' \<and> buffer_array u' = buffer_array s'"
    proof (cases "remaining > 0 \<and> status = 0")
      case False
      have "s' = s" using body unfolding if_not_P[OF False] by simp
      moreover have "copy_loop cfg hw' dsize remaining status offset u = Some u"
        by (subst copy_loop.simps) (rule if_not_P[OF False])
      ultimately show ?thesis using du bu by simp
    next
      case True
      define readSize where "readSize = (if remaining > BUFFER_SIZE cfg then BUFFER_SIZE cfg else remaining)"
      define addr where "addr = (ucast ((ucast (MBED_CONF_APP_APPLICATION_START_ADDRESS cfg) :: u64)
                            + (dsize - ucast remaining)) :: u32)"
      obtain status' data t where rd: "flash_read hw addr readSize (dev s) = ((status', data), t)"
        by (metis prod.exhaust)
      define buf where "buf = store (buffer_array s) (take (unat readSize) data)"
      define chunk where "chunk = take (unat readSize) buf"
      obtain pst t' where pr: "ubd_program hw chunk offset readSize t = (pst, t')"
        by (metis prod.exhaust)
      obtain pst' where pr': "ubd_program hw' chunk offset readSize t = (pst', t')"
        using same_fields(6)[OF same, of chunk offset readSize t] pr
        by (metis prod.collapse snd_conv)
      define s2 where "s2 = s\<lparr>buffer_array := buf, dev := t',
                calls := calls s @ [Flash_read addr readSize status',
                                    Ubd_program chunk offset readSize pst]\<rparr>"
      define u2 where "u2 = u\<lparr>buffer_array := buf, dev := t',
                calls := calls u @ [Flash_read addr readSize status',
                                    Ubd_program chunk offset readSize pst']\<rparr>"
      have next_s: "f cfg hw dsize (remaining - readSize) status' (offset + readSize) s2 = Some s'"
        using body rd pr unfolding if_P[OF True] s2_def chunk_def buf_def
        by (simp add: Let_def readSize_def[symmetric] addr_def[symmetric])
      have rel2: "same_but_program_status hw hw' \<and> dev u2 = dev s2 \<and> buffer_array u2 = buffer_array s2"
        using same by (simp add: u2_def s2_def)
      from IH[OF next_s, rule_format, OF rel2] obtain u' where
        run: "copy_loop cfg hw' dsize (remaining - readSize) status' (offset + readSize) u2 = Some u'"
        and o: "dev u' = dev s'" "buffer_array u' = buffer_array s'" by blast
      have "copy_loop cfg hw' dsize remaining status offset u
              = copy_loop cfg hw' dsize (remaining - readSize) status' (offset + readSize) u2"
        apply (subst copy_loop.simps)
        unfolding if_P[OF True]
        using rd pr' unfolding u2_def chunk_def buf_def
        by (simp add: Let_def readSize_def[symmetric] addr_def[symmetric]
            same_fields(1)[OF same] du bu)
      then show ?thesis using run o by simp
    qed
  qed
qed


lemma copy_loop_status_irrelevant:
  fixes hw :: "('s, 'c) platform" and s :: "'s machine"
  assumes same: "same_but_program_status hw hw'"
  shows "(copy_loop cfg hw dsize remaining status offset s = None
            \<and> copy_loop cfg hw' dsize remaining status offset s = None)
       \<or> (\<exists>s4 u4. copy_loop cfg hw dsize remaining status offset s = Some s4
            \<and> copy_loop cfg hw' dsize remaining status offset s = Some u4
            \<and> dev u4 = dev s4 \<and> buffer_array u4 = buffer_array s4)"
proof (cases "copy_loop cfg hw dsize remaining status offset s")
  case (Some s4)
  from copy_loop_status_sim[OF Some, rule_format, of hw' s] same
  show ?thesis using Some by auto
next
  case None
  show ?thesis
  proof (cases "copy_loop cfg hw' dsize remaining status offset s")
    case (Some u4)
    from copy_loop_status_sim[OF Some, rule_format, of hw s]
      same_but_program_status_sym[OF same]
    show ?thesis using None by auto
  next
    case n: None
    then show ?thesis using None by simp
  qed
qed

text \<open>
  C10. The value of \<open>ubd.program\<close> is never used. Take two platforms that differ at
  most in the status their \<open>ubd.program\<close> returns, the device being left in the same
  state: from the same machine state, \<open>copyActiveApplicationIntoFlash\<close> returns on one
  exactly when it returns on the other, with the same result, the same device and the same
  staging buffer. What decides the result is what the device holds when its digest is
  computed.
\<close>

theorem copyActiveApplicationIntoFlash_ignores_program_status:
  fixes hw :: "('s, 'c) platform" and s :: "'s machine"
  assumes same: "same_but_program_status hw hw'"
  shows "observe (copyActiveApplicationIntoFlash cfg hw' details0 bdOffset s)
       = observe (copyActiveApplicationIntoFlash cfg hw details0 bdOffset s)"
proof -
  note f = same_fields[OF same] readActiveFirmwareHeader_same[OF same]
  obtain st t0 where init: "ubd_init hw (dev s) = (st, t0)"
    by (metis prod.exhaust)
  show ?thesis
  proof (cases "st = BD_ERROR_OK")
    case False
    then show ?thesis
      using init by (simp add: copyActiveApplicationIntoFlash_def Let_def f)
  next
    case ok: True
    show ?thesis
    proof (cases "readActiveFirmwareHeader hw (Some details0) (mirror_entry s BD_ERROR_OK t0)")
      case None
      then show ?thesis
        using init ok by (simp add: copyActiveApplicationIntoFlash_def Let_def f mirror_entry_def)
    next
      case (Some r)
      then obtain hv dopt s2 where
        hdr: "readActiveFirmwareHeader hw (Some details0) (mirror_entry s BD_ERROR_OK t0)
                = Some ((hv, dopt), s2)"
        by (metis prod.exhaust)
      then obtain details where d: "dopt = Some details"
        using readActiveFirmwareHeader_Some by blast
      obtain st' bytes t2 where rd: "ubd_read hw bdOffset (sizeof_details cfg) (dev s2) = ((st', bytes), t2)"
        by (metis prod.exhaust)
      show ?thesis
      proof (cases "hv \<and> 0 < size_d details \<and> st' = BD_ERROR_OK
                    \<and> \<not> (version (details_of_bytes cfg bytes) = version details
                           \<and> size_d (details_of_bytes cfg bytes) = size_d details)")
        case False
        then show ?thesis
          using init ok hdr d rd
          by (auto simp: copyActiveApplicationIntoFlash_def Let_def f mirror_entry_def)
      next
        case True
        then have hv: hv and pos: "0 < size_d details" and st': "st' = BD_ERROR_OK"
          and differs: "\<not> (version (details_of_bytes cfg bytes) = version details
                           \<and> size_d (details_of_bytes cfg bytes) = size_d details)"
          by simp_all
        define s3 where "s3 = s2\<lparr>dev := t2,
                  calls := calls s2 @ [Ubd_read bdOffset (sizeof_details cfg) BD_ERROR_OK]\<rparr>"
        have init1: "ubd_init hw (dev s) = (BD_ERROR_OK, t0)" using init ok by simp
        have init2: "ubd_init hw' (dev s) = (BD_ERROR_OK, t0)" using init1 by (simp add: f)
        have hdr1: "readActiveFirmwareHeader hw (Some details0) (mirror_entry s BD_ERROR_OK t0)
                = Some ((True, Some details), s2)" using hdr d hv by simp
        have hdr2: "readActiveFirmwareHeader hw' (Some details0) (mirror_entry s BD_ERROR_OK t0)
                = Some ((True, Some details), s2)" using hdr1 by (simp add: f)
        have rd1: "ubd_read hw bdOffset (sizeof_details cfg) (dev s2) = ((BD_ERROR_OK, bytes), t2)"
          using rd st' by simp
        have rd2: "ubd_read hw' bdOffset (sizeof_details cfg) (dev s2) = ((BD_ERROR_OK, bytes), t2)"
          using rd1 by (simp add: f)
        note run1 = mirror_prefix[OF init1 hdr1 pos rd1, unfolded Let_def s3_def[symmetric]]
        note run2 = mirror_prefix[OF init2 hdr2 pos rd2, unfolded Let_def s3_def[symmetric]]
        from copy_loop_status_irrelevant[OF same, of cfg "size_d details" "ucast (size_d details)" 0
            "bdOffset + sizeof_details cfg" s3]
        show ?thesis
        proof (elim disjE conjE exE)
          assume "copy_loop cfg hw (size_d details) (ucast (size_d details)) 0
                    (bdOffset + sizeof_details cfg) s3 = None"
            and "copy_loop cfg hw' (size_d details) (ucast (size_d details)) 0
                    (bdOffset + sizeof_details cfg) s3 = None"
          then show ?thesis
            using differs by (auto simp: run1 run2)
        next
          fix s4 u4
          assume l1: "copy_loop cfg hw (size_d details) (ucast (size_d details)) 0
                    (bdOffset + sizeof_details cfg) s3 = Some s4"
            and l2: "copy_loop cfg hw' (size_d details) (ucast (size_d details)) 0
                    (bdOffset + sizeof_details cfg) s3 = Some u4"
            and o: "dev u4 = dev s4" "buffer_array u4 = buffer_array s4"
          show ?thesis
            using differs l1 l2 o
            by (auto simp: run1 run2 observe_def f split: prod.splits) (metis f(6) snd_conv)+
        qed
      qed
    qed
  qed
qed

lemma toy_chunks_run:
  "copyActiveApplicationIntoFlash toy_cfg4 toy_hw toy_empty_details 0 toy_s0
     = Some (RESULT_SUCCESS, toy_t1 0)"
  by (simp add: mirror_defs toy_cfg4_def toy_t1_def)

lemma toy_chunks_run_lies:
  "copyActiveApplicationIntoFlash toy_cfg4 toy_hw_status_lies toy_empty_details 0 toy_s0
     = Some (RESULT_SUCCESS, toy_t1 (- 1))"
  by (simp add: mirror_defs toy_cfg4_def toy_hw_status_lies_def toy_t1_def)

lemma toy_chunks_run_lost:
  "copyActiveApplicationIntoFlash toy_cfg4 toy_hw_program_lost toy_empty_details 0 toy_s0
     = Some (RESULT_ERROR, toy_u1 0)"
  by (simp add: mirror_defs toy_cfg4_def toy_hw_program_lost_def toy_u1_def)

lemma toy_chunks_run_fails:
  "copyActiveApplicationIntoFlash toy_cfg4 toy_hw_program_fails toy_empty_details 0 toy_s0
     = Some (RESULT_ERROR, toy_u1 (- 1))"
  by (simp add: mirror_defs toy_cfg4_def toy_hw_program_fails_def toy_u1_def)

theorem copyActiveApplicationIntoFlash_ignores_program_status_witness:
  "same_but_program_status toy_hw toy_hw_status_lies
   \<and> observe (copyActiveApplicationIntoFlash toy_cfg4 toy_hw_status_lies toy_empty_details 0 toy_s0)
       = observe (copyActiveApplicationIntoFlash toy_cfg4 toy_hw toy_empty_details 0 toy_s0)
   \<and> copyActiveApplicationIntoFlash toy_cfg4 toy_hw toy_empty_details 0 toy_s0
       = Some (RESULT_SUCCESS, toy_t1 0)
   \<and> copyActiveApplicationIntoFlash toy_cfg4 toy_hw_status_lies toy_empty_details 0 toy_s0
       = Some (RESULT_SUCCESS, toy_t1 (- 1))
   \<and> same_but_program_status toy_hw_program_lost toy_hw_program_fails
   \<and> observe (copyActiveApplicationIntoFlash toy_cfg4 toy_hw_program_fails toy_empty_details 0 toy_s0)
       = observe (copyActiveApplicationIntoFlash toy_cfg4 toy_hw_program_lost toy_empty_details 0
                    toy_s0)
   \<and> copyActiveApplicationIntoFlash toy_cfg4 toy_hw_program_lost toy_empty_details 0 toy_s0
       = Some (RESULT_ERROR, toy_u1 0)
   \<and> copyActiveApplicationIntoFlash toy_cfg4 toy_hw_program_fails toy_empty_details 0 toy_s0
       = Some (RESULT_ERROR, toy_u1 (- 1))"
proof -
  have rel: "same_but_program_status toy_hw toy_hw_status_lies"
    by (simp add: same_but_program_status_def toy_hw_status_lies_def)
  have rel': "same_but_program_status toy_hw_program_lost toy_hw_program_fails"
    by (simp add: same_but_program_status_def toy_hw_program_lost_def toy_hw_program_fails_def)
  show ?thesis
    using copyActiveApplicationIntoFlash_ignores_program_status[OF rel,
        of toy_cfg4 toy_empty_details 0 toy_s0]
      copyActiveApplicationIntoFlash_ignores_program_status[OF rel',
        of toy_cfg4 toy_empty_details 0 toy_s0]
      rel rel' toy_chunks_run toy_chunks_run_lies toy_chunks_run_lost toy_chunks_run_fails
    by simp
qed


end
